(* ===== verification/Prelude.thy ===== *)
theory Prelude
  imports Complex_Main "HOL-Library.Word"
begin

text \<open>
  Shared vocabulary of the development. JavaScript strings are sequences of UTF-16
  code units, so a string of the program is a list of 16-bit words; ASCII literals are
  written \<open>js ''...''\<close>. The naira sign U+20A6 that the calculators print and strip is
  the single code unit \<open>0x20A6\<close> (\<open>naira_sign\<close>). The collection \<open>js_simps\<close> gathers
  the rewrite rules that evaluate the model on concrete JavaScript values; the list
  lemmas here are used by the parser, the formatter and the calculators alike.
\<close>

type_synonym code_unit = "16 word"
type_synonym js_string = "code_unit list"

abbreviation js :: "string \<Rightarrow> js_string" where
  "js s \<equiv> map (\<lambda>c. of_nat (of_char c)) s"

abbreviation naira_sign :: code_unit where
  "naira_sign \<equiv> 0x20A6"

named_theorems js_simps "rules that evaluate the model on concrete values"

subsection \<open>Sums as the source writes them\<close>

text \<open>\<open>xs.reduce((s, x) => s + x, a)\<close> is a left fold; over a commutative monoid it is
  the start value plus the sum of the list.\<close>

lemma foldl_plus_eq_sum_list:
  "foldl (+) a xs = a + sum_list (xs :: 'a::comm_monoid_add list)"
  by (induction xs arbitrary: a) (simp_all add: add.assoc)

lemma sum_list_nonneg_rat:
  "(\<forall>x \<in> set xs. 0 \<le> (x::rat)) \<Longrightarrow> 0 \<le> sum_list xs"
  by (induction xs) auto

lemma sum_list_mono_rat:
  "list_all2 (\<le>) xs (ys :: rat list) \<Longrightarrow> sum_list xs \<le> sum_list ys"
  by (induction xs ys rule: list_all2_induct) (auto intro: add_mono)

subsection \<open>Lists rendered by index\<close>

text \<open>\<open>xs.map((x, i) => ...)\<close> is a map over \<open>enumerate 0 xs\<close>; these rules filter such a
  rendering and read the items back.\<close>

lemma filter_eq_one: "i < n \<Longrightarrow> filter ((=) i) [0..<n] = [i]"
  by (induction n) (auto simp: filter_empty_conv)

lemma map_snd_enumerate: "map snd (enumerate n xs) = xs"
  by (simp add: enumerate_eq_zip)

lemma filter_map_all: "(\<forall>x \<in> set xs. P (f x)) \<Longrightarrow> filter P (map f xs) = map f xs"
  by (induction xs) auto

lemma filter_map_none: "(\<forall>x \<in> set xs. \<not> P (f x)) \<Longrightarrow> filter P (map f xs) = []"
  by (induction xs) auto

subsection \<open>Code units\<close>

lemma unat_of_char [simp]: "unat (of_nat (of_char c) :: code_unit) = of_char c"
proof -
  have "of_char c < (256::nat)" by (rule nat_of_char_less_256)
  then have "of_char c < (2::nat) ^ LENGTH(16)" by (simp add: less_trans [of _ 256])
  then show ?thesis by (simp add: unat_of_nat)
qed

subsection \<open>Rational numerals\<close>

text \<open>Rounding evaluates a \<open>floor\<close> of a quotient of numerals; these rules let the
  simplifier compute it.\<close>

lemma floor_numeral_divide [simp]: "\<lfloor>numeral a / numeral b :: rat\<rfloor> = numeral a div numeral b"
  using floor_divide_of_int_eq [of "numeral a" "numeral b", where 'a = rat] by simp

lemma floor_neg_numeral_divide [simp]: "\<lfloor>- numeral a / numeral b :: rat\<rfloor> = - numeral a div numeral b"
  using floor_divide_of_int_eq [of "- numeral a" "numeral b", where 'a = rat] by simp

end
