(* ===== verification/JsNumber.thy ===== *)
theory JsNumber
  imports Prelude
begin

text \<open>
  JavaScript numbers as the calculators use them. A double is modelled by its exact
  value: a rational number, or one of the three non-finite values \<open>Infinity\<close>,
  \<open>-Infinity\<close> and \<open>NaN\<close>. Arithmetic follows ECMAScript on these values (NaN
  propagates, \<open>Infinity - Infinity\<close> and \<open>0 * Infinity\<close> are NaN, comparisons with
  NaN are false) but is exact on finite values: rounding to 53 bits, overflow to
  Infinity and the sign of zero are not modelled. The operations are the ones the
  sources apply: \<open>+ - * /\<close>, \<open>%\<close> by 1, \<open>Math.max\<close>, \<open>Math.round\<close>,
  \<open>isNaN\<close>, \<open>===\<close> and the relational operators.
\<close>

datatype number = Num rat | Infinity | NegInfinity | NaN

fun js_neg :: "number \<Rightarrow> number" where
  "js_neg (Num a) = Num (- a)"
| "js_neg Infinity = NegInfinity"
| "js_neg NegInfinity = Infinity"
| "js_neg NaN = NaN"

fun js_add :: "number \<Rightarrow> number \<Rightarrow> number" where
  "js_add (Num a) (Num b) = Num (a + b)"
| "js_add NaN _ = NaN"
| "js_add _ NaN = NaN"
| "js_add Infinity NegInfinity = NaN"
| "js_add NegInfinity Infinity = NaN"
| "js_add Infinity _ = Infinity"
| "js_add NegInfinity _ = NegInfinity"
| "js_add (Num _) Infinity = Infinity"
| "js_add (Num _) NegInfinity = NegInfinity"

definition js_sub :: "number \<Rightarrow> number \<Rightarrow> number" where
  "js_sub a b = js_add a (js_neg b)"

text \<open>The sign of a product with an infinite factor; \<open>0 * Infinity\<close> is NaN.\<close>

fun inf_of_sign :: "rat \<Rightarrow> number" where
  "inf_of_sign a = (if 0 < a then Infinity else if a < 0 then NegInfinity else NaN)"

fun js_mul :: "number \<Rightarrow> number \<Rightarrow> number" where
  "js_mul (Num a) (Num b) = Num (a * b)"
| "js_mul NaN _ = NaN"
| "js_mul _ NaN = NaN"
| "js_mul (Num a) Infinity = inf_of_sign a"
| "js_mul (Num a) NegInfinity = inf_of_sign (- a)"
| "js_mul Infinity (Num b) = inf_of_sign b"
| "js_mul NegInfinity (Num b) = inf_of_sign (- b)"
| "js_mul Infinity Infinity = Infinity"
| "js_mul NegInfinity NegInfinity = Infinity"
| "js_mul Infinity NegInfinity = NegInfinity"
| "js_mul NegInfinity Infinity = NegInfinity"

text \<open>Division by a finite zero is taken as division by \<open>+0\<close>.\<close>

fun js_div :: "number \<Rightarrow> number \<Rightarrow> number" where
  "js_div (Num a) (Num b) = (if b = 0 then inf_of_sign a else Num (a / b))"
| "js_div NaN _ = NaN"
| "js_div _ NaN = NaN"
| "js_div (Num _) Infinity = Num 0"
| "js_div (Num _) NegInfinity = Num 0"
| "js_div Infinity (Num b) = (if b < 0 then NegInfinity else Infinity)"
| "js_div NegInfinity (Num b) = (if b < 0 then Infinity else NegInfinity)"
| "js_div _ _ = NaN"

text \<open>\<open>x % 1\<close>: the remainder of truncating division, NaN for non-finite \<open>x\<close>.\<close>

fun js_mod1 :: "number \<Rightarrow> number" where
  "js_mod1 (Num a) = Num (a - (if a < 0 then - of_int (floor (- a)) else of_int (floor a)))"
| "js_mod1 _ = NaN"

fun js_less :: "number \<Rightarrow> number \<Rightarrow> bool" where
  "js_less (Num a) (Num b) = (a < b)"
| "js_less NaN _ = False"
| "js_less _ NaN = False"
| "js_less NegInfinity b = (b \<noteq> NegInfinity)"
| "js_less a Infinity = (a \<noteq> Infinity)"
| "js_less _ _ = False"

definition js_le :: "number \<Rightarrow> number \<Rightarrow> bool" where
  "js_le a b \<longleftrightarrow> js_less a b \<or> (a = b \<and> a \<noteq> NaN)"

definition is_nan :: "number \<Rightarrow> bool" where
  "is_nan a \<longleftrightarrow> a = NaN"

text \<open>\<open>===\<close> on numbers: NaN is unequal to itself.\<close>

definition js_eq :: "number \<Rightarrow> number \<Rightarrow> bool" where
  "js_eq a b \<longleftrightarrow> a = b \<and> a \<noteq> NaN"

text \<open>\<open>Math.max(a, b)\<close>: NaN if either argument is NaN.\<close>

definition js_max :: "number \<Rightarrow> number \<Rightarrow> number" where
  "js_max a b = (if a = NaN \<or> b = NaN then NaN else if js_less a b then b else a)"

text \<open>\<open>Math.min(a, b)\<close>: NaN if either argument is NaN.\<close>

definition js_min :: "number \<Rightarrow> number \<Rightarrow> number" where
  "js_min a b = (if a = NaN \<or> b = NaN then NaN else if js_less b a then b else a)"

text \<open>\<open>ToBoolean\<close> of a number: \<open>0\<close> and NaN are falsy; \<open>a || b\<close> on numbers.\<close>

definition js_truthy :: "number \<Rightarrow> bool" where
  "js_truthy a \<longleftrightarrow> a \<noteq> Num 0 \<and> a \<noteq> NaN"

definition js_or :: "number \<Rightarrow> number \<Rightarrow> number" where
  "js_or a b = (if js_truthy a then a else b)"

text \<open>\<open>Math.round\<close>: the nearest integer, halves rounded towards \<open>+Infinity\<close>,
  which is \<open>floor (x + 1/2)\<close>, HOL's \<open>round\<close>.\<close>

fun js_round :: "number \<Rightarrow> number" where
  "js_round (Num a) = Num (of_int (round a))"
| "js_round x = x"

lemmas js_ops_defs [js_simps] = js_sub_def js_le_def is_nan_def js_eq_def js_max_def js_min_def
  js_truthy_def js_or_def

subsection \<open>Finite operands\<close>

text \<open>On finite operands the operators are the rational ones.\<close>

lemma js_max_Num [simp]: "js_max (Num a) (Num b) = Num (max a b)"
  by (simp add: js_max_def)

lemma js_sub_Num [simp]: "js_sub (Num a) (Num b) = Num (a - b)"
  by (simp add: js_sub_def)

lemma js_le_Num [simp]: "js_le (Num a) (Num b) \<longleftrightarrow> a \<le> b"
  by (auto simp: js_le_def)

lemma js_eq_Num [simp]: "js_eq (Num a) (Num b) \<longleftrightarrow> a = b"
  by (simp add: js_eq_def)

end
