(* ===== verification/PersonalTax.thy ===== *)
theory PersonalTax
  imports JsNumber
begin

text \<open>
  The personal income-tax service call \<^verbatim>\<open>calculateTax\<close>
  (\<^verbatim>\<open>src/src/services/tax.service.ts\<close>, lines 9--31) and the types it exchanges
  (\<^verbatim>\<open>src/src/types/tax.ts\<close>): the payload of five incomes and six deductions, the
  band list returned by the remote PAYE service, and the result the page displays. The
  HTTP exchange is an input: \<open>PayeOk bands\<close> for a response with \<open>res.ok\<close> whose
  \<open>data.value.value\<close> is \<open>bands\<close>, \<open>PayeFailed status\<close> otherwise, which
  \<^verbatim>\<open>calculateTax\<close> turns into a thrown error, here the left value of a sum.
  Band amounts come from JSON and are finite, so they are rationals.

  The lemmas show that on finite amounts the JavaScript arithmetic of the service
  computes the exact sums, clamps and rate (a refinement to rational arithmetic), what
  the failure path returns, and that rent relief enters the deductions uncapped.
\<close>

subsection \<open>Types\<close>

record income_payload =
  salaryIncome :: number
  businessIncome :: number
  rentalIncome :: number
  investmentIncome :: number
  otherIncome :: number

record deduction_payload =
  rent :: number
  pensionContribution :: number
  nhfContribution :: number
  lifeInsurance :: number
  nhisPremium :: number
  gratitude :: number

record tax_payload =
  income :: income_payload
  deductions :: deduction_payload

record tax_band =
  band :: js_string
  rate :: rat
  taxableAmount :: rat
  taxPaid :: rat

record tax_result =
  bands :: "tax_band list"
  annualTax :: number
  monthlyTax :: number
  grossIncome :: number
  totalDeductions :: number
  taxableIncome :: number
  netIncome :: number
  effectiveRate :: number

datatype paye_response = PayeOk "tax_band list" | PayeFailed nat

datatype service_error = RequestFailed nat

subsection \<open>calculateTax\<close>

definition gross_income :: "tax_payload \<Rightarrow> number" where
  "gross_income p =
     (let i = income p in
      js_add (js_add (js_add (js_add (salaryIncome i) (businessIncome i)) (rentalIncome i))
        (investmentIncome i)) (otherIncome i))"

definition total_deductions :: "tax_payload \<Rightarrow> number" where
  "total_deductions p =
     (let d = deductions p in
      js_add (js_add (js_add (js_add (js_add (rent d) (pensionContribution d)) (nhfContribution d))
        (lifeInsurance d)) (nhisPremium d)) (gratitude d))"

text \<open>\<open>bands.reduce((s, b) => s + b.taxPaid, 0)\<close>.\<close>

definition annual_tax :: "tax_band list \<Rightarrow> number" where
  "annual_tax bs = foldl (\<lambda>s b. js_add s (Num (taxPaid b))) (Num 0) bs"

text \<open>Lines 19--30 once the \<open>reduce\<close> has given \<open>annualTax\<close>.\<close>

definition tax_result_from :: "tax_payload \<Rightarrow> tax_band list \<Rightarrow> number \<Rightarrow> tax_result" where
  "tax_result_from p bs annual =
     (let monthlyTax = js_div annual (Num 12);
          grossIncome = gross_income p;
          totalDeductions = total_deductions p;
          taxableIncome = js_max (js_sub grossIncome totalDeductions) (Num 0);
          netIncome = js_max (js_sub (js_sub grossIncome totalDeductions) annual) (Num 0);
          effectiveRate = (if js_less (Num 0) grossIncome
                           then js_mul (js_div annual grossIncome) (Num 100) else Num 0)
      in \<lparr>bands = bs, annualTax = annual, monthlyTax = monthlyTax, grossIncome = grossIncome,
          totalDeductions = totalDeductions, taxableIncome = taxableIncome, netIncome = netIncome,
          effectiveRate = effectiveRate\<rparr>)"

definition tax_result_of :: "tax_payload \<Rightarrow> tax_band list \<Rightarrow> tax_result" where
  "tax_result_of p bs = tax_result_from p bs (annual_tax bs)"

definition calculateTax :: "tax_payload \<Rightarrow> paye_response \<Rightarrow> service_error + tax_result" where
  "calculateTax p res =
     (case res of
        PayeFailed status \<Rightarrow> Inl (RequestFailed status)
      | PayeOk bs \<Rightarrow> Inr (tax_result_of p bs))"

subsection \<open>Finite payloads\<close>

text \<open>The eleven amounts of a payload in the order the service adds them.\<close>

definition income_amounts :: "tax_payload \<Rightarrow> number list" where
  "income_amounts p =
     (let i = income p in
      [salaryIncome i, businessIncome i, rentalIncome i, investmentIncome i, otherIncome i])"

definition deduction_amounts :: "tax_payload \<Rightarrow> number list" where
  "deduction_amounts p =
     (let d = deductions p in
      [rent d, pensionContribution d, nhfContribution d, lifeInsurance d, nhisPremium d, gratitude d])"

text \<open>The payload the page builds from whole-naira amounts, used by the witnesses.\<close>

definition mk_payload :: "rat list \<Rightarrow> rat list \<Rightarrow> tax_payload" where
  "mk_payload is ds =
     \<lparr>income = \<lparr>salaryIncome = Num (is ! 0), businessIncome = Num (is ! 1), rentalIncome = Num (is ! 2),
                 investmentIncome = Num (is ! 3), otherIncome = Num (is ! 4)\<rparr>,
      deductions = \<lparr>rent = Num (ds ! 0), pensionContribution = Num (ds ! 1), nhfContribution = Num (ds ! 2),
                     lifeInsurance = Num (ds ! 3), nhisPremium = Num (ds ! 4), gratitude = Num (ds ! 5)\<rparr>\<rparr>"

text \<open>The personal calculator of the specification (section 4.3, steps 1--7) over exact
  rationals: the abstract result the service is proved to compute.\<close>

definition tax_result_spec :: "rat list \<Rightarrow> rat list \<Rightarrow> tax_band list \<Rightarrow> tax_result" where
  "tax_result_spec is ds bs =
     (let g = sum_list is; d = sum_list ds; a = sum_list (map taxPaid bs)
      in \<lparr>bands = bs, annualTax = Num a, monthlyTax = Num (a / 12), grossIncome = Num g,
          totalDeductions = Num d, taxableIncome = Num (max (g - d) 0),
          netIncome = Num (max (g - d - a) 0),
          effectiveRate = Num (if 0 < g then a / g * 100 else 0)\<rparr>)"

lemmas personal_eval [js_simps] =
  gross_income_def total_deductions_def annual_tax_def tax_result_of_def tax_result_from_def calculateTax_def
  income_amounts_def deduction_amounts_def mk_payload_def

subsection \<open>Refinement and errors\<close>

lemma annual_tax_from: "foldl (\<lambda>s b. js_add s (Num (taxPaid b))) (Num x) bs = Num (x + sum_list (map taxPaid bs))"
  by (induction bs arbitrary: x) (simp_all add: add.assoc)

lemma annual_tax_sum: "annual_tax bs = Num (sum_list (map taxPaid bs))"
  using annual_tax_from [of 0 bs] by (simp add: annual_tax_def)

lemma gross_income_finite:
  "income_amounts p = map Num is \<Longrightarrow> gross_income p = Num (sum_list is)"
  by (auto simp: income_amounts_def gross_income_def Let_def Cons_eq_map_conv add.assoc)

lemma total_deductions_finite:
  "deduction_amounts p = map Num ds \<Longrightarrow> total_deductions p = Num (sum_list ds)"
  by (auto simp: deduction_amounts_def total_deductions_def Let_def Cons_eq_map_conv add.assoc)

lemma tax_result_of_finite:
  assumes "income_amounts p = map Num is" and "deduction_amounts p = map Num ds"
  shows "tax_result_of p bs = tax_result_spec is ds bs"
  using gross_income_finite [OF assms(1)] total_deductions_finite [OF assms(2)]
  by (simp add: tax_result_of_def tax_result_from_def tax_result_spec_def annual_tax_sum js_max_Num js_sub_def Let_def
      max_def)

text \<open>C12: on finite amounts \<^verbatim>\<open>calculateTax\<close> computes what the specification's
  steps 1--7 compute in exact arithmetic: the gross income and the deductions are the
  sums of the fields (the rent in full, without the advertised cap), the taxable and net
  incomes are clamped at 0, the annual tax is the sum of the bands' tax, the monthly tax a
  twelfth, and the effective rate is \<open>annualTax / grossIncome * 100\<close>, or 0 when the
  gross income is not positive.\<close>

theorem tax_result_of_refines:
  assumes "income_amounts p = map Num is" and "deduction_amounts p = map Num ds"
  shows "tax_result_of p bs = tax_result_spec is ds bs"
  using assms by (rule tax_result_of_finite)

theorem tax_result_of_refines_witness:
  "tax_result_of (mk_payload [3000000, 0, 0, 0, 0] [0, 0, 0, 0, 0, 0]) [] =
   tax_result_spec [3000000, 0, 0, 0, 0] [0, 0, 0, 0, 0, 0] []"
  by (rule tax_result_of_refines) (simp_all add: mk_payload_def income_amounts_def deduction_amounts_def)

text \<open>On the abstract answer the service call fails exactly on \<open>PayeFailed\<close>. The
  decoding model in \<open>PayeResponse\<close> adds the TypeErrors of OK responses.\<close>

lemma calculateTax_error_iff:
  "calculateTax p r = Inl e \<longleftrightarrow> (\<exists>st. r = PayeFailed st \<and> e = RequestFailed st)"
  by (cases r) (auto simp: calculateTax_def)
end
