(* ===== verification/BusinessTax.thy ===== *)
theory BusinessTax
  imports JsNumber
begin

text \<open>
  The company income-tax decision of \<^verbatim>\<open>src/src/components/BusinessTax.tsx\<close>:
  the reference data (\<open>IndustryOption\<close>, \<open>TaxConfiguration\<close>), the result type
  with its reason code, \<^verbatim>\<open>calculateBusinessTax\<close> (lines 51--100), and the rate
  normalisation of \<^verbatim>\<open>fetchConfiguration\<close> (\<^verbatim>\<open>tax.service.ts\<close>, lines 98--104).
  The lemmas show the well-formedness of every result, the behaviour of each branch of
  the decision chain, the inclusive exemption boundary and the range of the normalised
  rate.
\<close>

subsection \<open>Reference data and results\<close>

record extra_properties =
  RequiresIncomeTax :: bool
  HasExemptionPeriod :: bool
  ExemptionPeriodYears :: number

record industry_option =
  opt_id :: js_string
  opt_name :: js_string
  opt_value :: js_string
  extraProperties :: extra_properties

record tax_configuration =
  TaxRate :: number
  TaxableAmountThreshold :: number

datatype reason = Taxable | No_profit | Below_threshold | No_income_tax | Exemption_applies

record business_tax_result =
  bt_annualTax :: number
  bt_monthlyTax :: number
  bt_effectiveRate :: number
  bt_totalNetProfit :: number
  bt_isTaxable :: bool
  bt_taxRate :: number
  bt_reason :: reason

text \<open>The parameter object of \<^verbatim>\<open>calculateBusinessTax\<close>; \<open>None\<close> is \<open>null\<close>.\<close>

record business_params =
  industry :: "industry_option option"
  config :: "tax_configuration option"
  madeProfit :: js_string
  revenueRange :: js_string
  netProfit :: number
  incorporationYear :: "number option"

subsection \<open>The decision chain\<close>

text \<open>\<open>config?.TaxRate ?? 0.25\<close>.\<close>

definition default_rate :: "tax_configuration option \<Rightarrow> number" where
  "default_rate c = (case c of Some cfg \<Rightarrow> TaxRate cfg | None \<Rightarrow> Num (1/4))"

definition base_result :: "number \<Rightarrow> number \<Rightarrow> business_tax_result" where
  "base_result taxRate np =
     \<lparr>bt_annualTax = Num 0, bt_monthlyTax = Num 0, bt_effectiveRate = js_mul taxRate (Num 100),
      bt_totalNetProfit = np, bt_isTaxable = False, bt_taxRate = taxRate, bt_reason = No_profit\<rparr>"

text \<open>The exemption test of lines 83--88: \<open>ExemptionPeriodYears >= currentYear - y\<close>.\<close>

definition exemption_applies :: "int \<Rightarrow> extra_properties \<Rightarrow> number option \<Rightarrow> bool" where
  "exemption_applies currentYear ep y =
     (HasExemptionPeriod ep \<and>
      (case y of None \<Rightarrow> False
       | Some yr \<Rightarrow> js_le (js_sub (Num (of_int currentYear)) yr) (ExemptionPeriodYears ep)))"

definition calculateBusinessTax :: "int \<Rightarrow> business_params \<Rightarrow> business_tax_result" where
  "calculateBusinessTax currentYear p =
     (let taxRate = default_rate (config p);
          base = base_result taxRate (netProfit p)
      in case (industry p, config p) of
           (Some ind, Some cfg) \<Rightarrow>
             (let ep = extraProperties ind in
              if \<not> RequiresIncomeTax ep then base\<lparr>bt_reason := No_income_tax\<rparr>
              else if madeProfit p \<noteq> js ''yes'' then base\<lparr>bt_reason := No_profit\<rparr>
              else if revenueRange p \<noteq> js ''above'' then base\<lparr>bt_reason := Below_threshold\<rparr>
              else if exemption_applies currentYear ep (incorporationYear p)
                then base\<lparr>bt_reason := Exemption_applies\<rparr>
              else
                (let annualTax = js_mul taxRate (netProfit p) in
                 \<lparr>bt_annualTax = annualTax, bt_monthlyTax = js_div annualTax (Num 12),
                  bt_effectiveRate = js_mul taxRate (Num 100), bt_totalNetProfit = netProfit p,
                  bt_isTaxable = True, bt_taxRate = taxRate, bt_reason = Taxable\<rparr>))
         | _ \<Rightarrow> base)"

subsection \<open>Configuration normalisation\<close>

text \<open>
  \<^verbatim>\<open>fetchConfiguration\<close> after decoding: the rate is the first present of the fields
  \<open>TaxRate\<close> and \<open>taxRate\<close>, else 0.25, divided by 100 when it exceeds 1; the
  threshold is the first present of \<open>TaxableAmountThreshold\<close> and
  \<open>taxableAmountThreshold\<close>, else 10,000,000. The arguments are the decoded fields,
  \<open>None\<close> where the field is absent or \<open>null\<close>.
\<close>

definition nullish :: "'a option \<Rightarrow> 'a option \<Rightarrow> 'a \<Rightarrow> 'a" where
  "nullish a b d = (case a of Some x \<Rightarrow> x | None \<Rightarrow> (case b of Some y \<Rightarrow> y | None \<Rightarrow> d))"

definition normalise_configuration ::
  "number option \<Rightarrow> number option \<Rightarrow> number option \<Rightarrow> number option \<Rightarrow> tax_configuration" where
  "normalise_configuration rate1 rate2 thr1 thr2 =
     (let rawRate = nullish rate1 rate2 (Num (1/4));
          threshold = nullish thr1 thr2 (Num 10000000)
      in \<lparr>TaxRate = (if js_less (Num 1) rawRate then js_div rawRate (Num 100) else rawRate),
          TaxableAmountThreshold = threshold\<rparr>)"

subsection \<open>Well-formed results\<close>

text \<open>
  What every result promises the page: \<open>isTaxable\<close> and the reason code agree, a
  non-taxable result owes nothing, and the effective rate is the rate in percent.
\<close>

definition business_result_wf :: "business_tax_result \<Rightarrow> bool" where
  "business_result_wf r \<longleftrightarrow>
     (bt_isTaxable r \<longleftrightarrow> bt_reason r = Taxable) \<and>
     (\<not> bt_isTaxable r \<longrightarrow> bt_annualTax r = Num 0 \<and> bt_monthlyTax r = Num 0) \<and>
     bt_effectiveRate r = js_mul (bt_taxRate r) (Num 100)"

subsection \<open>Example reference data\<close>

text \<open>The industries and configuration of the scenarios of the specification, used by
  the witnesses below.\<close>

definition example_industry :: "bool \<Rightarrow> bool \<Rightarrow> rat \<Rightarrow> industry_option" where
  "example_industry req has years =
     \<lparr>opt_id = js ''ind'', opt_name = js ''Industry'', opt_value = js ''ind'',
      extraProperties = \<lparr>RequiresIncomeTax = req, HasExemptionPeriod = has,
                          ExemptionPeriodYears = Num years\<rparr>\<rparr>"

definition example_config :: tax_configuration where
  "example_config = \<lparr>TaxRate = Num (1/4), TaxableAmountThreshold = Num 10000000\<rparr>"

definition example_params ::
  "industry_option \<Rightarrow> js_string \<Rightarrow> js_string \<Rightarrow> rat \<Rightarrow> number option \<Rightarrow> business_params" where
  "example_params ind mp rr np yr =
     \<lparr>industry = Some ind, config = Some example_config, madeProfit = mp, revenueRange = rr,
      netProfit = Num np, incorporationYear = yr\<rparr>"

lemmas business_example_defs [js_simps] =
  example_industry_def example_config_def example_params_def

lemmas calculateBusinessTax_unfold =
  calculateBusinessTax_def base_result_def default_rate_def exemption_applies_def Let_def

subsection \<open>Properties of the decision chain\<close>

lemma exemption_applies_year:
  assumes "HasExemptionPeriod ep" and "ExemptionPeriodYears ep = Num e"
  shows "exemption_applies cy ep (Some (Num (of_int yr))) \<longleftrightarrow> of_int (cy - yr) \<le> e"
  using assms by (auto simp: exemption_applies_def js_simps)

lemma exemption_applies_NaN: "\<not> exemption_applies cy ep (Some NaN)"
  by (simp add: exemption_applies_def js_simps)

lemma calculateBusinessTax_result_wf: "business_result_wf (calculateBusinessTax y p)"
  by (auto simp: calculateBusinessTax_unfold business_result_wf_def split: option.splits)

lemma calculateBusinessTax_charged:
  assumes "bt_reason (calculateBusinessTax y p) \<in> {Taxable, Exemption_applies}"
  shows "\<exists>ind cfg. industry p = Some ind \<and> config p = Some cfg \<and>
           RequiresIncomeTax (extraProperties ind) \<and> madeProfit p = js ''yes'' \<and>
           revenueRange p = js ''above''"
  using assms by (auto simp: calculateBusinessTax_unfold split: option.splits if_splits)

lemma calculateBusinessTax_totalNetProfit [simp]:
  "bt_totalNetProfit (calculateBusinessTax y p) = netProfit p"
  by (auto simp: calculateBusinessTax_unfold split: option.splits)

text \<open>C1: every result of \<^verbatim>\<open>calculateBusinessTax\<close> is well formed: \<open>isTaxable\<close>
  holds exactly when the reason is \<open>taxable\<close>, a non-taxable result has zero annual and
  monthly tax, and the effective rate is the rate times 100.\<close>

theorem calculateBusinessTax_wf: "business_result_wf (calculateBusinessTax y p)"
  by (rule calculateBusinessTax_result_wf)

theorem calculateBusinessTax_wf_witness:
  "business_result_wf (calculateBusinessTax 2025
     (example_params (example_industry True False 0) (js ''yes'') (js ''above'') 12000000 None))"
  by (rule calculateBusinessTax_wf)

text \<open>C2: tax is charged only when every test of the chain passes: the reason is
  \<open>taxable\<close> exactly when an industry and a configuration are loaded, the industry
  requires income tax, the business made a profit, its revenue is above the threshold
  and no exemption period applies.\<close>

theorem calculateBusinessTax_taxable_iff:
  "bt_reason (calculateBusinessTax y p) = Taxable \<longleftrightarrow>
     (\<exists>ind cfg. industry p = Some ind \<and> config p = Some cfg \<and>
        RequiresIncomeTax (extraProperties ind) \<and> madeProfit p = js ''yes'' \<and>
        revenueRange p = js ''above'' \<and>
        \<not> exemption_applies y (extraProperties ind) (incorporationYear p))"
  by (auto simp: calculateBusinessTax_unfold split: option.splits)

text \<open>C3: the annual tax of a taxable business is the configured rate times the net
  profit, the monthly tax a twelfth of it and the effective rate the rate in percent.\<close>

theorem calculateBusinessTax_taxable_amounts:
  assumes "bt_reason (calculateBusinessTax y p) = Taxable"
    and "config p = Some cfg" and "TaxRate cfg = Num r" and "netProfit p = Num n"
  shows "bt_annualTax (calculateBusinessTax y p) = Num (r * n) \<and>
         bt_monthlyTax (calculateBusinessTax y p) = Num (r * n / 12) \<and>
         bt_effectiveRate (calculateBusinessTax y p) = Num (r * 100)"
  using assms by (auto simp: calculateBusinessTax_unfold split: option.splits if_splits)

theorem calculateBusinessTax_taxable_amounts_witness:
  "bt_annualTax (calculateBusinessTax 2025
      (example_params (example_industry True False 0) (js ''yes'') (js ''above'') 12000000 None))
     = Num 3000000 \<and>
   bt_monthlyTax (calculateBusinessTax 2025
      (example_params (example_industry True False 0) (js ''yes'') (js ''above'') 12000000 None))
     = Num 250000"
proof -
  let ?p = "example_params (example_industry True False 0) (js ''yes'') (js ''above'') 12000000 None"
  have t: "bt_reason (calculateBusinessTax 2025 ?p) = Taxable"
    by (simp add: calculateBusinessTax_unfold js_simps)
  have "config ?p = Some example_config" "TaxRate example_config = Num (1/4)"
       "netProfit ?p = Num 12000000"
    by (simp_all add: js_simps)
  from calculateBusinessTax_taxable_amounts [OF t this] show ?thesis by simp
qed

text \<open>C4: once the industry and the configuration are loaded, an industry that does not
  require income tax is never taxed: whatever the profit, revenue and incorporation
  year, the reason is \<open>no_income_tax\<close> and the annual tax is 0.\<close>

theorem calculateBusinessTax_no_income_tax:
  assumes "industry p = Some ind" and "config p = Some cfg"
    and "\<not> RequiresIncomeTax (extraProperties ind)"
  shows "bt_reason (calculateBusinessTax y p) = No_income_tax \<and>
         bt_annualTax (calculateBusinessTax y p) = Num 0"
  using assms by (simp add: calculateBusinessTax_unfold)

theorem calculateBusinessTax_no_income_tax_witness:
  "bt_reason (calculateBusinessTax 2025
      (example_params (example_industry False False 0) (js ''yes'') (js ''above'') 12000000 None))
     = No_income_tax"
  using calculateBusinessTax_no_income_tax
    [of "example_params (example_industry False False 0) (js ''yes'') (js ''above'') 12000000 None"
        "example_industry False False 0" example_config]
  by (simp add: js_simps)

text \<open>C5: the exemption window is inclusive: for an industry with an exemption period
  of \<open>e\<close> years, a profitable business above the threshold incorporated in year
  \<open>yr\<close> is exempt exactly when \<open>currentYear - yr \<le> e\<close>, and taxable otherwise.
  A year after the current one is exempt too.\<close>

theorem calculateBusinessTax_exemption_window:
  assumes "industry p = Some ind" and "config p = Some cfg"
    and "RequiresIncomeTax (extraProperties ind)" and "HasExemptionPeriod (extraProperties ind)"
    and "ExemptionPeriodYears (extraProperties ind) = Num e"
    and "madeProfit p = js ''yes''" and "revenueRange p = js ''above''"
    and "incorporationYear p = Some (Num (of_int yr))"
  shows "bt_reason (calculateBusinessTax cy p) =
           (if of_int (cy - yr) \<le> e then Exemption_applies else Taxable)"
proof -
  have "exemption_applies cy (extraProperties ind) (incorporationYear p) \<longleftrightarrow> of_int (cy - yr) \<le> e"
    using assms(4,5,8) by (simp add: exemption_applies_year)
  with assms(1-3,6,7) show ?thesis
    by (simp add: calculateBusinessTax_def base_result_def Let_def)
qed

theorem calculateBusinessTax_exemption_window_witness:
  "bt_reason (calculateBusinessTax 2025
      (example_params (example_industry True True 5) (js ''yes'') (js ''above'') 12000000
        (Some (Num 2020)))) = Exemption_applies \<and>
   bt_reason (calculateBusinessTax 2025
      (example_params (example_industry True True 5) (js ''yes'') (js ''above'') 12000000
        (Some (Num 2019)))) = Taxable"
proof -
  have a: "bt_reason (calculateBusinessTax 2025
      (example_params (example_industry True True 5) (js ''yes'') (js ''above'') 12000000
        (Some (Num (of_int 2020))))) = (if of_int (2025 - 2020 :: int) \<le> (5::rat) then Exemption_applies else Taxable)"
    by (rule calculateBusinessTax_exemption_window
        [where ind = "example_industry True True 5" and cfg = example_config and e = 5])
       (simp_all add: js_simps)
  have b: "bt_reason (calculateBusinessTax 2025
      (example_params (example_industry True True 5) (js ''yes'') (js ''above'') 12000000
        (Some (Num (of_int 2019))))) = (if of_int (2025 - 2019 :: int) \<le> (5::rat) then Exemption_applies else Taxable)"
    by (rule calculateBusinessTax_exemption_window
        [where ind = "example_industry True True 5" and cfg = example_config and e = 5])
       (simp_all add: js_simps)
  from a b show ?thesis by simp
qed

text \<open>C6: an incorporation year that does not parse (\<open>parseInt\<close> gives NaN) never
  grants the exemption: the comparison with NaN is false, so a profitable business above
  the threshold is taxed.\<close>

theorem calculateBusinessTax_NaN_year_taxable:
  assumes "industry p = Some ind" and "config p = Some cfg"
    and "RequiresIncomeTax (extraProperties ind)"
    and "madeProfit p = js ''yes''" and "revenueRange p = js ''above''"
    and "incorporationYear p = Some NaN"
  shows "bt_reason (calculateBusinessTax cy p) = Taxable"
  using assms exemption_applies_NaN by (simp add: calculateBusinessTax_def base_result_def Let_def)

theorem calculateBusinessTax_NaN_year_taxable_witness:
  "bt_reason (calculateBusinessTax 2025
      (example_params (example_industry True True 5) (js ''yes'') (js ''above'') 12000000
        (Some NaN))) = Taxable"
  by (rule calculateBusinessTax_NaN_year_taxable
      [where ind = "example_industry True True 5" and cfg = example_config])
     (simp_all add: js_simps)

text \<open>C7: a configured rate between 0 and 100 is normalised into a fraction in
  \<open>[0, 1]\<close>: a rate above 1 is read as a percentage and divided by 100, and a rate of
  at most 1 is kept as it is.\<close>

theorem normalise_configuration_rate:
  assumes "0 \<le> r" and "r \<le> 100"
  shows "TaxRate (normalise_configuration (Some (Num r)) b t1 t2) = Num (if 1 < r then r / 100 else r) \<and>
         0 \<le> (if 1 < r then r / 100 else r) \<and> (if 1 < r then r / 100 else r) \<le> 1"
proof -
  have "TaxRate (normalise_configuration (Some (Num r)) b t1 t2) = Num (if 1 < r then r / 100 else r)"
    by (simp add: normalise_configuration_def nullish_def Let_def)
  with assms show ?thesis by auto
qed

theorem normalise_configuration_rate_witness:
  "TaxRate (normalise_configuration (Some (Num 30)) None None None) = Num (3 / 10) \<and>
   TaxRate (normalise_configuration (Some (Num (1 / 4))) None None None) = Num (1 / 4)"
proof -
  have a: "TaxRate (normalise_configuration (Some (Num 30)) None None None) = Num (if 1 < (30::rat) then 30 / 100 else 30)"
    using normalise_configuration_rate [of 30 None None None] by simp
  have b: "TaxRate (normalise_configuration (Some (Num (1 / 4))) None None None) =
             Num (if 1 < (1 / 4 :: rat) then 1 / 4 / 100 else 1 / 4)"
    using normalise_configuration_rate [of "1 / 4" None None None] by simp
  from a b show ?thesis by simp
qed

end
