(* ===== verification/JsParse.thy ===== *)
theory JsParse
  imports JsNumber
begin

text \<open>
  Reading currency fields. Both calculators clean a field with
  \<open>value.replace(/[N,\s]/g, '')\<close>, where \<open>N\<close> stands for the naira sign U+20A6
  (the naira sign, commas and white space are removed), and
  read the rest with \<open>parseFloat\<close>: \<^verbatim>\<open>parseInput\<close> (\<^verbatim>\<open>TaxCalculator.tsx\<close> 36--40
  and \<^verbatim>\<open>BusinessTax.tsx\<close> 43--47) maps NaN to 0, \<^verbatim>\<open>parseNaira\<close>
  (\<^verbatim>\<open>TaxCalculator.tsx\<close> 80--84) also rounds and clamps at 0. The year of
  incorporation is read with \<open>parseInt\<close> (\<^verbatim>\<open>BusinessTax.tsx\<close> 242).
  \<open>parseFloat\<close> and \<open>parseInt\<close> are the ECMAScript functions (sections 21.1.2.12
  and 21.1.2.13 of ECMA-262): the longest prefix of the trimmed string that is a decimal
  literal (resp. an integer in radix 10, or 16 after \<open>0x\<close>), NaN when there is none.
  All loops are structural recursion over the string.
\<close>

subsection \<open>Characters\<close>

text \<open>\<open>\s\<close> of JavaScript regular expressions, which is also the white space that
  \<open>parseFloat\<close> and \<open>parseInt\<close> trim: WhiteSpace and LineTerminator.\<close>

definition is_js_space :: "code_unit \<Rightarrow> bool" where
  "is_js_space c \<longleftrightarrow>
     (9 \<le> c \<and> c \<le> 13) \<or> c = 32 \<or> c = 0xA0 \<or> c = 0x1680 \<or> (0x2000 \<le> c \<and> c \<le> 0x200A) \<or>
     c = 0x2028 \<or> c = 0x2029 \<or> c = 0x202F \<or> c = 0x205F \<or> c = 0x3000 \<or> c = 0xFEFF"

text \<open>The character class \<open>[N,\s]\<close> and the global replace by the empty string.\<close>

definition strip_class :: "code_unit \<Rightarrow> bool" where
  "strip_class c \<longleftrightarrow> c = naira_sign \<or> c = 44 \<or> is_js_space c"

definition clean :: "js_string \<Rightarrow> js_string" where
  "clean s = filter (\<lambda>c. \<not> strip_class c) s"

text \<open>The value of a digit in radix up to 36: \<open>0-9\<close>, then \<open>a-z\<close> and \<open>A-Z\<close>.\<close>

definition digit_value :: "code_unit \<Rightarrow> nat option" where
  "digit_value c =
     (if 48 \<le> c \<and> c \<le> 57 then Some (unat c - 48)
      else if 97 \<le> c \<and> c \<le> 122 then Some (unat c - 87)
      else if 65 \<le> c \<and> c \<le> 90 then Some (unat c - 55)
      else None)"

text \<open>The longest prefix of digits of the radix, and the rest of the string.\<close>

fun take_digits :: "nat \<Rightarrow> js_string \<Rightarrow> nat list \<times> js_string" where
  "take_digits r [] = ([], [])"
| "take_digits r (c # cs) =
     (case digit_value c of
        Some d \<Rightarrow> if d < r then (let (ds, rest) = take_digits r cs in (d # ds, rest)) else ([], c # cs)
      | None \<Rightarrow> ([], c # cs))"

definition digits_value :: "nat \<Rightarrow> nat list \<Rightarrow> nat" where
  "digits_value r ds = foldl (\<lambda>a d. r * a + d) 0 ds"

text \<open>An optional sign: \<open>True\<close> for \<open>-\<close>.\<close>

fun parse_sign :: "js_string \<Rightarrow> bool \<times> js_string" where
  "parse_sign [] = (False, [])"
| "parse_sign (c # cs) = (if c = 45 then (True, cs) else if c = 43 then (False, cs) else (False, c # cs))"

subsection \<open>parseFloat\<close>

text \<open>\<open>ExponentPart\<close>: \<open>e\<close> or \<open>E\<close>, a signed integer; an indicator without
  digits is not part of the literal and counts as exponent 0.\<close>

fun parse_exponent :: "js_string \<Rightarrow> int" where
  "parse_exponent [] = 0"
| "parse_exponent (c # cs) =
     (if c = 101 \<or> c = 69 then
        (let (neg, r) = parse_sign cs; ds = fst (take_digits 10 r)
         in if ds = [] then 0
            else if neg then - int (digits_value 10 ds) else int (digits_value 10 ds))
      else 0)"

definition decimal_value :: "nat list \<Rightarrow> nat list \<Rightarrow> int \<Rightarrow> rat" where
  "decimal_value ip fp e =
     (let m = of_nat (digits_value 10 (ip @ fp)) :: rat; k = e - int (length fp)
      in if 0 \<le> k then m * 10 ^ nat k else m / 10 ^ nat (- k))"

text \<open>\<open>StrUnsignedDecimalLiteral\<close>: \<open>Infinity\<close>, or digits with an optional
  fraction and exponent, at least one digit before or after the point.\<close>

definition parse_unsigned_decimal :: "js_string \<Rightarrow> number option" where
  "parse_unsigned_decimal s =
     (if take 8 s = js ''Infinity'' then Some Infinity
      else
        (let (ip, r1) = take_digits 10 s;
             (fp, r2) = (case r1 of c # r \<Rightarrow> if c = 46 then take_digits 10 r else ([], r1)
                                  | [] \<Rightarrow> ([], []))
         in if ip = [] \<and> fp = [] then None
            else Some (Num (decimal_value ip fp (parse_exponent r2)))))"

definition parse_float :: "js_string \<Rightarrow> number" where
  "parse_float s =
     (let (neg, r) = parse_sign (dropWhile is_js_space s)
      in case parse_unsigned_decimal r of
           None \<Rightarrow> NaN
         | Some v \<Rightarrow> if neg then js_neg v else v)"

subsection \<open>parseInt with no radix\<close>

definition parse_int :: "js_string \<Rightarrow> number" where
  "parse_int s =
     (let (neg, r) = parse_sign (dropWhile is_js_space s);
          (radix, r') = (if take 2 r = js ''0x'' \<or> take 2 r = js ''0X'' then (16, drop 2 r) else (10, r));
          ds = fst (take_digits radix r')
      in if ds = [] then NaN
         else Num (of_int (if neg then - int (digits_value radix ds) else int (digits_value radix ds))))"

subsection \<open>The calculators' readers\<close>

definition parseInput :: "js_string \<Rightarrow> number" where
  "parseInput value = (let num = parse_float (clean value) in if is_nan num then Num 0 else num)"

definition parseNaira :: "js_string \<Rightarrow> number" where
  "parseNaira str =
     (let num = parse_float (clean str) in if is_nan num then Num 0 else js_max (Num 0) (js_round num))"

subsection \<open>Digit strings\<close>

text \<open>The code unit of a decimal digit, and the strings on which a reader stops after a
  run of digits of radix \<open>r\<close>.\<close>

definition digit_char :: "nat \<Rightarrow> code_unit" where
  "digit_char d = of_nat (48 + d)"

definition no_digit_start :: "nat \<Rightarrow> js_string \<Rightarrow> bool" where
  "no_digit_start r s =
     (case s of [] \<Rightarrow> True | c # _ \<Rightarrow> (case digit_value c of None \<Rightarrow> True | Some d \<Rightarrow> r \<le> d))"

lemmas parse_eval [js_simps] =
  clean_def strip_class_def is_js_space_def digit_value_def digits_value_def
  decimal_value_def parse_unsigned_decimal_def parse_float_def parse_int_def
  parseInput_def parseNaira_def digit_char_def

subsection \<open>Reading digit strings\<close>

lemma less_10_cases:
  "(d::nat) < 10 \<Longrightarrow> d = 0 \<or> d = 1 \<or> d = 2 \<or> d = 3 \<or> d = 4 \<or> d = 5 \<or> d = 6 \<or> d = 7 \<or> d = 8 \<or> d = 9"
  by arith

lemma digit_value_digit_char [simp]: "d < 10 \<Longrightarrow> digit_value (digit_char d) = Some d"
  by (drule less_10_cases) (auto simp: digit_value_def digit_char_def)

lemma digit_char_props:
  assumes "d < 10"
  shows "\<not> is_js_space (digit_char d)" "digit_char d \<noteq> 45" "digit_char d \<noteq> 43"
    "digit_char d \<noteq> 46" "\<not> strip_class (digit_char d)" "digit_char d \<noteq> 73"
  using less_10_cases [OF assms] by (auto simp: is_js_space_def strip_class_def digit_char_def)

lemma take_digits_digit_chars:
  assumes "\<forall>d \<in> set ds. d < 10" and "no_digit_start 10 rest"
  shows "take_digits 10 (map digit_char ds @ rest) = (ds, rest)"
  using assms
proof (induction ds)
  case Nil
  then show ?case by (cases rest) (auto simp: no_digit_start_def split: option.splits)
next
  case (Cons d ds)
  then show ?case by simp
qed

lemma take_digits_all_digits:
  "\<forall>d \<in> set ds. d < 10 \<Longrightarrow> take_digits 10 (map digit_char ds) = (ds, [])"
  using take_digits_digit_chars [of ds "[]"] by (simp add: no_digit_start_def)

lemma no_digit_start_point: "no_digit_start 10 (46 # s)"
  by (simp add: no_digit_start_def digit_value_def)

lemma digits_value_snoc: "digits_value r (ds @ [d]) = r * digits_value r ds + d"
  by (simp add: digits_value_def)

lemma decimal_value_no_exponent:
  "decimal_value ip fp 0 = of_nat (digits_value 10 (ip @ fp)) / 10 ^ length fp"
  by (simp add: decimal_value_def Let_def)

lemma take_Infinity_digit:
  "d < 10 \<Longrightarrow> take 8 (map digit_char (d # ds) @ r) \<noteq> js ''Infinity''"
  using digit_char_props(6) by simp

lemma parse_unsigned_decimal_digits:
  assumes "ds \<noteq> []" and "\<forall>d \<in> set ds. d < 10"
  shows "parse_unsigned_decimal (map digit_char ds) = Some (Num (of_nat (digits_value 10 ds)))"
proof -
  obtain d ds' where ds: "ds = d # ds'" using assms(1) by (cases ds) auto
  have "take 8 (map digit_char ds) \<noteq> js ''Infinity''"
    using take_Infinity_digit [of d ds' "[]"] assms(2) ds by simp
  moreover have "take_digits 10 (map digit_char ds) = (ds, [])"
    using assms(2) by (rule take_digits_all_digits)
  ultimately show ?thesis
    using assms(1) by (simp add: parse_unsigned_decimal_def decimal_value_no_exponent [of ds "[]", simplified])
qed

lemma parse_unsigned_decimal_point:
  assumes "ds \<noteq> []" and "\<forall>d \<in> set ds. d < 10" and "\<forall>d \<in> set fs. d < 10"
  shows "parse_unsigned_decimal (map digit_char ds @ 46 # map digit_char fs) =
           Some (Num (of_nat (digits_value 10 (ds @ fs)) / 10 ^ length fs))"
proof -
  obtain d ds' where ds: "ds = d # ds'" using assms(1) by (cases ds) auto
  have "take 8 (map digit_char ds @ 46 # map digit_char fs) \<noteq> js ''Infinity''"
    using take_Infinity_digit [of d ds'] assms(2) ds by simp
  moreover have "take_digits 10 (map digit_char ds @ 46 # map digit_char fs) = (ds, 46 # map digit_char fs)"
    by (rule take_digits_digit_chars [OF assms(2) no_digit_start_point])
  moreover have "take_digits 10 (map digit_char fs) = (fs, [])"
    using assms(3) by (rule take_digits_all_digits)
  ultimately show ?thesis
    using assms(1) by (simp add: parse_unsigned_decimal_def decimal_value_no_exponent)
qed

lemma parse_float_digit_start:
  "d < 10 \<Longrightarrow> parse_float (digit_char d # s) =
     (case parse_unsigned_decimal (digit_char d # s) of None \<Rightarrow> NaN | Some v \<Rightarrow> v)"
  by (simp add: parse_float_def digit_char_props split: option.split)

lemma minus_sign_not_space: "\<not> is_js_space 45"
  by (simp add: is_js_space_def)

lemma parse_float_minus_digit:
  "d < 10 \<Longrightarrow> parse_float (45 # digit_char d # s) = js_neg (parse_float (digit_char d # s))"
  by (simp add: parse_float_def digit_char_props minus_sign_not_space split: option.split)

lemma parse_float_digits:
  assumes "ds \<noteq> []" and "\<forall>d \<in> set ds. d < 10"
  shows "parse_float (map digit_char ds) = Num (of_nat (digits_value 10 ds))"
proof -
  obtain d ds' where ds: "ds = d # ds'" using assms(1) by (cases ds) auto
  with assms have "d < 10" by simp
  with ds parse_unsigned_decimal_digits [OF assms] show ?thesis
    by (simp add: parse_float_digit_start)
qed

lemma parse_float_point:
  assumes "ds \<noteq> []" and "\<forall>d \<in> set ds. d < 10" and "\<forall>d \<in> set fs. d < 10"
  shows "parse_float (map digit_char ds @ 46 # map digit_char fs) =
           Num (of_nat (digits_value 10 (ds @ fs)) / 10 ^ length fs)"
proof -
  obtain d ds' where ds: "ds = d # ds'" using assms(1) by (cases ds) auto
  with assms have "d < 10" by simp
  with ds parse_unsigned_decimal_point [OF assms] show ?thesis
    by (simp add: parse_float_digit_start)
qed

lemma clean_digit_chars: "\<forall>d \<in> set ds. d < 10 \<Longrightarrow> clean (map digit_char ds) = map digit_char ds"
  by (induction ds) (auto simp: clean_def digit_char_props)

subsection \<open>What the readers return\<close>

lemma parseNaira_whole: "parseNaira s = Infinity \<or> (\<exists>n::nat. parseNaira s = Num (of_nat n))"
proof (cases "parse_float (clean s)")
  case (Num x)
  show ?thesis
  proof (cases "0 < round x")
    case True
    then have "parseNaira s = Num (of_nat (nat (round x)))"
      using Num by (simp add: parseNaira_def js_simps)
    then show ?thesis by blast
  next
    case False
    then have "parseNaira s = Num (of_nat 0)"
      using Num by (simp add: parseNaira_def js_simps)
    then show ?thesis by blast
  qed
qed (simp_all add: parseNaira_def js_simps)


text \<open>C8: \<^verbatim>\<open>parseNaira\<close> never returns NaN or a negative or fractional amount:
  its result is a whole number of naira, or \<open>Infinity\<close>.\<close>

theorem parseNaira_range: "parseNaira s = Infinity \<or> (\<exists>n::nat. parseNaira s = Num (of_nat n))"
  by (rule parseNaira_whole)



end
