(* ===== verification/JsFormat.thy ===== *)
theory JsFormat
  imports JsParse
begin

text \<open>
  Printing amounts. \<^verbatim>\<open>formatNaira\<close> (\<^verbatim>\<open>TaxCalculator.tsx\<close> 27--30) prints
  \<open>\<^bold>N0\<close> for 0 and otherwise the naira sign before \<open>value.toLocaleString('en-NG')\<close>;
  \<^verbatim>\<open>fmt\<close> (\<^verbatim>\<open>BusinessTax.tsx\<close> 34--41) asks for exactly two fraction digits
  when the value has a fractional part and none otherwise; \<^verbatim>\<open>formatPercent\<close>
  (\<^verbatim>\<open>TaxCalculator.tsx\<close> 32--34) is \<open>value.toFixed(2) + '%'\<close>. Here \<open>\<^bold>N\<close> is the
  naira sign U+20A6.

  \<open>toLocaleString\<close> with the \<open>en-NG\<close> locale is modelled after ECMA-402 and the
  CLDR pattern \<open>#,##0.###\<close> of that locale: the magnitude is rounded to the maximum
  number of fraction digits with halves away from zero, trailing zeros of the fraction
  are dropped down to the minimum, the integer digits are grouped by three with commas,
  and a negative value (also one that rounds to zero) gets a leading hyphen-minus.
  NaN prints as \<open>NaN\<close> and the infinities as \<open>\<infinity>\<close> (U+221E). \<open>toFixed\<close> rounds the
  same way and neither groups nor trims; its exponential form for magnitudes of
  \<open>10^21\<close> and more is not modelled.
\<close>

subsection \<open>Digits\<close>

text \<open>The decimal digits of a natural number, most significant first.\<close>

fun nat_digits :: "nat \<Rightarrow> nat list" where
  "nat_digits n = (if n < 10 then [n] else nat_digits (n div 10) @ [n mod 10])"

declare nat_digits.simps [simp del]

text \<open>The \<open>k\<close> lowest decimal digits of \<open>m\<close>, with leading zeros.\<close>

fun fixed_digits :: "nat \<Rightarrow> nat \<Rightarrow> nat list" where
  "fixed_digits 0 m = []"
| "fixed_digits (Suc k) m = fixed_digits k (m div 10) @ [m mod 10]"

text \<open>Trailing zeros are dropped while more than \<open>n\<close> digits remain; the list is
  handled reversed, so the zeros to drop are at its front.\<close>

fun drop_zeros_rev :: "nat \<Rightarrow> nat list \<Rightarrow> nat list" where
  "drop_zeros_rev n [] = []"
| "drop_zeros_rev n (d # ds) = (if d = 0 \<and> n < Suc (length ds) then drop_zeros_rev n ds else d # ds)"

definition trim_fraction :: "nat \<Rightarrow> nat list \<Rightarrow> nat list" where
  "trim_fraction n ds = rev (drop_zeros_rev n (rev ds))"

text \<open>A comma before every complete group of three digits counted from the right.\<close>

fun group3 :: "js_string \<Rightarrow> js_string" where
  "group3 [] = []"
| "group3 (c # cs) = c # (if cs \<noteq> [] \<and> 3 dvd length cs then 44 # group3 cs else group3 cs)"

text \<open>The magnitude scaled by \<open>10^k\<close> and rounded, halves away from zero.\<close>

definition scaled_magnitude :: "nat \<Rightarrow> rat \<Rightarrow> nat" where
  "scaled_magnitude k x = nat (floor (\<bar>x\<bar> * 10 ^ k + 1/2))"

subsection \<open>toLocaleString and toFixed\<close>

definition to_locale_string :: "nat \<Rightarrow> nat \<Rightarrow> number \<Rightarrow> js_string" where
  "to_locale_string minFD maxFD v =
     (case v of
        NaN \<Rightarrow> js ''NaN''
      | Infinity \<Rightarrow> [0x221E]
      | NegInfinity \<Rightarrow> [45, 0x221E]
      | Num x \<Rightarrow>
          (let m = scaled_magnitude maxFD x;
               ip = m div 10 ^ maxFD;
               fp = trim_fraction minFD (fixed_digits maxFD (m mod 10 ^ maxFD));
               body = group3 (map digit_char (nat_digits ip)) @
                      (if fp = [] then [] else 46 # map digit_char fp)
           in if x < 0 then 45 # body else body))"

definition to_fixed :: "nat \<Rightarrow> number \<Rightarrow> js_string" where
  "to_fixed f v =
     (case v of
        NaN \<Rightarrow> js ''NaN''
      | Infinity \<Rightarrow> js ''Infinity''
      | NegInfinity \<Rightarrow> js ''-Infinity''
      | Num x \<Rightarrow>
          (let m = scaled_magnitude f x;
               body = map digit_char (nat_digits (m div 10 ^ f)) @
                      (if f = 0 then [] else 46 # map digit_char (fixed_digits f (m mod 10 ^ f)))
           in if x < 0 then 45 # body else body))"

subsection \<open>The calculators' printers\<close>

definition formatNaira :: "number \<Rightarrow> js_string" where
  "formatNaira value =
     (if js_eq value (Num 0) then naira_sign # js ''0''
      else naira_sign # to_locale_string 0 3 value)"

definition fmt :: "number \<Rightarrow> js_string" where
  "fmt value =
     (if js_eq value (Num 0) then naira_sign # js ''0''
      else (let hasDecimals = \<not> js_eq (js_mod1 value) (Num 0)
            in naira_sign # to_locale_string (if hasDecimals then 2 else 0) 2 value))"

definition formatPercent :: "number \<Rightarrow> js_string" where
  "formatPercent value = to_fixed 2 value @ js ''%''"

lemma fixed_digits_numeral:
  "fixed_digits (numeral k) m = fixed_digits (pred_numeral k) (m div 10) @ [m mod 10]"
  by (subst numeral_eq_Suc [of k]) (rule fixed_digits.simps(2))

lemma three_dvd_Suc_eval:
  "\<not> 3 dvd Suc 0" "\<not> 3 dvd Suc (Suc 0)" "3 dvd Suc (Suc (Suc n)) \<longleftrightarrow> 3 dvd n"
  by presburger+

lemmas format_eval [js_simps] = fixed_digits_numeral three_dvd_Suc_eval
  to_locale_string_def to_fixed_def formatNaira_def fmt_def formatPercent_def
  trim_fraction_def scaled_magnitude_def nat_digits.simps

subsection \<open>Digit lemmas\<close>

lemma nat_digits_ne: "nat_digits n \<noteq> []"
  by (subst nat_digits.simps) simp

lemma nat_digits_lt: "\<forall>d \<in> set (nat_digits n). d < 10"
proof (induction n rule: nat_digits.induct)
  case (1 n)
  then show ?case by (subst nat_digits.simps) auto
qed

lemma digits_value_append:
  "digits_value 10 (xs @ ys) = digits_value 10 xs * 10 ^ length ys + digits_value 10 ys"
proof (induction ys rule: rev_induct)
  case Nil
  then show ?case by (simp add: digits_value_def)
next
  case (snoc y ys)
  then show ?case by (simp add: digits_value_snoc [of _ "xs @ ys", simplified] digits_value_snoc algebra_simps)
qed

lemma digits_value_nat_digits: "digits_value 10 (nat_digits n) = n"
proof (induction n rule: nat_digits.induct)
  case (1 n)
  then show ?case by (subst nat_digits.simps) (simp add: digits_value_snoc digits_value_def)
qed

lemma fixed_digits_length [simp]: "length (fixed_digits k m) = k"
  by (induction k arbitrary: m) auto

lemma fixed_digits_lt: "\<forall>d \<in> set (fixed_digits k m). d < 10"
  by (induction k arbitrary: m) auto

lemma digits_value_fixed_digits: "digits_value 10 (fixed_digits k m) = m mod 10 ^ k"
proof (induction k arbitrary: m)
  case 0
  then show ?case by (simp add: digits_value_def)
next
  case (Suc k)
  then show ?case by (simp add: digits_value_snoc mod_mult2_eq algebra_simps)
qed

lemma fixed_digits_zero: "fixed_digits k 0 = replicate k 0"
  by (induction k) (auto simp: replicate_append_same)

lemma drop_zeros_rev_short: "length ds \<le> n \<Longrightarrow> drop_zeros_rev n ds = ds"
  by (cases ds) auto

lemma trim_fraction_exact: "length ds = n \<Longrightarrow> trim_fraction n ds = ds"
  by (simp add: trim_fraction_def drop_zeros_rev_short)

lemma trim_fraction_zeros: "trim_fraction 0 (replicate k 0) = []"
proof -
  have "drop_zeros_rev 0 (replicate k 0) = []" by (induction k) auto
  then show ?thesis by (simp add: trim_fraction_def)
qed

lemma clean_group3: "clean (group3 xs) = clean xs"
  by (induction xs rule: group3.induct) (auto simp: clean_def strip_class_def)

lemma scaled_magnitude_int: "scaled_magnitude f (of_int j / 10 ^ f) = nat \<bar>j\<bar>"
proof -
  have "\<bar>of_int j / 10 ^ f :: rat\<bar> * 10 ^ f = of_int \<bar>j\<bar>"
    by (simp add: abs_divide)
  moreover have "\<lfloor>of_int \<bar>j\<bar> + 1 / 2 :: rat\<rfloor> = \<bar>j\<bar>"
    by (simp only: floor_eq_iff) simp
  ultimately have "\<lfloor>\<bar>of_int j / 10 ^ f :: rat\<bar> * 10 ^ f + 1 / 2\<rfloor> = \<bar>j\<bar>"
    by simp
  then show ?thesis by (simp add: scaled_magnitude_def)
qed

lemma clean_naira: "clean (naira_sign # s) = clean s"
  by (simp add: clean_def strip_class_def)

lemma clean_append: "clean (xs @ ys) = clean xs @ clean ys"
  by (simp add: clean_def)

lemma clean_Nil [simp]: "clean [] = []"
  by (simp add: clean_def)

lemma clean_grouped_digits:
  "\<forall>d \<in> set ds. d < 10 \<Longrightarrow> clean (group3 (map digit_char ds) @ rest) = map digit_char ds @ clean rest"
  by (simp add: clean_append clean_group3 clean_digit_chars)

lemma parse_float_nat_digits: "parse_float (map digit_char (nat_digits n)) = Num (of_nat n)"
  using parse_float_digits [OF nat_digits_ne nat_digits_lt] by (simp add: digits_value_nat_digits)

lemma to_locale_string_nat:
  "to_locale_string 0 f (Num (of_nat n)) = group3 (map digit_char (nat_digits n))"
proof -
  have "scaled_magnitude f (of_int (int (n * 10 ^ f)) / 10 ^ f) = n * 10 ^ f"
    by (simp only: scaled_magnitude_int)
  then have "scaled_magnitude f (of_nat n) = n * 10 ^ f" by simp
  then show ?thesis
    by (simp add: to_locale_string_def Let_def fixed_digits_zero trim_fraction_zeros)
qed

lemma parseNaira_formatNaira_nat: "parseNaira (formatNaira (Num (of_nat n))) = Num (of_nat n)"
proof -
  have "clean (formatNaira (Num (of_nat n))) = map digit_char (nat_digits n)"
  proof (cases "n = 0")
    case True
    then show ?thesis by (simp add: formatNaira_def js_simps)
  next
    case False
    then have "formatNaira (Num (of_nat n)) = naira_sign # group3 (map digit_char (nat_digits n))"
      by (simp add: formatNaira_def js_eq_def to_locale_string_nat)
    then show ?thesis
      using clean_grouped_digits [OF nat_digits_lt, of n "[]"] by (simp add: clean_naira)
  qed
  then show ?thesis
    by (simp add: parseNaira_def parse_float_nat_digits is_nan_def js_max_def)
qed


text \<open>C10: the money inputs of the personal calculator are stable: printing a whole
  amount with \<^verbatim>\<open>formatNaira\<close> and reading the printed text back with
  \<^verbatim>\<open>parseNaira\<close> gives the same amount, grouping commas and naira sign included.\<close>

theorem parseNaira_formatNaira: "parseNaira (formatNaira (Num (of_nat n))) = Num (of_nat n)"
  by (rule parseNaira_formatNaira_nat)

lemma js_mod1_zero_iff: "js_eq (js_mod1 (Num x)) (Num 0) \<longleftrightarrow> x \<in> \<int>"
proof (cases "x < 0")
  case True
  have "x - - of_int \<lfloor>- x\<rfloor> = - frac (- x)" by (simp add: frac_def)
  with True show ?thesis by (simp add: js_eq_def minus_in_Ints_iff)
next
  case False
  have "x - of_int \<lfloor>x\<rfloor> = frac x" by (simp add: frac_def)
  with False show ?thesis by (simp add: js_eq_def)
qed

lemma cents_in_Ints_iff: "(of_int k / 100 :: rat) \<in> \<int> \<longleftrightarrow> 100 dvd k"
proof
  assume "(of_int k / 100 :: rat) \<in> \<int>"
  then obtain z where "(of_int k / 100 :: rat) = of_int z" by (auto elim: Ints_cases)
  then have "(of_int k :: rat) = of_int (100 * z)" by (simp add: field_simps)
  then have "k = 100 * z" by (simp only: of_int_eq_iff)
  then show "100 dvd k" by simp
next
  assume "100 dvd k"
  then obtain z where "k = 100 * z" by (auto elim: dvdE)
  then show "(of_int k / 100 :: rat) \<in> \<int>" by simp
qed

lemma nat_abs_mod_100: "nat \<bar>k\<bar> mod 100 = 0 \<longleftrightarrow> 100 dvd (k::int)"
proof -
  have "nat \<bar>k\<bar> mod 100 = nat (\<bar>k\<bar> mod 100)" by (simp add: nat_mod_distrib)
  then show ?thesis by (auto simp: dvd_eq_mod_eq_0 [symmetric])
qed

lemma clean_sign_digits:
  assumes "\<forall>d \<in> set fs. d < 10"
  shows "
   clean (naira_sign # (if neg then 45 # group3 (map digit_char (nat_digits ip)) @ (if b then [] else 46 # map digit_char fs)
                        else group3 (map digit_char (nat_digits ip)) @ (if b then [] else 46 # map digit_char fs))) =
   (if neg then [45] else []) @ map digit_char (nat_digits ip) @ (if b then [] else 46 # map digit_char fs)"
proof -
  have k45: "clean (45 # s) = 45 # clean s" and k46: "clean (46 # s) = 46 # clean s" for s
    by (simp_all add: clean_def strip_class_def is_js_space_def)
  show ?thesis
    by (simp add: clean_naira k45 k46 clean_grouped_digits nat_digits_lt clean_digit_chars assms)
qed

lemma parse_float_cents_body:
  assumes "r < 100"
  shows "parse_float (map digit_char (nat_digits ip) @ (if r = 0 then [] else 46 # map digit_char (fixed_digits 2 r)))
           = Num (of_nat ip + of_nat r / 100)"
proof (cases "r = 0")
  case True
  then show ?thesis by (simp add: parse_float_nat_digits)
next
  case False
  have "parse_float (map digit_char (nat_digits ip) @ 46 # map digit_char (fixed_digits 2 r))
          = Num (of_nat (digits_value 10 (nat_digits ip @ fixed_digits 2 r)) / 10 ^ 2)"
    using parse_float_point [OF nat_digits_ne nat_digits_lt fixed_digits_lt] by simp
  also have "\<dots> = Num (of_nat ip + of_nat r / 100)"
    using assms by (simp add: digits_value_append digits_value_nat_digits digits_value_fixed_digits field_simps)
  finally show ?thesis using False by simp
qed

lemma parse_float_neg_body:
  "parse_float (45 # map digit_char (nat_digits ip) @ rest) = js_neg (parse_float (map digit_char (nat_digits ip) @ rest))"
proof -
  obtain d ds where nd: "nat_digits ip = d # ds" using nat_digits_ne by (cases "nat_digits ip") auto
  then have "d < 10" using nat_digits_lt [of ip] by simp
  with nd show ?thesis by (simp add: parse_float_minus_digit)
qed

lemma fmt_cents:
  assumes "k \<noteq> 0" and m: "m = nat \<bar>k\<bar>"
  shows "fmt (Num (of_int k / 100)) =
    naira_sign # (if k < 0 then 45 # group3 (map digit_char (nat_digits (m div 100))) @
                    (if m mod 100 = 0 then [] else 46 # map digit_char (fixed_digits 2 (m mod 100)))
                  else group3 (map digit_char (nat_digits (m div 100))) @
                    (if m mod 100 = 0 then [] else 46 # map digit_char (fixed_digits 2 (m mod 100))))"
proof -
  have sm: "scaled_magnitude 2 (of_int k / 100) = m"
    using scaled_magnitude_int [of 2 k] m by simp
  have hd: "js_eq (js_mod1 (Num (of_int k / 100))) (Num 0) \<longleftrightarrow> m mod 100 = 0"
    unfolding m by (simp only: js_mod1_zero_iff cents_in_Ints_iff nat_abs_mod_100)
  have nz: "\<not> js_eq (Num (of_int k / 100)) (Num 0)" using assms(1) by (simp add: js_eq_def)
  have f1: "fmt (Num (of_int k / 100)) =
              naira_sign # to_locale_string (if m mod 100 = 0 then 0 else 2) 2 (Num (of_int k / 100))"
    unfolding fmt_def Let_def using nz hd by (simp del: js_mod1.simps)
  have t0: "trim_fraction 0 (fixed_digits 2 0) = []"
    by (simp only: fixed_digits_zero trim_fraction_zeros)
  have t2: "trim_fraction 2 (fixed_digits 2 x) = fixed_digits 2 x" for x
    by (simp add: trim_fraction_exact)
  have ne: "fixed_digits 2 x \<noteq> []" for x
    using fixed_digits_length [of 2 x] by (auto simp del: fixed_digits_length)
  have neg: "(of_int k / 100 :: rat) < 0 \<longleftrightarrow> k < 0" by simp
  show ?thesis
    unfolding f1 to_locale_string_def number.case sm Let_def neg
    by (simp add: t0 t2 ne)
qed

text \<open>C11: \<^verbatim>\<open>fmt\<close> and \<^verbatim>\<open>parseInput\<close> are inverse on amounts with at
  most two decimals, negative ones included: the text printed for \<open>k/100\<close> reads back
  as \<open>k/100\<close>.\<close>

theorem parseInput_fmt: "parseInput (fmt (Num (of_int k / 100))) = Num (of_int k / 100)"
proof (cases "k = 0")
  case True
  have "fmt (Num 0) = naira_sign # map digit_char [0]" by (simp add: fmt_def js_eq_def digit_char_def)
  moreover have "clean (naira_sign # map digit_char [0]) = map digit_char [0]"
    using clean_digit_chars [of "[0]"] by (simp add: clean_naira)
  ultimately show ?thesis
    using True parse_float_digits [of "[0]"] by (simp add: parseInput_def is_nan_def digits_value_def)
next
  case False
  define m where "m = nat \<bar>k\<bar>"
  define ip where "ip = m div 100"
  define r where "r = m mod 100"
  have r: "r < 100" by (simp add: r_def)
  have split: "of_nat ip + of_nat r / 100 = (\<bar>of_int k\<bar> / 100 :: rat)"
  proof -
    have "m = ip * 100 + r" by (simp add: ip_def r_def)
    then have "(of_nat m :: rat) = of_nat ip * 100 + of_nat r" by (metis of_nat_add of_nat_mult of_nat_numeral)
    moreover have "(of_nat m :: rat) = \<bar>of_int k\<bar>" by (simp add: m_def)
    ultimately show ?thesis by (simp add: field_simps)
  qed
  have f: "fmt (Num (of_int k / 100)) =
    naira_sign # (if k < 0 then 45 # group3 (map digit_char (nat_digits ip)) @
                    (if r = 0 then [] else 46 # map digit_char (fixed_digits 2 r))
                  else group3 (map digit_char (nat_digits ip)) @
                    (if r = 0 then [] else 46 # map digit_char (fixed_digits 2 r)))"
    unfolding ip_def r_def by (rule fmt_cents [OF False m_def])
  have c: "clean (fmt (Num (of_int k / 100))) =
     (if k < 0 then [45] else []) @ map digit_char (nat_digits ip) @ (if r = 0 then [] else 46 # map digit_char (fixed_digits 2 r))"
    unfolding f by (rule clean_sign_digits [OF fixed_digits_lt])
  have p: "parse_float (clean (fmt (Num (of_int k / 100)))) = Num (of_int k / 100)"
  proof (cases "k < 0")
    case True
    then show ?thesis using c parse_float_cents_body [OF r, of ip] split
      by (simp add: parse_float_neg_body)
  next
    case False
    then show ?thesis using c parse_float_cents_body [OF r, of ip] split by simp
  qed
  then show ?thesis by (simp add: parseInput_def is_nan_def)
qed

end
