(* ===== verification/BusinessPage.thy ===== *)
theory BusinessPage
  imports BusinessTax JsFormat
begin

text \<open>
  The business calculator page, \<^verbatim>\<open>BusinessTaxCalculator\<close> of
  \<^verbatim>\<open>src/src/components/BusinessTax.tsx\<close> (lines 191--515) with its field components
  \<^verbatim>\<open>SelectField\<close> and \<^verbatim>\<open>InputField\<close> and the colour helper
  \<^verbatim>\<open>getBandBarColor\<close>. Its state is the five \<open>useState\<close> strings; the two
  \<open>useEffect\<close> hooks are a loop that runs the effects whose dependencies changed since
  they last ran until none did (\<open>settle\<close>); the two queries are the environment. A user
  event is possible when its control is rendered and enabled, and it sets one state
  string (or all five, for the reset). \<open>business_view\<close> is what a render shows.

  The lemmas show that the effect loop always ends (after at most two passes), the
  invariants of every reachable state, that the reset returns to the mounted page, that
  the page's bands add up to the result's tax, and the defects of the message area.
\<close>

subsection \<open>Environment and state\<close>

text \<open>A \<open>useQuery\<close> result: loading, failed, or the data.\<close>

datatype 'a query = Pending | Errored | Ready 'a

definition query_data :: "'a query \<Rightarrow> 'a \<Rightarrow> 'a" where
  "query_data q d = (case q of Ready x \<Rightarrow> x | _ \<Rightarrow> d)"

definition query_value :: "'a query \<Rightarrow> 'a option" where
  "query_value q = (case q of Ready x \<Rightarrow> Some x | _ \<Rightarrow> None)"

record business_env =
  industries_q :: "industry_option list query"
  config_q :: "tax_configuration query"
  current_year :: int

text \<open>The five state strings, and the dependency values the effects last ran with
  (\<open>None\<close> before the first run on mount).\<close>

record business_page =
  s_selectedIndustryId :: js_string
  s_revenueRange :: js_string
  s_madeProfit :: js_string
  s_netProfit :: js_string
  s_incorporationYear :: js_string
  dep_industry :: "js_string option"
  dep_madeProfit :: "js_string option"

definition initial_page :: business_page where
  "initial_page =
     \<lparr>s_selectedIndustryId = [], s_revenueRange = [], s_madeProfit = [], s_netProfit = [],
      s_incorporationYear = [], dep_industry = None, dep_madeProfit = None\<rparr>"

subsection \<open>Derived values (lines 212--221, 236--243, 253--258)\<close>

definition find_industry :: "industry_option list \<Rightarrow> js_string \<Rightarrow> industry_option option" where
  "find_industry is i = find (\<lambda>x. opt_id x = i) is"

definition selected_industry :: "business_env \<Rightarrow> business_page \<Rightarrow> industry_option option" where
  "selected_industry env s = find_industry (query_data (industries_q env) []) (s_selectedIndustryId s)"

definition showExemptionField :: "business_env \<Rightarrow> business_page \<Rightarrow> bool" where
  "showExemptionField env s =
     (case selected_industry env s of Some i \<Rightarrow> HasExemptionPeriod (extraProperties i) | None \<Rightarrow> False)"

definition page_threshold :: "business_env \<Rightarrow> number" where
  "page_threshold env =
     (case query_value (config_q env) of Some c \<Rightarrow> TaxableAmountThreshold c | None \<Rightarrow> Num 10000000)"

definition revenue_options :: "business_env \<Rightarrow> (js_string \<times> js_string) list" where
  "revenue_options env =
     [([], js ''Select revenue range''),
      (js ''below'', js ''Less than '' @ fmt (page_threshold env)),
      (js ''above'', js ''More than '' @ fmt (page_threshold env))]"

definition profit_options :: "(js_string \<times> js_string) list" where
  "profit_options = [([], js ''Select an option''), (js ''yes'', js ''Yes''), (js ''no'', js ''No'')]"

definition industry_options :: "business_env \<Rightarrow> (js_string \<times> js_string) list" where
  "industry_options env =
     ([], js ''Select an industry'') # map (\<lambda>i. (opt_id i, opt_name i)) (query_data (industries_q env) [])"

definition page_params :: "business_env \<Rightarrow> business_page \<Rightarrow> business_params" where
  "page_params env s =
     \<lparr>industry = selected_industry env s, config = query_value (config_q env),
      madeProfit = s_madeProfit s, revenueRange = s_revenueRange s,
      netProfit = parseInput (s_netProfit s),
      incorporationYear = (if s_incorporationYear s \<noteq> [] then Some (parse_int (s_incorporationYear s)) else None)\<rparr>"

definition page_result :: "business_env \<Rightarrow> business_page \<Rightarrow> business_tax_result" where
  "page_result env s = calculateBusinessTax (current_year env) (page_params env s)"

definition is_loading :: "business_env \<Rightarrow> bool" where
  "is_loading env \<longleftrightarrow> industries_q env = Pending \<or> config_q env = Pending"

subsection \<open>The effects (lines 223--234)\<close>

text \<open>One commit: every effect whose dependency differs from the value it last ran with
  runs, reading the rendered state, and records the new dependency value.\<close>

definition effect_pass :: "business_page \<Rightarrow> business_page" where
  "effect_pass s =
     (let s1 = (if dep_industry s \<noteq> Some (s_selectedIndustryId s)
                then s\<lparr>s_revenueRange := [], s_madeProfit := [], s_netProfit := [], s_incorporationYear := []\<rparr>
                else s);
          s2 = (if dep_madeProfit s \<noteq> Some (s_madeProfit s) \<and> s_madeProfit s \<noteq> js ''yes''
                then s1\<lparr>s_netProfit := []\<rparr> else s1)
      in s2\<lparr>dep_industry := Some (s_selectedIndustryId s), dep_madeProfit := Some (s_madeProfit s)\<rparr>)"

definition effects_pending :: "business_page \<Rightarrow> bool" where
  "effects_pending s \<longleftrightarrow>
     dep_industry s \<noteq> Some (s_selectedIndustryId s) \<or> dep_madeProfit s \<noteq> Some (s_madeProfit s)"

text \<open>Re-render and run effects until no dependency changed; \<open>None\<close> would be a page
  that never settles.\<close>

partial_function (option) settle :: "business_page \<Rightarrow> business_page option" where
  "settle s = (if effects_pending s then settle (effect_pass s) else Some s)"

subsection \<open>Events (lines 245--251, 307--365)\<close>

datatype business_event =
    SelectIndustry js_string | SelectRevenue js_string | SelectProfit js_string
  | EnterNetProfit js_string | EnterYear js_string | ResetAll

text \<open>The render guards of the optional fields.\<close>

definition show_revenue :: "business_page \<Rightarrow> bool" where
  "show_revenue s \<longleftrightarrow> s_selectedIndustryId s \<noteq> []"

definition show_profit :: "business_page \<Rightarrow> bool" where
  "show_profit s \<longleftrightarrow> s_revenueRange s \<noteq> [] \<and> s_revenueRange s = js ''above''"

definition show_net_profit :: "business_page \<Rightarrow> bool" where
  "show_net_profit s \<longleftrightarrow> s_madeProfit s = js ''yes''"

definition show_year :: "business_env \<Rightarrow> business_page \<Rightarrow> bool" where
  "show_year env s \<longleftrightarrow> showExemptionField env s \<and> s_madeProfit s = js ''yes''"

text \<open>\<^verbatim>\<open>SelectField\<close>: the select is disabled when \<open>disabled || loading\<close>, and
  offers its options (a single \<open>Loading...\<close> entry while loading).\<close>

definition select_enabled :: "bool \<Rightarrow> bool \<Rightarrow> bool" where
  "select_enabled disabled loading \<longleftrightarrow> \<not> (disabled \<or> loading)"

definition select_shows :: "bool \<Rightarrow> (js_string \<times> js_string) list \<Rightarrow> js_string list" where
  "select_shows loading opts = (if loading then [js ''Loading...''] else map snd opts)"

definition event_enabled :: "business_env \<Rightarrow> business_page \<Rightarrow> business_event \<Rightarrow> bool" where
  "event_enabled env s ev =
     (case ev of
        SelectIndustry v \<Rightarrow>
          select_enabled (industries_q env = Errored) (industries_q env = Pending) \<and>
          v \<in> set (map fst (industry_options env))
      | SelectRevenue v \<Rightarrow>
          show_revenue s \<and> select_enabled False (config_q env = Pending) \<and>
          v \<in> set (map fst (revenue_options env))
      | SelectProfit v \<Rightarrow> show_profit s \<and> v \<in> set (map fst profit_options)
      | EnterNetProfit v \<Rightarrow> show_net_profit s
      | EnterYear v \<Rightarrow> show_year env s
      | ResetAll \<Rightarrow> True)"

definition handle_event :: "business_event \<Rightarrow> business_page \<Rightarrow> business_page" where
  "handle_event ev s =
     (case ev of
        SelectIndustry v \<Rightarrow> s\<lparr>s_selectedIndustryId := v\<rparr>
      | SelectRevenue v \<Rightarrow> s\<lparr>s_revenueRange := v\<rparr>
      | SelectProfit v \<Rightarrow> s\<lparr>s_madeProfit := v\<rparr>
      | EnterNetProfit v \<Rightarrow> s\<lparr>s_netProfit := v\<rparr>
      | EnterYear v \<Rightarrow> s\<lparr>s_incorporationYear := v\<rparr>
      | ResetAll \<Rightarrow> s\<lparr>s_selectedIndustryId := [], s_revenueRange := [], s_madeProfit := [],
                      s_netProfit := [], s_incorporationYear := []\<rparr>)"

text \<open>The states a page reaches: the mounted page, then any enabled event followed by the
  effects it triggers; the queries may load, fail or refetch between events.\<close>

inductive business_reachable :: "business_env \<Rightarrow> business_page \<Rightarrow> bool" where
  mount: "settle initial_page = Some s \<Longrightarrow> business_reachable env s"
| event: "business_reachable env s \<Longrightarrow> event_enabled env s ev \<Longrightarrow>
          settle (handle_event ev s) = Some s' \<Longrightarrow> business_reachable env s'"
| refresh: "business_reachable env s \<Longrightarrow> business_reachable env' s"

subsection \<open>The rendered page (lines 260--515)\<close>

datatype control =
    IndustrySelect "js_string list" bool
  | RevenueSelect "js_string list" bool
  | ProfitSelect "js_string list"
  | NetProfitInput js_string
  | YearInput js_string "number option"
  | ExemptionNote number
  | ExemptIndustryNote
  | NetProfitTotal js_string

text \<open>The input panel, lines 289--401: which controls are rendered, with the options a
  select shows and whether it is enabled, and the values the inputs show.\<close>

definition controls :: "business_env \<Rightarrow> business_page \<Rightarrow> control list" where
  "controls env s =
     (let ind = selected_industry env s in
      [IndustrySelect (select_shows (industries_q env = Pending) (industry_options env))
         (select_enabled (industries_q env = Errored) (industries_q env = Pending))] @
      (if show_revenue s
       then [RevenueSelect (select_shows (config_q env = Pending) (revenue_options env))
               (select_enabled False (config_q env = Pending))] else []) @
      (if show_profit s then [ProfitSelect (select_shows False profit_options)] else []) @
      (if show_net_profit s then [NetProfitInput (s_netProfit s)] else []) @
      (if show_year env s
       then [YearInput (s_incorporationYear s) (map_option (ExemptionPeriodYears \<circ> extraProperties) ind)]
       else []) @
      (case ind of
         Some i \<Rightarrow>
           (if showExemptionField env s then [ExemptionNote (ExemptionPeriodYears (extraProperties i))] else []) @
           (if \<not> RequiresIncomeTax (extraProperties i) then [ExemptIndustryNote] else [])
       | None \<Rightarrow> []) @
      (if s_madeProfit s = js ''yes'' then [NetProfitTotal (fmt (parseInput (s_netProfit s)))] else []))"

datatype band_label = TaxFreeLabel | PercentBandLabel number

record bar_band =
  bar_label :: band_label
  bar_taxPaid :: number
  bar_taxableAmount :: number
  bar_rate :: number

text \<open>\<open>taxBands\<close>, lines 260--271.\<close>

definition taxBands :: "business_env \<Rightarrow> business_tax_result \<Rightarrow> bar_band list" where
  "taxBands env r =
     (let taxRatePct = js_mul (default_rate (query_value (config_q env))) (Num 100) in
      if bt_isTaxable r
      then [\<lparr>bar_label = TaxFreeLabel, bar_taxPaid = Num 0, bar_taxableAmount = Num 0, bar_rate = Num 0\<rparr>,
            \<lparr>bar_label = PercentBandLabel taxRatePct, bar_taxPaid = bt_annualTax r,
             bar_taxableAmount = bt_totalNetProfit r, bar_rate = taxRatePct\<rparr>]
      else [\<lparr>bar_label = TaxFreeLabel, bar_taxPaid = Num 0, bar_taxableAmount = bt_totalNetProfit r,
             bar_rate = Num 0\<rparr>])"

datatype bar_color = Gray300 | Sky500 | Blue600 | Amber500

fun getBandBarColor_business :: "number \<Rightarrow> bar_color" where
  "getBandBarColor_business rate =
     (if js_eq rate (Num 0) then Gray300
      else if js_le rate (Num 15) then Sky500
      else if js_le rate (Num 20) then Blue600
      else if js_le rate (Num 23) then Amber500
      else Blue600)"

record band_row =
  row_label :: band_label
  row_amount :: js_string
  row_pct :: number
  row_color :: bar_color
  row_caption :: "js_string option"

text \<open>One bar of the breakdown, lines 452--473: both branches of the \<open>maxAmount\<close>
  conditional are \<open>result.totalNetProfit || 1\<close>.\<close>

definition bar_pct :: "business_tax_result \<Rightarrow> bar_band \<Rightarrow> number" where
  "bar_pct r b =
     (let maxAmount = js_or (bt_totalNetProfit r) (Num 1) in
      if js_less (Num 0) (bar_taxableAmount b)
      then js_min (js_mul (js_div (bar_taxableAmount b) maxAmount) (Num 100)) (Num 100)
      else Num 0)"

definition band_row_of :: "business_tax_result \<Rightarrow> bar_band \<Rightarrow> band_row" where
  "band_row_of r b =
     \<lparr>row_label = bar_label b, row_amount = fmt (bar_taxPaid b), row_pct = bar_pct r b,
      row_color = getBandBarColor_business (bar_rate b),
      row_caption = (if js_less (Num 0) (bar_taxableAmount b) then Some (fmt (bar_taxableAmount b)) else None)\<rparr>"

datatype message =
    ExemptIndustryMsg | NoProfitMsg | BelowThresholdMsg number | ExemptionPeriodMsg "number option"

text \<open>The message area under the breakdown, lines 477--497.\<close>

definition page_messages :: "business_env \<Rightarrow> business_page \<Rightarrow> business_tax_result \<Rightarrow> message list" where
  "page_messages env s r =
     (if s_selectedIndustryId s \<noteq> []
      then (if bt_reason r = No_income_tax then [ExemptIndustryMsg] else []) @
           (if bt_reason r = No_profit \<and> s_madeProfit s = js ''no'' then [NoProfitMsg] else []) @
           (if bt_reason r = Below_threshold then [BelowThresholdMsg (page_threshold env)] else []) @
           (if s_revenueRange s \<noteq> js ''above'' then [BelowThresholdMsg (page_threshold env)] else []) @
           (if bt_reason r = Exemption_applies
            then [ExemptionPeriodMsg (map_option (ExemptionPeriodYears \<circ> extraProperties) (selected_industry env s))]
            else [])
      else [])"

record business_view =
  error_banner :: bool
  view_controls :: "control list"
  annual_text :: "js_string option"
  monthly_text :: js_string
  rate_text :: js_string
  band_rows :: "band_row list"
  view_messages :: "message list"

definition business_view :: "business_env \<Rightarrow> business_page \<Rightarrow> business_view" where
  "business_view env s =
     (let r = page_result env s in
      \<lparr>error_banner = (industries_q env = Errored \<or> config_q env = Errored),
       view_controls = controls env s,
       annual_text = (if is_loading env then None else Some (fmt (bt_annualTax r))),
       monthly_text = fmt (bt_monthlyTax r),
       rate_text = (if bt_isTaxable r then to_fixed 2 (js_mul (bt_taxRate r) (Num 100)) @ js ''%''
                    else js ''0.00%''),
       band_rows = map (band_row_of r) (taxBands env r),
       view_messages = page_messages env s r\<rparr>)"

text \<open>The environment of the witnesses: the industry of the specification's exemption
  scenario and the default configuration, both loaded, in 2026.\<close>

definition example_env :: "bool \<Rightarrow> bool \<Rightarrow> rat \<Rightarrow> business_env" where
  "example_env req has years =
     \<lparr>industries_q = Ready [example_industry req has years], config_q = Ready example_config,
      current_year = 2026\<rparr>"

subsection \<open>Sessions\<close>

text \<open>The effect loop in closed form: at most two passes (the first may clear
  \<open>madeProfit\<close>, which re-triggers the second effect).\<close>

definition settle_fn :: "business_page \<Rightarrow> business_page" where
  "settle_fn s = (if \<not> effects_pending s then s
                  else if \<not> effects_pending (effect_pass s) then effect_pass s
                  else effect_pass (effect_pass s))"

text \<open>The invariant of the page: the effects have run, the net profit is empty unless
  the business made a profit, and no answer is kept without an industry.\<close>

definition business_page_inv :: "business_page \<Rightarrow> bool" where
  "business_page_inv s \<longleftrightarrow>
     \<not> effects_pending s \<and>
     (s_madeProfit s \<noteq> js ''yes'' \<longrightarrow> s_netProfit s = []) \<and>
     (s_selectedIndustryId s = [] \<longrightarrow>
        s_revenueRange s = [] \<and> s_madeProfit s = [] \<and> s_netProfit s = [] \<and> s_incorporationYear s = [])"

text \<open>A session: the mounted page, then a sequence of user events, each of which must be
  enabled when it happens.\<close>

fun run_events :: "business_env \<Rightarrow> business_event list \<Rightarrow> business_page \<Rightarrow> business_page option" where
  "run_events env [] s = Some s"
| "run_events env (ev # evs) s =
     (if event_enabled env s ev
      then (case settle (handle_event ev s) of Some s' \<Rightarrow> run_events env evs s' | None \<Rightarrow> None)
      else None)"

definition session :: "business_env \<Rightarrow> business_event list \<Rightarrow> business_page option" where
  "session env evs = (case settle initial_page of Some s \<Rightarrow> run_events env evs s | None \<Rightarrow> None)"

definition mounted_page :: business_page where
  "mounted_page = initial_page\<lparr>dep_industry := Some [], dep_madeProfit := Some []\<rparr>"

text \<open>A page that answered every question for a taxable business, used by a witness.\<close>

definition taxable_page :: business_page where
  "taxable_page =
     mounted_page\<lparr>s_selectedIndustryId := js ''ind'', s_revenueRange := js ''above'', s_madeProfit := js ''yes'',
                  s_netProfit := js ''12000000'', dep_industry := Some (js ''ind''), dep_madeProfit := Some (js ''yes'')\<rparr>"

lemmas business_page_eval [js_simps] =
  initial_page_def find_industry_def selected_industry_def showExemptionField_def page_threshold_def
  revenue_options_def profit_options_def industry_options_def page_params_def page_result_def
  is_loading_def effect_pass_def effects_pending_def show_revenue_def show_profit_def
  show_net_profit_def show_year_def select_enabled_def select_shows_def event_enabled_def
  handle_event_def controls_def taxBands_def bar_pct_def band_row_of_def page_messages_def
  business_view_def example_env_def query_data_def query_value_def


subsection \<open>The effect loop and the invariant\<close>

lemma effect_pass_twice_settled: "\<not> effects_pending (effect_pass (effect_pass s))"
  by (simp add: effect_pass_def effects_pending_def Let_def)

lemma settle_eq: "settle s = Some (settle_fn s)"
proof -
  have "settle (effect_pass (effect_pass s)) = Some (effect_pass (effect_pass s))"
    by (subst settle.simps) (simp add: effect_pass_twice_settled)
  then show ?thesis
    by (subst settle.simps, subst settle.simps) (simp add: settle_fn_def)
qed

lemma settle_fn_settled: "\<not> effects_pending (settle_fn s)"
  by (simp add: settle_fn_def effect_pass_twice_settled)

text \<open>C20: the effects of the page always settle: after any state change the effect
  loop stops after at most two passes, with no effect left to run.\<close>

theorem settle_terminates:
  "\<exists>k \<le> 2. settle s = Some ((effect_pass ^^ k) s) \<and> \<not> effects_pending ((effect_pass ^^ k) s)"
proof -
  consider "\<not> effects_pending s" | "effects_pending s" "\<not> effects_pending (effect_pass s)"
    | "effects_pending s" "effects_pending (effect_pass s)" by blast
  then show ?thesis
  proof cases
    case 1 then show ?thesis by (intro exI [of _ 0]) (simp add: settle_eq settle_fn_def)
  next
    case 2 then show ?thesis by (intro exI [of _ 1]) (simp add: settle_eq settle_fn_def)
  next
    case 3 then show ?thesis
      by (intro exI [of _ 2]) (simp add: settle_eq settle_fn_def effect_pass_twice_settled numeral_2_eq_2)
  qed
qed

lemma effect_pass_fields [simp]:
  "s_selectedIndustryId (effect_pass s) = s_selectedIndustryId s"
  "dep_industry (effect_pass s) = Some (s_selectedIndustryId s)"
  "dep_madeProfit (effect_pass s) = Some (s_madeProfit s)"
  "s_revenueRange (effect_pass s) = (if dep_industry s \<noteq> Some (s_selectedIndustryId s) then [] else s_revenueRange s)"
  "s_madeProfit (effect_pass s) = (if dep_industry s \<noteq> Some (s_selectedIndustryId s) then [] else s_madeProfit s)"
  "s_incorporationYear (effect_pass s) =
     (if dep_industry s \<noteq> Some (s_selectedIndustryId s) then [] else s_incorporationYear s)"
  "s_netProfit (effect_pass s) =
     (if dep_industry s \<noteq> Some (s_selectedIndustryId s) \<or>
         (dep_madeProfit s \<noteq> Some (s_madeProfit s) \<and> s_madeProfit s \<noteq> js ''yes'') then []
      else s_netProfit s)"
  by (simp_all add: effect_pass_def Let_def)

lemma settle_fn_industry [simp]: "s_selectedIndustryId (settle_fn s) = s_selectedIndustryId s"
  by (simp add: settle_fn_def)

lemma settle_fn_new_industry:
  assumes "dep_industry s \<noteq> Some (s_selectedIndustryId s)"
  shows "s_revenueRange (settle_fn s) = [] \<and> s_madeProfit (settle_fn s) = [] \<and>
         s_netProfit (settle_fn s) = [] \<and> s_incorporationYear (settle_fn s) = []"
  using assms by (simp add: settle_fn_def effects_pending_def)

lemma settle_fn_same_industry:
  assumes "dep_industry s = Some (s_selectedIndustryId s)"
  shows "s_revenueRange (settle_fn s) = s_revenueRange s \<and> s_madeProfit (settle_fn s) = s_madeProfit s \<and>
         s_incorporationYear (settle_fn s) = s_incorporationYear s \<and>
         s_netProfit (settle_fn s) =
           (if dep_madeProfit s \<noteq> Some (s_madeProfit s) \<and> s_madeProfit s \<noteq> js ''yes'' then [] else s_netProfit s)"
  using assms by (simp add: settle_fn_def effects_pending_def)

lemma inv_initial: "business_page_inv (settle_fn initial_page)"
  using settle_fn_new_industry [of initial_page] settle_fn_settled [of initial_page]
  by (simp add: business_page_inv_def initial_page_def)

lemma inv_step:
  assumes inv: "business_page_inv s" and en: "event_enabled env s ev"
  shows "business_page_inv (settle_fn (handle_event ev s))"
proof -
  let ?h = "handle_event ev s"
  have deps: "dep_industry ?h = dep_industry s" "dep_madeProfit ?h = dep_madeProfit s"
    by (cases ev; simp add: handle_event_def)+
  have settled: "dep_industry s = Some (s_selectedIndustryId s)" "dep_madeProfit s = Some (s_madeProfit s)"
    using inv by (simp_all add: business_page_inv_def effects_pending_def)
  show ?thesis
  proof (cases "dep_industry ?h = Some (s_selectedIndustryId ?h)")
    case False
    then show ?thesis using settle_fn_new_industry [of ?h] settle_fn_settled [of ?h]
      by (simp add: business_page_inv_def)
  next
    case True
    note same = settle_fn_same_industry [OF True]
    have ind: "s_selectedIndustryId ?h = s_selectedIndustryId s"
      using True deps settled by simp
    show ?thesis
    proof (cases ev)
      case ResetAll
      then show ?thesis using same settle_fn_settled [of ?h]
        by (simp add: business_page_inv_def handle_event_def)
    next
      case (SelectIndustry v)
      then show ?thesis using same settle_fn_settled [of ?h] inv ind
        by (simp add: business_page_inv_def handle_event_def)
    next
      case (SelectRevenue v)
      then show ?thesis using same settle_fn_settled [of ?h] inv en
        by (simp add: business_page_inv_def handle_event_def event_enabled_def show_revenue_def)
    next
      case (SelectProfit v)
      then show ?thesis using same settle_fn_settled [of ?h] inv en deps settled
        by (auto simp: business_page_inv_def handle_event_def event_enabled_def show_profit_def)
    next
      case (EnterNetProfit v)
      then show ?thesis using same settle_fn_settled [of ?h] inv en
        by (auto simp: business_page_inv_def handle_event_def event_enabled_def show_net_profit_def)
    next
      case (EnterYear v)
      then show ?thesis using same settle_fn_settled [of ?h] inv en
        by (auto simp: business_page_inv_def handle_event_def event_enabled_def show_year_def)
    qed
  qed
qed

text \<open>C21: every reachable page is settled, holds no net profit unless the business made
  a profit, and holds no answer while no industry is selected.\<close>

lemma business_reachable_page_inv: "business_reachable env s \<Longrightarrow> business_page_inv s"
  by (induction rule: business_reachable.induct) (auto simp: settle_eq inv_initial inv_step)

theorem business_reachable_inv: "business_reachable env s \<Longrightarrow> business_page_inv s"
  by (rule business_reachable_page_inv)

subsection \<open>Reset, breakdown and visibility\<close>

lemma run_events_reachable:
  "business_reachable env s \<Longrightarrow> run_events env evs s = Some s' \<Longrightarrow> business_reachable env s'"
  by (induction evs arbitrary: s)
     (auto split: if_splits option.splits intro: business_reachable.event)

lemma session_reachable: "session env evs = Some s \<Longrightarrow> business_reachable env s"
  by (auto simp: session_def split: option.splits intro: business_reachable.mount run_events_reachable)

lemma settle_initial_eq: "settle initial_page = Some mounted_page"
  by (simp add: settle_eq settle_fn_def initial_page_def mounted_page_def effects_pending_def effect_pass_def)

lemmas business_session_eval =
  session_def settle_initial_eq settle_eq settle_fn_def mounted_page_def calculateBusinessTax_unfold

theorem business_reachable_inv_witness: "business_page_inv mounted_page"
  using business_reachable_inv [OF business_reachable.mount [OF settle_initial_eq, of "example_env True True 5"]] .

lemma session_taxable_page:
  "session (example_env True True 5)
     [SelectIndustry (js ''ind''), SelectRevenue (js ''above''), SelectProfit (js ''yes''),
      EnterNetProfit (js ''12000000'')] = Some taxable_page"
  by (simp add: business_session_eval js_simps taxable_page_def)

lemma js_add_Num0 [simp]: "js_add (Num 0) x = x"
  by (cases x) simp_all

lemma reset_from_reachable:
  assumes "business_reachable env s"
  shows "settle (handle_event ResetAll s) = Some mounted_page"
proof -
  have inv: "business_page_inv s" using assms by (rule business_reachable_page_inv)
  show ?thesis
  proof (cases "s_selectedIndustryId s = []")
    case True
    with inv have "handle_event ResetAll s = mounted_page"
      by (intro business_page.equality)
         (simp_all add: business_page_inv_def effects_pending_def handle_event_def mounted_page_def initial_page_def)
    then show ?thesis using settle_initial_eq settle_eq by (simp add: settle_fn_def mounted_page_def initial_page_def effects_pending_def)
  next
    case False
    let ?h = "handle_event ResetAll s"
    have p: "effects_pending ?h" and np: "\<not> effects_pending (effect_pass ?h)"
      using False inv by (simp_all add: business_page_inv_def effects_pending_def handle_event_def)
    have "effect_pass ?h = mounted_page"
      using False inv
      by (intro business_page.equality)
         (simp_all add: business_page_inv_def effects_pending_def handle_event_def mounted_page_def initial_page_def)
    then show ?thesis using p np by (simp add: settle_eq settle_fn_def)
  qed
qed

text \<open>C22: "Reset All" from any reachable page gives the page as it was mounted.\<close>

theorem reset_returns_to_mount:
  "business_reachable env s \<Longrightarrow> settle (handle_event ResetAll s) = settle initial_page"
  by (simp add: reset_from_reachable settle_initial_eq)

theorem reset_returns_to_mount_witness:
  "settle (handle_event ResetAll taxable_page) = settle initial_page"
  by (rule reset_returns_to_mount [OF session_reachable [OF session_taxable_page]])

lemma taxBands_sums:
  "foldl js_add (Num 0) (map bar_taxPaid (taxBands env (calculateBusinessTax y p))) = bt_annualTax (calculateBusinessTax y p) \<and>
   foldl js_add (Num 0) (map bar_taxableAmount (taxBands env (calculateBusinessTax y p))) = netProfit p"
  using calculateBusinessTax_result_wf [of y p]
  by (simp add: taxBands_def business_result_wf_def Let_def)

text \<open>C23: the breakdown adds up: the tax of its bands is the headline annual tax and
  their taxable amounts add up to the net profit typed.\<close>

theorem breakdown_adds_up:
  "foldl js_add (Num 0) (map bar_taxPaid (taxBands env (page_result env s))) = bt_annualTax (page_result env s) \<and>
   foldl js_add (Num 0) (map bar_taxableAmount (taxBands env (page_result env s))) = parseInput (s_netProfit s)"
  using taxBands_sums [of env "current_year env" "page_params env s"]
  by (simp add: page_result_def page_params_def)

lemma bar_pct_taxBands:
  "b \<in> set (taxBands env (calculateBusinessTax y p)) \<Longrightarrow> bar_pct (calculateBusinessTax y p) b \<in> {Num 0, Num 100, NaN}"
proof -
  assume b: "b \<in> set (taxBands env (calculateBusinessTax y p))"
  then have "bar_taxableAmount b \<in> {Num 0, netProfit p}"
    by (auto simp: taxBands_def Let_def split: if_splits)
  then show ?thesis
    by (cases "netProfit p") (auto simp: bar_pct_def js_or_def js_truthy_def js_min_def)
qed

text \<open>C24: every bar of the business breakdown is empty (0), full (100) or NaN: its
  maximum is the net profit itself, so the bars carry no proportion.\<close>

theorem business_bars_full_or_empty:
  "\<forall>row \<in> set (band_rows (business_view env s)). row_pct row \<in> {Num 0, Num 100, NaN}"
  using bar_pct_taxBands [of _ env "current_year env" "page_params env s"]
  by (auto simp: business_view_def band_row_of_def page_result_def Let_def)

theorem business_bars_full_or_empty_witness:
  "row_pct (band_rows (business_view (example_env True True 5) taxable_page) ! 1) \<in> {Num 0, Num 100, NaN}"
proof -
  have "1 < length (band_rows (business_view (example_env True True 5) taxable_page))"
    by (simp add: business_view_def taxBands_def page_result_def page_params_def taxable_page_def
        mounted_page_def calculateBusinessTax_unfold js_simps)
  then show ?thesis using business_bars_full_or_empty [of "example_env True True 5" taxable_page]
    by (meson nth_mem)
qed

text \<open>C25: a tax or an exemption is shown only for answers the page displays: the profit
  question and the net profit field are rendered, and so is the year field when the industry
  has an exemption period.\<close>

theorem charged_inputs_visible:
  assumes "bt_reason (page_result env s) \<in> {Taxable, Exemption_applies}"
  shows "ProfitSelect (select_shows False profit_options) \<in> set (controls env s) \<and>
         NetProfitInput (s_netProfit s) \<in> set (controls env s) \<and>
         (showExemptionField env s \<longrightarrow> (\<exists>h. YearInput (s_incorporationYear s) h \<in> set (controls env s)))"
proof -
  have "s_madeProfit s = js ''yes'' \<and> s_revenueRange s = js ''above''"
    using calculateBusinessTax_charged [OF assms [unfolded page_result_def]] by (auto simp: page_params_def)
  then show ?thesis
    by (simp add: controls_def Let_def show_profit_def show_net_profit_def show_year_def)
qed

theorem charged_inputs_visible_witness:
  "ProfitSelect (select_shows False profit_options) \<in> set (controls (example_env True True 5) taxable_page) \<and>
   NetProfitInput (s_netProfit taxable_page) \<in> set (controls (example_env True True 5) taxable_page) \<and>
   (\<exists>h. YearInput (s_incorporationYear taxable_page) h \<in> set (controls (example_env True True 5) taxable_page))"
proof -
  have "bt_reason (page_result (example_env True True 5) taxable_page) \<in> {Taxable, Exemption_applies}"
    and "showExemptionField (example_env True True 5) taxable_page"
    by (simp_all add: taxable_page_def mounted_page_def page_result_def page_params_def js_simps
        calculateBusinessTax_unfold)
  with charged_inputs_visible show ?thesis by blast
qed

subsection \<open>Defects of the message area and the bars\<close>

lemma view_messages_eq: "view_messages (business_view env s) = page_messages env s (page_result env s)"
  by (simp add: business_view_def Let_def)

lemma view_rows_eq: "band_rows (business_view env s) = map (band_row_of (page_result env s)) (taxBands env (page_result env s))"
  by (simp add: business_view_def Let_def)

text \<open>C26: the message area can show the below-threshold message twice: a business that
  answered "above" and "yes" and then changed its revenue to "below" gets reason
  \<open>below_threshold\<close> (line 485) and \<open>revenueRange !== 'above'\<close> (line 488).\<close>

theorem duplicate_below_threshold_message:
  "\<exists>s. business_reachable (example_env True False 0) s \<and>
       view_messages (business_view (example_env True False 0) s) =
         [BelowThresholdMsg (Num 10000000), BelowThresholdMsg (Num 10000000)]"
proof -
  let ?evs = "[SelectIndustry (js ''ind''), SelectRevenue (js ''above''), SelectProfit (js ''yes''),
               SelectRevenue (js ''below'')]"
  have "\<exists>s. session (example_env True False 0) ?evs = Some s \<and> view_messages (business_view (example_env True False 0) s) =
         [BelowThresholdMsg (Num 10000000), BelowThresholdMsg (Num 10000000)]"
    by (simp add: business_session_eval js_simps view_messages_eq)
  then show ?thesis by (meson session_reachable)
qed

text \<open>C27: for an industry exempt from income tax the page shows, right after the industry
  is chosen, both "exempt" and "revenue is below the threshold", although no revenue was
  given.\<close>

theorem exempt_industry_messages:
  "\<exists>s. business_reachable (example_env False False 0) s \<and>
       view_messages (business_view (example_env False False 0) s) =
         [ExemptIndustryMsg, BelowThresholdMsg (Num 10000000)]"
proof -
  have "\<exists>s. session (example_env False False 0) [SelectIndustry (js ''ind'')] = Some s \<and> view_messages (business_view (example_env False False 0) s) =
         [ExemptIndustryMsg, BelowThresholdMsg (Num 10000000)]"
    by (simp add: business_session_eval js_simps view_messages_eq)
  then show ?thesis by (meson session_reachable)
qed

text \<open>C28: a negative net profit typed by the user is taxed into a negative annual tax:
  \<^verbatim>\<open>parseInput\<close> keeps the sign and \<^verbatim>\<open>calculateBusinessTax\<close> does not clamp.\<close>

theorem negative_profit_negative_tax:
  "\<exists>s. business_reachable (example_env True False 0) s \<and>
       bt_reason (page_result (example_env True False 0) s) = Taxable \<and>
       bt_annualTax (page_result (example_env True False 0) s) = Num (-250000)"
proof -
  let ?evs = "[SelectIndustry (js ''ind''), SelectRevenue (js ''above''), SelectProfit (js ''yes''),
               EnterNetProfit (js ''-1000000'')]"
  have "\<exists>s. session (example_env True False 0) ?evs = Some s \<and> bt_reason (page_result (example_env True False 0) s) = Taxable \<and>
       bt_annualTax (page_result (example_env True False 0) s) = Num (-250000)"
    by (simp add: business_session_eval js_simps)
  then show ?thesis by (meson session_reachable)
qed

text \<open>C29: the net profit text \<open>Infinity\<close> gives the taxed bar the width NaN:
  \<open>Infinity / (Infinity || 1)\<close> is NaN, and \<open>Math.min\<close> keeps it.\<close>

theorem infinite_profit_NaN_bar:
  "\<exists>s. business_reachable (example_env True False 0) s \<and>
       map row_pct (band_rows (business_view (example_env True False 0) s)) = [Num 0, NaN]"
proof -
  let ?evs = "[SelectIndustry (js ''ind''), SelectRevenue (js ''above''), SelectProfit (js ''yes''),
               EnterNetProfit (js ''Infinity'')]"
  have "\<exists>s. session (example_env True False 0) ?evs = Some s \<and> map row_pct (band_rows (business_view (example_env True False 0) s)) = [Num 0, NaN]"
    by (simp add: business_session_eval js_simps view_rows_eq)
  then show ?thesis by (meson session_reachable)
qed

end
