(* ===== verification/PersonalPage.thy ===== *)
theory PersonalPage
  imports PersonalTax BusinessPage
begin

text \<open>
  The tax calculator page, \<^verbatim>\<open>TaxCalculatorPage\<close> of
  \<^verbatim>\<open>src/src/components/TaxCalculator.tsx\<close> (lines 159--433), with its money field
  \<^verbatim>\<open>MoneyInput\<close> (lines 86--125) and the band helpers \<^verbatim>\<open>getBandBadgeColor\<close>,
  \<^verbatim>\<open>getBandBarColor\<close> and \<^verbatim>\<open>BAND_MAX\<close> (lines 42--62). The page holds the
  active tab, the eleven amounts and a \<open>useMutation\<close> of \<^verbatim>\<open>calculateTax\<close>; each
  mounted \<^verbatim>\<open>MoneyInput\<close> holds its display text and the value its effect last ran
  with; the business tab mounts the business calculator of \<open>BusinessPage\<close>.

  A user event (typing in a money field, Calculate, Reset All, a tab button, or an event of
  the business calculator) and the service's answer to the pending calculation are the
  steps of \<open>personal_step\<close>. \<open>personal_view\<close> is what the personal tab shows.

  The lemmas show the invariant of reachable pages (every field shows its amount as
  \<^verbatim>\<open>formatNaira\<close> prints it, and the amounts are whole naira), that what a field shows
  reads back as its amount, that a pending calculation always ends with the service's
  answer, what the page shows then, that the result goes stale when an amount changes, and
  that the business calculator loses its answers when the tab changes.
\<close>

subsection \<open>State\<close>

datatype tax_tab = PersonalTab | BusinessTab

datatype income_field = SalaryIncome | BusinessIncome | RentalIncome | InvestmentIncome | OtherIncome

datatype deduction_field =
  Rent | PensionContribution | NhfContribution | LifeInsurance | NhisPremium | Gratitude

definition income_value :: "income_field \<Rightarrow> income_payload \<Rightarrow> number" where
  "income_value f i =
     (case f of SalaryIncome \<Rightarrow> salaryIncome i | BusinessIncome \<Rightarrow> businessIncome i
      | RentalIncome \<Rightarrow> rentalIncome i | InvestmentIncome \<Rightarrow> investmentIncome i
      | OtherIncome \<Rightarrow> otherIncome i)"

text \<open>\<open>setIncome((p) => ({ ...p, salaryIncome: v }))\<close> and its siblings.\<close>

definition set_income :: "income_field \<Rightarrow> number \<Rightarrow> income_payload \<Rightarrow> income_payload" where
  "set_income f v i =
     (case f of SalaryIncome \<Rightarrow> i\<lparr>salaryIncome := v\<rparr> | BusinessIncome \<Rightarrow> i\<lparr>businessIncome := v\<rparr>
      | RentalIncome \<Rightarrow> i\<lparr>rentalIncome := v\<rparr> | InvestmentIncome \<Rightarrow> i\<lparr>investmentIncome := v\<rparr>
      | OtherIncome \<Rightarrow> i\<lparr>otherIncome := v\<rparr>)"

definition deduction_value :: "deduction_field \<Rightarrow> deduction_payload \<Rightarrow> number" where
  "deduction_value f d =
     (case f of Rent \<Rightarrow> rent d | PensionContribution \<Rightarrow> pensionContribution d
      | NhfContribution \<Rightarrow> nhfContribution d | LifeInsurance \<Rightarrow> lifeInsurance d
      | NhisPremium \<Rightarrow> nhisPremium d | Gratitude \<Rightarrow> gratitude d)"

definition set_deduction :: "deduction_field \<Rightarrow> number \<Rightarrow> deduction_payload \<Rightarrow> deduction_payload" where
  "set_deduction f v d =
     (case f of Rent \<Rightarrow> d\<lparr>rent := v\<rparr> | PensionContribution \<Rightarrow> d\<lparr>pensionContribution := v\<rparr>
      | NhfContribution \<Rightarrow> d\<lparr>nhfContribution := v\<rparr> | LifeInsurance \<Rightarrow> d\<lparr>lifeInsurance := v\<rparr>
      | NhisPremium \<Rightarrow> d\<lparr>nhisPremium := v\<rparr> | Gratitude \<Rightarrow> d\<lparr>gratitude := v\<rparr>)"

text \<open>\<open>DEFAULT_INCOME\<close> and \<open>DEFAULT_DEDUCTIONS\<close>, lines 151--156 (also the initial
  states of lines 161--176).\<close>

definition default_income :: income_payload where
  "default_income =
     \<lparr>salaryIncome = Num 0, businessIncome = Num 0, rentalIncome = Num 0, investmentIncome = Num 0,
      otherIncome = Num 0\<rparr>"

definition default_deductions :: deduction_payload where
  "default_deductions =
     \<lparr>rent = Num 0, pensionContribution = Num 0, nhfContribution = Num 0, lifeInsurance = Num 0,
      nhisPremium = Num 0, gratitude = Num 0\<rparr>"

text \<open>The state of a \<open>useMutation\<close> observer: idle, pending with the payload sent,
  succeeded with the data, or failed. While pending, \<open>mutation.data\<close> is undefined.\<close>

datatype mutation_state =
    Idle | Running tax_payload | Succeeded tax_payload tax_result | Failed tax_payload service_error

definition mutation_data :: "mutation_state \<Rightarrow> tax_result option" where
  "mutation_data m = (case m of Succeeded _ r \<Rightarrow> Some r | _ \<Rightarrow> None)"

definition is_pending :: "mutation_state \<Rightarrow> bool" where
  "is_pending m \<longleftrightarrow> (case m of Running _ \<Rightarrow> True | _ \<Rightarrow> False)"

definition is_error :: "mutation_state \<Rightarrow> bool" where
  "is_error m \<longleftrightarrow> (case m of Failed _ _ \<Rightarrow> True | _ \<Rightarrow> False)"

text \<open>A mounted \<^verbatim>\<open>MoneyInput\<close>: its \<open>displayValue\<close> and the \<open>value\<close> its effect
  last ran with.\<close>

record money_input =
  mi_display :: js_string
  mi_dep :: "number option"

record personal_page =
  activeTab :: tax_tab
  income_s :: income_payload
  deductions_s :: deduction_payload
  mutation :: mutation_state
  income_inputs :: "income_field \<Rightarrow> money_input"
  deduction_inputs :: "deduction_field \<Rightarrow> money_input"
  business_tab :: "business_page option"

text \<open>A \<^verbatim>\<open>MoneyInput\<close> as it mounts: \<open>useState(formatNaira(value))\<close>, effect not
  yet run.\<close>

definition mount_input :: "number \<Rightarrow> money_input" where
  "mount_input v = \<lparr>mi_display = formatNaira v, mi_dep = None\<rparr>"

text \<open>The effect of \<^verbatim>\<open>MoneyInput\<close>, lines 99--101: when \<open>value\<close> changed,
  \<open>setDisplayValue(formatNaira(value))\<close>.\<close>

definition input_effect :: "number \<Rightarrow> money_input \<Rightarrow> money_input" where
  "input_effect v m = (if mi_dep m \<noteq> Some v then \<lparr>mi_display = formatNaira v, mi_dep = Some v\<rparr> else m)"

text \<open>The effects of one commit: the money fields run theirs while the personal tab is
  shown (they are unmounted otherwise).\<close>

definition money_effects :: "personal_page \<Rightarrow> personal_page" where
  "money_effects s =
     (if activeTab s = PersonalTab
      then s\<lparr>income_inputs := (\<lambda>f. input_effect (income_value f (income_s s)) (income_inputs s f)),
             deduction_inputs := (\<lambda>f. input_effect (deduction_value f (deductions_s s)) (deduction_inputs s f))\<rparr>
      else s)"

definition initial_personal :: personal_page where
  "initial_personal =
     money_effects
       \<lparr>activeTab = PersonalTab, income_s = default_income, deductions_s = default_deductions,
        mutation = Idle, income_inputs = (\<lambda>f. mount_input (Num 0)),
        deduction_inputs = (\<lambda>f. mount_input (Num 0)), business_tab = None\<rparr>"

subsection \<open>Operations\<close>

text \<open>\<open>buildPayload\<close>, lines 180--196.\<close>

definition buildPayload :: "personal_page \<Rightarrow> tax_payload" where
  "buildPayload s =
     \<lparr>income = \<lparr>salaryIncome = salaryIncome (income_s s), businessIncome = businessIncome (income_s s),
                 rentalIncome = rentalIncome (income_s s), investmentIncome = investmentIncome (income_s s),
                 otherIncome = otherIncome (income_s s)\<rparr>,
      deductions = \<lparr>rent = rent (deductions_s s), pensionContribution = pensionContribution (deductions_s s),
                     nhfContribution = nhfContribution (deductions_s s),
                     lifeInsurance = lifeInsurance (deductions_s s), nhisPremium = nhisPremium (deductions_s s),
                     gratitude = gratitude (deductions_s s)\<rparr>\<rparr>"

text \<open>\<open>handleChange\<close> of \<^verbatim>\<open>MoneyInput\<close> (lines 103--110) with the page's
  \<open>onChange\<close>: the typed text is read with \<^verbatim>\<open>parseNaira\<close>, stored, and shown
  formatted.\<close>

definition type_income :: "income_field \<Rightarrow> js_string \<Rightarrow> personal_page \<Rightarrow> personal_page" where
  "type_income f input s =
     (let num = parseNaira input in
      s\<lparr>income_s := set_income f num (income_s s),
        income_inputs := (income_inputs s)(f := (income_inputs s f)\<lparr>mi_display := formatNaira num\<rparr>)\<rparr>)"

definition type_deduction :: "deduction_field \<Rightarrow> js_string \<Rightarrow> personal_page \<Rightarrow> personal_page" where
  "type_deduction f input s =
     (let num = parseNaira input in
      s\<lparr>deductions_s := set_deduction f num (deductions_s s),
        deduction_inputs := (deduction_inputs s)(f := (deduction_inputs s f)\<lparr>mi_display := formatNaira num\<rparr>)\<rparr>)"

text \<open>\<open>handleReset\<close>, lines 198--202.\<close>

definition handleReset :: "personal_page \<Rightarrow> personal_page" where
  "handleReset s = s\<lparr>income_s := default_income, deductions_s := default_deductions, mutation := Idle\<rparr>"

text \<open>The service's answer settles the pending mutation with \<^verbatim>\<open>calculateTax\<close>.\<close>

definition settle_mutation :: "paye_response \<Rightarrow> mutation_state \<Rightarrow> mutation_state" where
  "settle_mutation res m =
     (case m of
        Running p \<Rightarrow> (case calculateTax p res of Inl e \<Rightarrow> Failed p e | Inr r \<Rightarrow> Succeeded p r)
      | _ \<Rightarrow> m)"

text \<open>\<open>setActiveTab\<close>, lines 227--241: the business calculator mounts with the business
  tab and is discarded with it; the money fields remount with the personal tab.\<close>

definition switch_tab :: "tax_tab \<Rightarrow> personal_page \<Rightarrow> personal_page" where
  "switch_tab t s =
     (if t = activeTab s then s
      else if t = BusinessTab then s\<lparr>activeTab := BusinessTab, business_tab := settle initial_page\<rparr>
      else s\<lparr>activeTab := PersonalTab, business_tab := None,
             income_inputs := (\<lambda>f. mount_input (income_value f (income_s s))),
             deduction_inputs := (\<lambda>f. mount_input (deduction_value f (deductions_s s)))\<rparr>)"

datatype personal_event =
    TypeIncome income_field js_string | TypeDeduction deduction_field js_string
  | CalculateTax | ResetPersonal | SwitchTab tax_tab | Respond paye_response
  | BusinessEvent business_event

text \<open>The steps of the page: an event of a rendered, enabled control, or the answer of
  the service to the pending calculation, followed by the effects of the commit.\<close>

inductive personal_step :: "business_env \<Rightarrow> personal_page \<Rightarrow> personal_event \<Rightarrow> personal_page \<Rightarrow> bool" where
  type_income: "activeTab s = PersonalTab \<Longrightarrow>
     personal_step env s (TypeIncome f input) (money_effects (type_income f input s))"
| type_deduction: "activeTab s = PersonalTab \<Longrightarrow>
     personal_step env s (TypeDeduction f input) (money_effects (type_deduction f input s))"
| calculate: "activeTab s = PersonalTab \<Longrightarrow> \<not> is_pending (mutation s) \<Longrightarrow>
     personal_step env s CalculateTax (s\<lparr>mutation := Running (buildPayload s)\<rparr>)"
| reset: "activeTab s = PersonalTab \<Longrightarrow> personal_step env s ResetPersonal (money_effects (handleReset s))"
| switch: "personal_step env s (SwitchTab t) (money_effects (switch_tab t s))"
| respond: "is_pending (mutation s) \<Longrightarrow>
     personal_step env s (Respond res) (s\<lparr>mutation := settle_mutation res (mutation s)\<rparr>)"
| business: "activeTab s = BusinessTab \<Longrightarrow> business_tab s = Some b \<Longrightarrow> event_enabled env b ev \<Longrightarrow>
     personal_step env s (BusinessEvent ev) (s\<lparr>business_tab := settle (handle_event ev b)\<rparr>)"

inductive personal_reachable :: "business_env \<Rightarrow> personal_page \<Rightarrow> bool" where
  init: "personal_reachable env initial_personal"
| step: "personal_reachable env s \<Longrightarrow> personal_step env s e s' \<Longrightarrow> personal_reachable env s'"

subsection \<open>The rendered page (lines 204--433)\<close>

text \<open>\<open>totalIncome\<close> and \<open>totalDeductionsLive\<close>, lines 207--214.\<close>

definition totalIncome :: "personal_page \<Rightarrow> number" where
  "totalIncome s =
     (let i = income_s s in
      js_add (js_add (js_add (js_add (salaryIncome i) (businessIncome i)) (rentalIncome i))
        (investmentIncome i)) (otherIncome i))"

definition totalDeductionsLive :: "personal_page \<Rightarrow> number" where
  "totalDeductionsLive s =
     (let d = deductions_s s in
      js_add (js_add (js_add (js_add (js_add (rent d) (pensionContribution d)) (nhfContribution d))
        (lifeInsurance d)) (nhisPremium d)) (gratitude d))"

text \<open>\<open>getBandBadgeColor\<close> (lines 42--52, a \<open>switch\<close>, so \<open>===\<close>),
  \<open>getBandBarColor\<close> (lines 54--57) and \<open>BAND_MAX[rate] ?? 50_000_000\<close>
  (lines 59--62, 359).\<close>

definition getBandBadgeColor :: "rat \<Rightarrow> js_string" where
  "getBandBadgeColor r =
     (if r = 0 then js ''bg-emerald-500 text-white''
      else if r = 15 then js ''bg-sky-500 text-white''
      else if r = 18 then js ''bg-indigo-600 text-white''
      else if r = 21 then js ''bg-amber-500 text-white''
      else if r = 23 then js ''bg-orange-500 text-white''
      else if r = 25 then js ''bg-rose-500 text-white''
      else js ''bg-gray-400 text-white'')"

definition getBandBarColor_personal :: "rat \<Rightarrow> js_string" where
  "getBandBarColor_personal r = (if r = 0 then js ''bg-gray-200'' else js ''bg-blue-600'')"

definition BAND_MAX :: "rat \<Rightarrow> rat option" where
  "BAND_MAX r =
     (if r = 0 then Some 800000 else if r = 15 then Some 2200000 else if r = 18 then Some 9000000
      else if r = 21 then Some 13000000 else if r = 23 then Some 25000000
      else if r = 25 then Some 50000000 else None)"

definition band_max_amount :: "rat \<Rightarrow> rat" where
  "band_max_amount r = (case BAND_MAX r of Some m \<Rightarrow> m | None \<Rightarrow> 50000000)"

text \<open>One bar of the breakdown, lines 358--374.\<close>

record personal_bar =
  pb_label :: band_label
  pb_amount :: js_string
  pb_pct :: number
  pb_color :: js_string
  pb_caption :: js_string

definition personal_pct :: "tax_band \<Rightarrow> number" where
  "personal_pct b =
     (let maxAmount = Num (band_max_amount (rate b)) in
      if js_less (Num 0) maxAmount
      then js_min (js_mul (js_div (Num (taxableAmount b)) maxAmount) (Num 100)) (Num 100)
      else Num 0)"

definition personal_bar_of :: "tax_band \<Rightarrow> personal_bar" where
  "personal_bar_of b =
     (let label = (if rate b = 0 then TaxFreeLabel else PercentBandLabel (Num (rate b))) in
      \<lparr>pb_label = label, pb_amount = formatNaira (Num (taxPaid b)), pb_pct = personal_pct b,
       pb_color = getBandBarColor_personal (rate b), pb_caption = formatNaira (Num (taxableAmount b))\<rparr>)"

text \<open>A row of the bracket table, lines 404--414: the band's text, its rate, the badge
  colour and the tax.\<close>

definition bracket_row :: "tax_band \<Rightarrow> js_string \<times> rat \<times> js_string \<times> js_string" where
  "bracket_row b = (band b, rate b, getBandBadgeColor (rate b), formatNaira (Num (taxPaid b)))"

datatype result_card = Skeleton | Figures js_string js_string js_string

record personal_view =
  money_fields :: "js_string list"
  total_income_text :: js_string
  total_deductions_text :: js_string
  calculate_enabled :: bool
  calculate_label :: js_string
  card :: result_card
  summary :: "js_string list option"
  breakdown :: "personal_bar list option"
  error_shown :: bool
  bracket_table :: "(js_string \<times> rat \<times> js_string \<times> js_string) list option"

definition em_dash :: js_string where
  "em_dash = [0x2014]"

definition personal_view :: "personal_page \<Rightarrow> personal_view" where
  "personal_view s =
     (let result = mutation_data (mutation s); isLoading = is_pending (mutation s);
          shown = (\<lambda>g. case result of Some r \<Rightarrow> g r | None \<Rightarrow> em_dash)
      in \<lparr>money_fields =
            map (\<lambda>f. mi_display (income_inputs s f))
              [SalaryIncome, BusinessIncome, RentalIncome, InvestmentIncome, OtherIncome] @
            map (\<lambda>f. mi_display (deduction_inputs s f))
              [Rent, PensionContribution, NhfContribution, LifeInsurance, NhisPremium, Gratitude],
          total_income_text = formatNaira (totalIncome s),
          total_deductions_text = formatNaira (totalDeductionsLive s),
          calculate_enabled = \<not> isLoading,
          calculate_label = (if isLoading then js ''Calculating...'' else js ''Calculate Tax''),
          card = (if isLoading \<and> result = None then Skeleton
                  else case result of
                    Some r \<Rightarrow> Figures (formatNaira (annualTax r)) (formatNaira (monthlyTax r))
                                 (formatPercent (effectiveRate r))
                  | None \<Rightarrow> Figures (naira_sign # js ''0'') (naira_sign # js ''0'') (js ''0.00%'')),
          summary = (if result \<noteq> None \<or> isLoading
                     then Some [shown (\<lambda>r. formatNaira (grossIncome r)),
                                shown (\<lambda>r. js ''-'' @ formatNaira (totalDeductions r)),
                                shown (\<lambda>r. formatNaira (taxableIncome r)),
                                shown (\<lambda>r. js ''-'' @ formatNaira (annualTax r)),
                                shown (\<lambda>r. formatNaira (netIncome r))]
                     else None),
          breakdown = (case result of
                         Some r \<Rightarrow> if bands r \<noteq> [] then Some (map personal_bar_of (bands r)) else None
                       | None \<Rightarrow> None),
          error_shown = is_error (mutation s),
          bracket_table = map_option (\<lambda>r. map bracket_row (bands r)) result\<rparr>)"

subsection \<open>Invariant and example pages\<close>

text \<open>An amount \<^verbatim>\<open>parseNaira\<close> can return: a whole number of naira, or
  \<open>Infinity\<close>.\<close>

fun whole_amount :: "number \<Rightarrow> bool" where
  "whole_amount (Num q) \<longleftrightarrow> 0 \<le> q \<and> of_int (floor q) = q"
| "whole_amount Infinity \<longleftrightarrow> True"
| "whole_amount _ \<longleftrightarrow> False"

text \<open>A settled \<^verbatim>\<open>MoneyInput\<close> showing the value \<open>v\<close>.\<close>

definition canon :: "number \<Rightarrow> money_input" where
  "canon v = \<lparr>mi_display = formatNaira v, mi_dep = Some v\<rparr>"

definition mutation_payload :: "mutation_state \<Rightarrow> tax_payload option" where
  "mutation_payload m =
     (case m of Idle \<Rightarrow> None | Running p \<Rightarrow> Some p | Succeeded p _ \<Rightarrow> Some p | Failed p _ \<Rightarrow> Some p)"

text \<open>The invariant of the page: mounted money fields show their amounts formatted,
  the amounts are whole naira, the business calculator is mounted exactly on the business
  tab and satisfies its own invariant, and every payload sent holds whole amounts.\<close>

definition personal_inv :: "personal_page \<Rightarrow> bool" where
  "personal_inv s \<longleftrightarrow>
     (activeTab s = PersonalTab \<longrightarrow>
        (\<forall>f. income_inputs s f = canon (income_value f (income_s s))) \<and>
        (\<forall>f. deduction_inputs s f = canon (deduction_value f (deductions_s s)))) \<and>
     (\<forall>f. whole_amount (income_value f (income_s s))) \<and>
     (\<forall>f. whole_amount (deduction_value f (deductions_s s))) \<and>
     (case business_tab s of None \<Rightarrow> activeTab s = PersonalTab
      | Some b \<Rightarrow> activeTab s = BusinessTab \<and> business_page_inv b) \<and>
     (\<forall>p. mutation_payload (mutation s) = Some p \<longrightarrow>
        list_all whole_amount (income_amounts p @ deduction_amounts p))"

text \<open>Pages of the witnesses: a salary typed as \<open>Infinity\<close>; a calculation under
  way; a result followed by a new salary; the business tab with an answered form.\<close>

definition infinite_salary_page :: personal_page where
  "infinite_salary_page = money_effects (type_income SalaryIncome (js ''Infinity'') initial_personal)"

definition calculating_page :: personal_page where
  "calculating_page = initial_personal\<lparr>mutation := Running (buildPayload initial_personal)\<rparr>"

definition stale_page :: personal_page where
  "stale_page =
     money_effects (type_income SalaryIncome (js ''5000000'')
       (calculating_page\<lparr>mutation := settle_mutation (PayeOk []) (mutation calculating_page)\<rparr>))"

definition answered_business :: personal_page where
  "answered_business = initial_personal\<lparr>activeTab := BusinessTab, business_tab := Some taxable_page\<rparr>"

lemmas personal_page_eval [js_simps] =
  income_value_def set_income_def deduction_value_def set_deduction_def default_income_def
  default_deductions_def mutation_data_def is_pending_def is_error_def mount_input_def input_effect_def
  money_effects_def initial_personal_def buildPayload_def type_income_def type_deduction_def
  handleReset_def settle_mutation_def switch_tab_def totalIncome_def totalDeductionsLive_def
  getBandBadgeColor_def getBandBarColor_personal_def BAND_MAX_def band_max_amount_def
  personal_pct_def personal_bar_of_def bracket_row_def em_dash_def personal_view_def


subsection \<open>The invariant of the page\<close>

lemma whole_amount_parseNaira: "whole_amount (parseNaira t)"
  using parseNaira_whole [of t] by auto

lemma input_effect_canon:
  "(mi_dep m = Some v \<longrightarrow> mi_display m = formatNaira v) \<Longrightarrow> input_effect v m = canon v"
  by (cases m) (auto simp: input_effect_def canon_def)

lemma income_value_set [simp]:
  "income_value g (set_income f v i) = (if g = f then v else income_value g i)"
  by (cases f; cases g) (simp_all add: income_value_def set_income_def)

lemma deduction_value_set [simp]:
  "deduction_value g (set_deduction f v d) = (if g = f then v else deduction_value g d)"
  by (cases f; cases g) (simp_all add: deduction_value_def set_deduction_def)

lemma income_value_default [simp]: "income_value f default_income = Num 0"
  by (cases f) (simp_all add: income_value_def default_income_def)

lemma deduction_value_default [simp]: "deduction_value f default_deductions = Num 0"
  by (cases f) (simp_all add: deduction_value_def default_deductions_def)

lemma income_amounts_all: "list_all P (income_amounts p) \<longleftrightarrow> (\<forall>f. P (income_value f (income p)))"
proof
  assume "list_all P (income_amounts p)"
  then show "\<forall>f. P (income_value f (income p))"
    by (auto simp: income_amounts_def income_value_def Let_def split: income_field.split)
next
  assume a: "\<forall>f. P (income_value f (income p))"
  show "list_all P (income_amounts p)"
    using a [rule_format, of SalaryIncome] a [rule_format, of BusinessIncome] a [rule_format, of RentalIncome]
      a [rule_format, of InvestmentIncome] a [rule_format, of OtherIncome]
    by (simp add: income_amounts_def income_value_def Let_def)
qed

lemma deduction_amounts_all: "list_all P (deduction_amounts p) \<longleftrightarrow> (\<forall>f. P (deduction_value f (deductions p)))"
proof
  assume "list_all P (deduction_amounts p)"
  then show "\<forall>f. P (deduction_value f (deductions p))"
    by (auto simp: deduction_amounts_def deduction_value_def Let_def split: deduction_field.split)
next
  assume a: "\<forall>f. P (deduction_value f (deductions p))"
  show "list_all P (deduction_amounts p)"
    using a [rule_format, of Rent] a [rule_format, of PensionContribution] a [rule_format, of NhfContribution]
      a [rule_format, of LifeInsurance] a [rule_format, of NhisPremium] a [rule_format, of Gratitude]
    by (simp add: deduction_amounts_def deduction_value_def Let_def)
qed

lemma buildPayload_values [simp]:
  "income_value f (income (buildPayload s)) = income_value f (income_s s)"
  "deduction_value g (deductions (buildPayload s)) = deduction_value g (deductions_s s)"
  by (cases f; simp add: buildPayload_def income_value_def) (cases g; simp add: buildPayload_def deduction_value_def)

lemma money_effects_other [simp]:
  "activeTab (money_effects s) = activeTab s" "income_s (money_effects s) = income_s s"
  "deductions_s (money_effects s) = deductions_s s" "mutation (money_effects s) = mutation s"
  "business_tab (money_effects s) = business_tab s"
  by (simp_all add: money_effects_def)

lemma money_effects_canon:
  assumes "activeTab s = PersonalTab"
    and "\<forall>f. mi_dep (income_inputs s f) = Some (income_value f (income_s s)) \<longrightarrow>
             mi_display (income_inputs s f) = formatNaira (income_value f (income_s s))"
    and "\<forall>f. mi_dep (deduction_inputs s f) = Some (deduction_value f (deductions_s s)) \<longrightarrow>
             mi_display (deduction_inputs s f) = formatNaira (deduction_value f (deductions_s s))"
  shows "income_inputs (money_effects s) f = canon (income_value f (income_s s)) \<and>
         deduction_inputs (money_effects s) g = canon (deduction_value g (deductions_s s))"
  using assms by (simp add: money_effects_def input_effect_canon)

lemma inv_initial_personal: "personal_inv initial_personal"
proof -
  let ?s0 = "\<lparr>activeTab = PersonalTab, income_s = default_income, deductions_s = default_deductions,
        mutation = Idle, income_inputs = (\<lambda>f. mount_input (Num 0)),
        deduction_inputs = (\<lambda>f. mount_input (Num 0)), business_tab = None\<rparr>"
  have "income_inputs (money_effects ?s0) f = canon (Num 0) \<and> deduction_inputs (money_effects ?s0) g = canon (Num 0)" for f g
    using money_effects_canon [of ?s0 f g] by (simp add: mount_input_def)
  then show ?thesis
    by (simp add: personal_inv_def initial_personal_def mutation_payload_def)
qed

lemma mutation_payload_settle [simp]: "mutation_payload (settle_mutation res m) = mutation_payload m"
  by (auto simp: settle_mutation_def mutation_payload_def split: mutation_state.split sum.split)

lemma business_mount_inv: "settle initial_page = Some b \<Longrightarrow> business_page_inv b"
  using inv_initial by (simp add: settle_eq)

lemma business_event_inv:
  "business_page_inv b \<Longrightarrow> event_enabled env b ev \<Longrightarrow> settle (handle_event ev b) = Some b' \<Longrightarrow> business_page_inv b'"
  using inv_step by (auto simp: settle_eq)

lemma settle_Some: "\<exists>b. settle s = Some b"
  by (simp add: settle_eq)

lemma type_income_fields [simp]:
  "activeTab (type_income f i s) = activeTab s"
  "income_s (type_income f i s) = set_income f (parseNaira i) (income_s s)"
  "deductions_s (type_income f i s) = deductions_s s" "mutation (type_income f i s) = mutation s"
  "business_tab (type_income f i s) = business_tab s" "deduction_inputs (type_income f i s) = deduction_inputs s"
  by (simp_all add: type_income_def Let_def)

lemma type_deduction_fields [simp]:
  "activeTab (type_deduction f i s) = activeTab s"
  "deductions_s (type_deduction f i s) = set_deduction f (parseNaira i) (deductions_s s)"
  "income_s (type_deduction f i s) = income_s s" "mutation (type_deduction f i s) = mutation s"
  "business_tab (type_deduction f i s) = business_tab s" "income_inputs (type_deduction f i s) = income_inputs s"
  by (simp_all add: type_deduction_def Let_def)

lemma handleReset_fields [simp]:
  "activeTab (handleReset s) = activeTab s" "income_s (handleReset s) = default_income"
  "deductions_s (handleReset s) = default_deductions" "mutation (handleReset s) = Idle"
  "business_tab (handleReset s) = business_tab s" "income_inputs (handleReset s) = income_inputs s"
  "deduction_inputs (handleReset s) = deduction_inputs s"
  by (simp_all add: handleReset_def)

lemma inv_personal_step:
  assumes st: "personal_step env s e s'" and inv: "personal_inv s"
  shows "personal_inv s'"
  using st
proof cases
  case (type_income f inp)
  let ?t = "type_income f inp s"
  have "income_inputs (money_effects ?t) g = canon (income_value g (income_s ?t)) \<and>
        deduction_inputs (money_effects ?t) h = canon (deduction_value h (deductions_s ?t))" for g h
    by (rule money_effects_canon) (use type_income inv in \<open>auto simp: type_income_def Let_def personal_inv_def canon_def\<close>)
  then show ?thesis using type_income inv whole_amount_parseNaira
    by (simp add: personal_inv_def split: option.splits)
next
  case (type_deduction f inp)
  let ?t = "type_deduction f inp s"
  have "income_inputs (money_effects ?t) g = canon (income_value g (income_s ?t)) \<and>
        deduction_inputs (money_effects ?t) h = canon (deduction_value h (deductions_s ?t))" for g h
    by (rule money_effects_canon) (use type_deduction inv in \<open>auto simp: type_deduction_def Let_def personal_inv_def canon_def\<close>)
  then show ?thesis using type_deduction inv whole_amount_parseNaira
    by (simp add: personal_inv_def split: option.splits)
next
  case calculate
  then show ?thesis using inv
    by (simp add: personal_inv_def mutation_payload_def income_amounts_all deduction_amounts_all split: option.splits)
next
  case reset
  let ?t = "handleReset s"
  have "income_inputs (money_effects ?t) g = canon (income_value g (income_s ?t)) \<and>
        deduction_inputs (money_effects ?t) h = canon (deduction_value h (deductions_s ?t))" for g h
    by (rule money_effects_canon) (use reset inv in \<open>auto simp: handleReset_def personal_inv_def canon_def\<close>)
  then show ?thesis using reset inv
    by (simp add: personal_inv_def mutation_payload_def split: option.splits)
next
  case (switch t)
  show ?thesis
  proof (cases "t = activeTab s")
    case True
    then have sw: "switch_tab t s = s" by (simp add: switch_tab_def)
    show ?thesis
    proof (cases "activeTab s")
      case PersonalTab
      then have "income_inputs (money_effects s) g = canon (income_value g (income_s s)) \<and>
            deduction_inputs (money_effects s) h = canon (deduction_value h (deductions_s s))" for g h
        using inv by (intro money_effects_canon) (auto simp: personal_inv_def canon_def)
      then show ?thesis using switch sw inv PersonalTab by (simp add: personal_inv_def split: option.splits)
    next
      case BusinessTab
      then show ?thesis using switch sw inv by (simp add: personal_inv_def money_effects_def split: option.splits)
    qed
  next
    case False
    show ?thesis
    proof (cases t)
      case BusinessTab
      obtain b where b: "settle initial_page = Some b" using settle_Some by blast
      then show ?thesis using switch False BusinessTab inv business_mount_inv [OF b]
        by (simp add: personal_inv_def switch_tab_def money_effects_def)
    next
      case PersonalTab
      let ?t = "switch_tab t s"
      have "income_inputs (money_effects ?t) g = canon (income_value g (income_s ?t)) \<and>
            deduction_inputs (money_effects ?t) h = canon (deduction_value h (deductions_s ?t))" for g h
        by (rule money_effects_canon) (use False PersonalTab in \<open>auto simp: switch_tab_def mount_input_def\<close>)
      then show ?thesis using switch False PersonalTab inv
        by (simp add: personal_inv_def switch_tab_def)
    qed
  qed
next
  case (respond res)
  then show ?thesis using inv by (simp add: personal_inv_def split: option.splits)
next
  case (business b ev)
  obtain b' where b': "settle (handle_event ev b) = Some b'" using settle_Some by blast
  have "business_page_inv b" using business inv by (simp add: personal_inv_def split: option.splits)
  then have "business_page_inv b'" using business b' by (blast intro: business_event_inv)
  then show ?thesis using business inv b' by (simp add: personal_inv_def split: option.splits)
qed

lemma personal_reachable_page_inv: "personal_reachable env s \<Longrightarrow> personal_inv s"
  by (induction rule: personal_reachable.induct) (auto intro: inv_initial_personal inv_personal_step)

inductive_cases respondE: "personal_step env s (Respond res) s'"
inductive_cases resetE: "personal_step env s ResetPersonal s'"
inductive_cases switchE: "personal_step env s (SwitchTab t) s'"

lemma whole_amount_finite: "whole_amount v \<Longrightarrow> v \<noteq> Infinity \<Longrightarrow> \<exists>n. v = Num (of_nat n)"
proof (cases v)
  case (Num q)
  assume "whole_amount v"
  then have "0 \<le> q" "of_int (floor q) = q" using Num by simp_all
  then have "q = of_nat (nat (floor q))" by (metis of_int_0_le_iff of_nat_nat)
  then show ?thesis using Num by blast
qed simp_all

text \<open>C30: every reachable page satisfies the invariant: each mounted money field shows
  its amount as \<^verbatim>\<open>formatNaira\<close> prints it, the eleven amounts are whole naira (or
  \<open>Infinity\<close>), the business calculator is mounted exactly on the business tab and keeps
  its own invariant, and the payload of a calculation holds whole amounts.\<close>

theorem personal_reachable_inv: "personal_reachable env s \<Longrightarrow> personal_inv s"
  by (rule personal_reachable_page_inv)

theorem personal_reachable_inv_witness: "personal_inv initial_personal"
  by (rule personal_reachable_inv [OF personal_reachable.init [of "example_env True False 0"]])

text \<open>C31: what a money field shows reads back as its amount: \<^verbatim>\<open>parseNaira\<close> of
  the displayed text is the stored value, whenever that value is finite.\<close>

theorem money_field_roundtrip:
  assumes "personal_reachable env s" and "activeTab s = PersonalTab"
    and "income_value f (income_s s) \<noteq> Infinity" and "deduction_value g (deductions_s s) \<noteq> Infinity"
  shows "parseNaira (mi_display (income_inputs s f)) = income_value f (income_s s) \<and>
         parseNaira (mi_display (deduction_inputs s g)) = deduction_value g (deductions_s s)"
proof -
  have inv: "personal_inv s" using assms(1) by (rule personal_reachable_page_inv)
  have "whole_amount (income_value f (income_s s))" "whole_amount (deduction_value g (deductions_s s))"
    using inv by (simp_all add: personal_inv_def)
  then obtain m n where m: "income_value f (income_s s) = Num (of_nat m)"
    and n: "deduction_value g (deductions_s s) = Num (of_nat n)"
    using whole_amount_finite assms(3,4) by meson
  show ?thesis using inv assms(2) m n parseNaira_formatNaira_nat
    by (simp add: personal_inv_def canon_def)
qed

theorem money_field_roundtrip_witness:
  "parseNaira (mi_display (income_inputs initial_personal SalaryIncome)) = income_value SalaryIncome (income_s initial_personal) \<and>
   parseNaira (mi_display (deduction_inputs initial_personal Rent)) = deduction_value Rent (deductions_s initial_personal)"
  by (rule money_field_roundtrip [OF personal_reachable.init [of "example_env True False 0"]])
     (simp_all add: initial_personal_def money_effects_def)

text \<open>C32: the finite case is needed: typing \<open>Infinity\<close> stores the amount Infinity
  and shows \<open>\<^bold>N\<infinity>\<close>, which \<^verbatim>\<open>parseNaira\<close> reads as 0, so the next keystroke in
  that field resets it.\<close>

theorem infinite_field_reads_zero:
  "\<exists>s. personal_reachable env s \<and> income_value SalaryIncome (income_s s) = Infinity \<and>
       parseNaira (mi_display (income_inputs s SalaryIncome)) = Num 0"
proof (intro exI conjI)
  show "personal_reachable env infinite_salary_page"
    unfolding infinite_salary_page_def
    by (rule personal_reachable.step [OF personal_reachable.init personal_step.type_income])
       (simp add: initial_personal_def money_effects_def)
  show "income_value SalaryIncome (income_s infinite_salary_page) = Infinity"
    by (simp add: infinite_salary_page_def js_simps)
  show "parseNaira (mi_display (income_inputs infinite_salary_page SalaryIncome)) = Num 0"
    by (simp add: infinite_salary_page_def js_simps)
qed

text \<open>A pending calculation always ends: while the mutation is pending the service's
  answer, whatever it is, is accepted and leaves the page no longer pending.\<close>

theorem pending_calculation_ends:
  "is_pending (mutation s) \<Longrightarrow> \<exists>s'. personal_step env s (Respond res) s' \<and> \<not> is_pending (mutation s')"
proof -
  assume p: "is_pending (mutation s)"
  let ?s' = "s\<lparr>mutation := settle_mutation res (mutation s)\<rparr>"
  have "personal_step env s (Respond res) ?s'" using p by (rule personal_step.respond)
  moreover have "\<not> is_pending (mutation ?s')"
    using p by (auto simp: is_pending_def settle_mutation_def split: mutation_state.splits sum.splits)
  ultimately show ?thesis by blast
qed

theorem pending_calculation_ends_witness:
  "\<exists>s'. personal_step (example_env True False 0) calculating_page (Respond (PayeFailed 500)) s' \<and>
        \<not> is_pending (mutation s')"
  by (rule pending_calculation_ends) (simp add: calculating_page_def is_pending_def)

text \<open>C34: the answer is shown as \<^verbatim>\<open>calculateTax\<close> computes it from the payload
  sent: on success the card and the summary print the result's fields; on failure the
  error banner shows, the card prints zeros, the summary is hidden and Calculate is enabled
  again.\<close>

theorem answer_shown:
  assumes "personal_step env s (Respond res) s'" and "mutation s = Running p"
  shows "(case res of
            PayeOk bs \<Rightarrow>
              card (personal_view s') = Figures (formatNaira (annualTax (tax_result_of p bs)))
                (formatNaira (monthlyTax (tax_result_of p bs))) (formatPercent (effectiveRate (tax_result_of p bs))) \<and>
              summary (personal_view s') =
                Some [formatNaira (grossIncome (tax_result_of p bs)),
                      js ''-'' @ formatNaira (totalDeductions (tax_result_of p bs)),
                      formatNaira (taxableIncome (tax_result_of p bs)),
                      js ''-'' @ formatNaira (annualTax (tax_result_of p bs)),
                      formatNaira (netIncome (tax_result_of p bs))] \<and>
              \<not> error_shown (personal_view s')
          | PayeFailed st \<Rightarrow>
              error_shown (personal_view s') \<and> summary (personal_view s') = None \<and>
              card (personal_view s') = Figures (naira_sign # js ''0'') (naira_sign # js ''0'') (js ''0.00%'') \<and>
              calculate_enabled (personal_view s'))"
proof -
  have s': "s' = s\<lparr>mutation := settle_mutation res (mutation s)\<rparr>"
    using assms(1) by (auto elim: respondE)
  show ?thesis unfolding s' using assms(2)
    by (cases res) (simp_all add: settle_mutation_def calculateTax_def personal_view_def Let_def
        mutation_data_def is_pending_def is_error_def)
qed

theorem answer_shown_witness:
  "error_shown (personal_view (calculating_page\<lparr>mutation := settle_mutation (PayeFailed 500) (mutation calculating_page)\<rparr>)) \<and>
   summary (personal_view (calculating_page\<lparr>mutation := settle_mutation (PayeFailed 500) (mutation calculating_page)\<rparr>)) = None \<and>
   card (personal_view (calculating_page\<lparr>mutation := settle_mutation (PayeFailed 500) (mutation calculating_page)\<rparr>)) =
     Figures (naira_sign # js ''0'') (naira_sign # js ''0'') (js ''0.00%'') \<and>
   calculate_enabled (personal_view (calculating_page\<lparr>mutation := settle_mutation (PayeFailed 500) (mutation calculating_page)\<rparr>))"
  using answer_shown [OF personal_step.respond [of calculating_page "example_env True False 0" "PayeFailed 500"]]
  by (simp add: calculating_page_def is_pending_def)

text \<open>C35: the summary goes stale: after a result, typing a new salary changes the total
  income shown but not the result, which still reports the old gross income.\<close>

theorem stale_result_shown:
  "\<exists>s. personal_reachable env s \<and>
       summary (personal_view s) = Some [naira_sign # js ''0'', js ''-'' @ naira_sign # js ''0'',
         naira_sign # js ''0'', js ''-'' @ naira_sign # js ''0'', naira_sign # js ''0''] \<and>
       total_income_text (personal_view s) = naira_sign # js ''5,000,000''"
proof (intro exI conjI)
  have c: "personal_reachable env calculating_page"
    unfolding calculating_page_def
    by (rule personal_reachable.step [OF personal_reachable.init personal_step.calculate])
       (simp_all add: initial_personal_def money_effects_def is_pending_def)
  have r: "personal_reachable env (calculating_page\<lparr>mutation := settle_mutation (PayeOk []) (mutation calculating_page)\<rparr>)"
    by (rule personal_reachable.step [OF c personal_step.respond]) (simp add: calculating_page_def is_pending_def)
  show "personal_reachable env stale_page"
    unfolding stale_page_def
    by (rule personal_reachable.step [OF r personal_step.type_income])
       (simp add: calculating_page_def initial_personal_def money_effects_def)
  show "summary (personal_view stale_page) = Some [naira_sign # js ''0'', js ''-'' @ naira_sign # js ''0'',
         naira_sign # js ''0'', js ''-'' @ naira_sign # js ''0'', naira_sign # js ''0'']"
    by (simp add: stale_page_def calculating_page_def js_simps Let_def)
  show "total_income_text (personal_view stale_page) = naira_sign # js ''5,000,000''"
    by (simp add: stale_page_def calculating_page_def js_simps Let_def)
qed

text \<open>C36: Reset All clears every amount and the mutation, and the answer to a
  calculation sent before the reset is never shown.\<close>

theorem reset_cancels_calculation:
  assumes "personal_step env s ResetPersonal s'"
  shows "mutation s' = Idle \<and> totalIncome s' = Num 0 \<and> totalDeductionsLive s' = Num 0 \<and>
         (\<forall>res s''. \<not> personal_step env s' (Respond res) s'')"
proof -
  have s': "s' = money_effects (handleReset s)" using assms by (auto elim: resetE)
  have "\<not> personal_step env s' (Respond res) s''" for res s''
  proof
    assume "personal_step env s' (Respond res) s''"
    then have "is_pending (mutation s')" by (auto elim: respondE)
    then show False by (simp add: s' is_pending_def)
  qed
  then show ?thesis
    by (simp add: s' totalIncome_def totalDeductionsLive_def default_income_def default_deductions_def)
qed

theorem reset_cancels_calculation_witness:
  "mutation (money_effects (handleReset calculating_page)) = Idle \<and>
   totalIncome (money_effects (handleReset calculating_page)) = Num 0 \<and>
   totalDeductionsLive (money_effects (handleReset calculating_page)) = Num 0 \<and>
   (\<forall>res s''. \<not> personal_step (example_env True False 0) (money_effects (handleReset calculating_page)) (Respond res) s'')"
  by (rule reset_cancels_calculation [OF personal_step.reset])
     (simp add: calculating_page_def initial_personal_def money_effects_def)

text \<open>Leaving the business tab discards the business calculator: switching to the
  personal tab and back shows the business form as first mounted, while the personal
  amounts are kept.\<close>

theorem tab_switch_discards_business:
  assumes "activeTab s = BusinessTab"
    and "personal_step env s (SwitchTab PersonalTab) s1" and "personal_step env s1 (SwitchTab BusinessTab) s2"
  shows "business_tab s2 = Some mounted_page"
proof -
  have s1: "s1 = money_effects (switch_tab PersonalTab s)" using assms(2) by (auto elim: switchE)
  have s2: "s2 = money_effects (switch_tab BusinessTab s1)" using assms(3) by (auto elim: switchE)
  have "activeTab s1 = PersonalTab" using assms(1) by (simp add: s1 switch_tab_def)
  then show ?thesis by (simp add: s2 switch_tab_def settle_initial_eq money_effects_def)
qed

theorem tab_switch_discards_business_witness:
  "business_tab (money_effects (switch_tab BusinessTab (money_effects (switch_tab PersonalTab answered_business)))) =
   Some mounted_page"
  by (rule tab_switch_discards_business [OF _ personal_step.switch personal_step.switch])
     (simp add: answered_business_def)


subsection \<open>The breakdown bars\<close>

lemma band_max_amount_pos: "0 < band_max_amount r"
  by (simp add: band_max_amount_def BAND_MAX_def)

lemma personal_pct_min: "personal_pct x = Num (min (taxableAmount x / band_max_amount (rate x) * 100) 100)"
  using band_max_amount_pos [of "rate x"] by (simp add: personal_pct_def js_min_def min_def)

end
