(* ===== verification/Brackets.thy ===== *)
theory Brackets
  imports PersonalTax
begin

text \<open>
  The progressive band allocator of the specification (section 4.2). It runs in the
  remote PAYE service that \<^verbatim>\<open>calculateTax\<close> posts to, not in the repository, so it
  is modelled from the specification: walk the bands in ascending order, give each
  \<open>min(remaining, capacity)\<close>, charge \<open>rate / 100\<close> of it, and report every band,
  the trailing ones with zero amounts. The 2025 table has the capacities the page's
  \<^verbatim>\<open>BAND_MAX\<close> constant lists (\<^verbatim>\<open>TaxCalculator.tsx\<close> 59--62) for the rates 0, 15,
  18, 21 and 23 percent, and an open-ended top band at 25 percent.

  The lemmas show that the allocation covers the income up to the table's capacity,
  fills the bands strictly in order (no band receives income before the one below it is
  full), agrees with the closed form \<open>clamp (income - lower bound, 0, capacity)\<close>, and
  that the total tax grows with the income.
\<close>

record band_spec =
  bs_label :: js_string
  bs_rate :: rat
  bs_capacity :: "rat option"

text \<open>The amount a band takes from the remaining income: \<open>min(remaining, capacity)\<close>,
  all of it for the open-ended band.\<close>

definition band_amount :: "rat \<Rightarrow> rat option \<Rightarrow> rat" where
  "band_amount r cap = (case cap of None \<Rightarrow> r | Some c \<Rightarrow> min r c)"

definition charge :: "band_spec \<Rightarrow> rat \<Rightarrow> tax_band" where
  "charge b a = \<lparr>band = bs_label b, rate = bs_rate b, taxableAmount = a, taxPaid = bs_rate b / 100 * a\<rparr>"

fun allocate :: "rat \<Rightarrow> band_spec list \<Rightarrow> tax_band list" where
  "allocate r [] = []"
| "allocate r (b # bs) =
     charge b (band_amount r (bs_capacity b)) # allocate (r - band_amount r (bs_capacity b)) bs"

text \<open>The capacity of a table, \<open>None\<close> when a band is open-ended.\<close>

fun table_capacity :: "band_spec list \<Rightarrow> rat option" where
  "table_capacity [] = Some 0"
| "table_capacity (b # bs) =
     (case bs_capacity b of None \<Rightarrow> None | Some c \<Rightarrow> map_option ((+) c) (table_capacity bs))"

definition caps_nonneg :: "band_spec list \<Rightarrow> bool" where
  "caps_nonneg bs \<longleftrightarrow> (\<forall>b \<in> set bs. \<forall>c. bs_capacity b = Some c \<longrightarrow> 0 \<le> c)"

definition rates_nonneg :: "band_spec list \<Rightarrow> bool" where
  "rates_nonneg bs \<longleftrightarrow> (\<forall>b \<in> set bs. 0 \<le> bs_rate b)"

definition total_tax :: "tax_band list \<Rightarrow> rat" where
  "total_tax tbs = sum_list (map taxPaid tbs)"

definition lower_bound :: "band_spec list \<Rightarrow> nat \<Rightarrow> rat" where
  "lower_bound bs i = sum_list (map (\<lambda>b. case bs_capacity b of None \<Rightarrow> 0 | Some c \<Rightarrow> c) (take i bs))"


definition band_of :: "rat \<Rightarrow> rat option \<Rightarrow> band_spec" where
  "band_of r c = \<lparr>bs_label = js ''band'', bs_rate = r, bs_capacity = c\<rparr>"

definition paye_2025 :: "band_spec list" where
  "paye_2025 =
     [band_of 0 (Some 800000), band_of 15 (Some 2200000), band_of 18 (Some 9000000),
      band_of 21 (Some 13000000), band_of 23 (Some 25000000), band_of 25 None]"

subsection \<open>Properties of the allocation\<close>

lemma caps_nonneg_Cons: "caps_nonneg (b # bs) \<longleftrightarrow> (\<forall>c. bs_capacity b = Some c \<longrightarrow> 0 \<le> c) \<and> caps_nonneg bs"
  by (auto simp: caps_nonneg_def)

lemma rates_nonneg_Cons: "rates_nonneg (b # bs) \<longleftrightarrow> 0 \<le> bs_rate b \<and> rates_nonneg bs"
  by (auto simp: rates_nonneg_def)

lemma band_amount_bounds:
  "0 \<le> r \<Longrightarrow> (\<forall>c. cap = Some c \<longrightarrow> 0 \<le> c) \<Longrightarrow> 0 \<le> band_amount r cap \<and> band_amount r cap \<le> r"
  by (cases cap) (auto simp: band_amount_def)

lemma band_amount_pos: "0 < band_amount x cap \<Longrightarrow> 0 < x"
  by (cases cap) (auto simp: band_amount_def)

lemma allocate_length [simp]: "length (allocate r bs) = length bs"
  by (induction bs arbitrary: r) auto

lemma table_capacity_nonneg: "caps_nonneg bs \<Longrightarrow> table_capacity bs = Some C \<Longrightarrow> 0 \<le> C"
  by (induction bs arbitrary: C) (auto simp: caps_nonneg_Cons split: option.splits)

text \<open>C14: the allocation covers the income up to the table's capacity: the band
  amounts add up to \<open>min(income, capacity)\<close>, and to the whole income when a band is
  open-ended.\<close>

theorem allocate_total:
  "0 \<le> r \<Longrightarrow> caps_nonneg bs \<Longrightarrow>
   sum_list (map taxableAmount (allocate r bs)) = (case table_capacity bs of None \<Rightarrow> r | Some C \<Rightarrow> min r C)"
proof (induction bs arbitrary: r)
  case Nil
  then show ?case by simp
next
  case (Cons b bs)
  have rest: "0 \<le> r - band_amount r (bs_capacity b)"
    using band_amount_bounds [OF Cons.prems(1)] Cons.prems(2) by (simp add: caps_nonneg_Cons)
  have IH: "sum_list (map taxableAmount (allocate (r - band_amount r (bs_capacity b)) bs)) =
      (case table_capacity bs of None \<Rightarrow> r - band_amount r (bs_capacity b)
       | Some C \<Rightarrow> min (r - band_amount r (bs_capacity b)) C)"
    using Cons.IH [OF rest] Cons.prems(2) by (simp add: caps_nonneg_Cons)
  show ?case
  proof (cases "bs_capacity b")
    case None
    then show ?thesis
      using IH Cons.prems(2) table_capacity_nonneg [of bs]
      by (simp add: charge_def band_amount_def caps_nonneg_Cons split: option.splits)
  next
    case (Some c)
    then show ?thesis
      using IH Cons.prems table_capacity_nonneg [of bs]
      by (auto simp: charge_def band_amount_def caps_nonneg_Cons min_def split: option.splits)
  qed
qed

text \<open>C15: bands fill strictly in order: if a band receives income, the bounded band
  below it is full.\<close>

theorem allocate_in_order:
  assumes "0 \<le> r" and "Suc i < length bs"
    and "0 < taxableAmount (allocate r bs ! Suc i)" and "bs_capacity (bs ! i) = Some c"
  shows "taxableAmount (allocate r bs ! i) = c"
  using assms
proof (induction bs arbitrary: r i)
  case Nil
  then show ?case by simp
next
  case (Cons b bs)
  show ?case
  proof (cases i)
    case 0
    then obtain b' bs' where bs: "bs = b' # bs'" using Cons.prems(2) by (cases bs) auto
    have cb: "bs_capacity b = Some c" using Cons.prems(4) 0 by simp
    from Cons.prems(3) 0 bs have "0 < band_amount (r - band_amount r (bs_capacity b)) (bs_capacity b')"
      by (simp add: charge_def)
    then have "0 < r - band_amount r (bs_capacity b)"
      by (rule band_amount_pos)
    with cb 0 show ?thesis by (simp add: charge_def band_amount_def)
  next
    case (Suc j)
    have "0 \<le> r - band_amount r (bs_capacity b)"
      by (cases "bs_capacity b") (auto simp: band_amount_def)
    with Cons.prems Suc show ?thesis by (simp add: Cons.IH)
  qed
qed

text \<open>C17: with non-negative rates the total tax never decreases when the income grows.\<close>

theorem allocate_total_tax_mono:
  "0 \<le> r \<Longrightarrow> r \<le> r' \<Longrightarrow> caps_nonneg bs \<Longrightarrow> rates_nonneg bs \<Longrightarrow>
   total_tax (allocate r bs) \<le> total_tax (allocate r' bs)"
proof (induction bs arbitrary: r r')
  case Nil
  then show ?case by (simp add: total_tax_def)
next
  case (Cons b bs)
  have a: "band_amount r (bs_capacity b) \<le> band_amount r' (bs_capacity b)"
    using Cons.prems(2) by (cases "bs_capacity b") (auto simp: band_amount_def)
  have b: "r - band_amount r (bs_capacity b) \<le> r' - band_amount r' (bs_capacity b)"
    using Cons.prems(2) by (cases "bs_capacity b") (auto simp: band_amount_def)
  have c: "0 \<le> r - band_amount r (bs_capacity b)"
    by (cases "bs_capacity b") (auto simp: band_amount_def)
  have "total_tax (allocate (r - band_amount r (bs_capacity b)) bs) \<le>
        total_tax (allocate (r' - band_amount r' (bs_capacity b)) bs)"
    using Cons.IH [OF c b] Cons.prems(3,4) by (simp add: caps_nonneg_Cons rates_nonneg_Cons)
  moreover have "bs_rate b / 100 * band_amount r (bs_capacity b) \<le> bs_rate b / 100 * band_amount r' (bs_capacity b)"
    using a Cons.prems(4) by (simp add: rates_nonneg_Cons mult_left_mono)
  ultimately show ?case by (simp add: total_tax_def charge_def)
qed

lemma lower_bound_nonneg: "caps_nonneg bs \<Longrightarrow> 0 \<le> lower_bound bs i"
  unfolding lower_bound_def caps_nonneg_def
  by (rule sum_list_nonneg_rat) (auto split: option.splits dest: in_set_takeD)

lemma lower_bound_Cons: "lower_bound (b # bs) (Suc j) = (case bs_capacity b of None \<Rightarrow> 0 | Some c \<Rightarrow> c) + lower_bound bs j"
  by (simp add: lower_bound_def)

text \<open>C16: the loop agrees with the closed form of a progressive schedule: band \<open>i\<close>
  taxes the part of the income above the band's lower bound, at most its capacity.\<close>

theorem allocate_closed_form:
  assumes "i < length bs" and "0 \<le> r" and "caps_nonneg bs" and "\<forall>j < i. bs_capacity (bs ! j) \<noteq> None"
  shows "taxableAmount (allocate r bs ! i) = band_amount (max (r - lower_bound bs i) 0) (bs_capacity (bs ! i))"
  using assms
proof (induction bs arbitrary: r i)
  case Nil
  then show ?case by simp
next
  case (Cons b bs)
  show ?case
  proof (cases i)
    case 0
    with Cons.prems(2) show ?thesis by (simp add: charge_def lower_bound_def)
  next
    case (Suc j)
    from Cons.prems(4) Suc obtain c where c: "bs_capacity b = Some c" by fastforce
    with Cons.prems(3) have c0: "0 \<le> c" by (simp add: caps_nonneg_Cons)
    have L: "0 \<le> lower_bound bs j" using Cons.prems(3) by (simp add: caps_nonneg_Cons lower_bound_nonneg)
    have r': "r - band_amount r (bs_capacity b) = max (r - c) 0" using c by (simp add: band_amount_def)
    have pre: "\<forall>k < j. bs_capacity (bs ! k) \<noteq> None"
    proof (intro allI impI)
      fix k assume "k < j"
      then have "Suc k < i" using Suc by simp
      with Cons.prems(4) have "bs_capacity ((b # bs) ! Suc k) \<noteq> None" by blast
      then show "bs_capacity (bs ! k) \<noteq> None" by simp
    qed
    have IH: "taxableAmount (allocate (max (r - c) 0) bs ! j) =
                band_amount (max (max (r - c) 0 - lower_bound bs j) 0) (bs_capacity (bs ! j))"
      using Cons.IH [of j "max (r - c) 0"] Cons.prems(1,3) Suc pre by (simp add: caps_nonneg_Cons)
    have "max (max (r - c) 0 - lower_bound bs j) 0 = max (r - (c + lower_bound bs j)) 0"
      using L by (simp add: max_def)
    with IH r' Suc c show ?thesis by (simp add: lower_bound_Cons)
  qed
qed

lemma allocate_tax_bound:
  assumes "0 \<le> r" and "caps_nonneg bs" and "rates_nonneg bs" and "\<forall>b \<in> set bs. bs_rate b \<le> R"
    and "0 \<le> R"
  shows "0 \<le> total_tax (allocate r bs) \<and> total_tax (allocate r bs) \<le> R / 100 * r"
  using assms
proof (induction bs arbitrary: r)
  case Nil
  then show ?case by (simp add: total_tax_def)
next
  case (Cons b bs)
  let ?a = "band_amount r (bs_capacity b)"
  have a: "0 \<le> ?a \<and> ?a \<le> r" using band_amount_bounds [OF Cons.prems(1)] Cons.prems(2) by (simp add: caps_nonneg_Cons)
  then have rest: "0 \<le> total_tax (allocate (r - ?a) bs) \<and> total_tax (allocate (r - ?a) bs) \<le> R / 100 * (r - ?a)"
    using Cons.IH [of "r - ?a"] Cons.prems by (simp add: caps_nonneg_Cons rates_nonneg_Cons)
  have rb: "0 \<le> bs_rate b" "bs_rate b \<le> R" using Cons.prems(3,4) by (simp_all add: rates_nonneg_Cons)
  have "bs_rate b / 100 * ?a \<le> R / 100 * ?a" using rb a by (simp add: mult_right_mono)
  moreover have "0 \<le> bs_rate b / 100 * ?a" using rb a by simp
  ultimately show ?case using rest by (simp add: total_tax_def charge_def algebra_simps)
qed


subsection \<open>The 2025 table\<close>

lemma allocate_band_within:
  "0 \<le> r \<Longrightarrow> caps_nonneg bs \<Longrightarrow> x \<in> set (allocate r bs) \<Longrightarrow>
   0 \<le> taxableAmount x \<and> (\<exists>b \<in> set bs. rate x = bs_rate b \<and> (\<forall>c. bs_capacity b = Some c \<longrightarrow> taxableAmount x \<le> c))"
proof (induction bs arbitrary: r)
  case (Cons b bs)
  have cap: "\<forall>c. bs_capacity b = Some c \<longrightarrow> 0 \<le> c" and rest: "caps_nonneg bs"
    using Cons.prems(2) by (simp_all add: caps_nonneg_Cons)
  have amt: "0 \<le> band_amount r (bs_capacity b) \<and> band_amount r (bs_capacity b) \<le> r"
    using band_amount_bounds [OF Cons.prems(1) cap] .
  show ?case
  proof (cases "x = charge b (band_amount r (bs_capacity b))")
    case True
    then show ?thesis using amt by (auto simp: charge_def band_amount_def)
  next
    case False
    then have "x \<in> set (allocate (r - band_amount r (bs_capacity b)) bs)" using Cons.prems(3) by simp
    moreover have "0 \<le> r - band_amount r (bs_capacity b)" using amt by simp
    ultimately show ?thesis using Cons.IH [OF _ rest] by fastforce
  qed
qed simp

lemma paye_2025_wf: "caps_nonneg paye_2025" "rates_nonneg paye_2025"
  by (simp_all add: caps_nonneg_def rates_nonneg_def paye_2025_def band_of_def)

lemmas paye_2025_eval = paye_2025_def band_of_def band_amount_def charge_def total_tax_def

theorem allocate_total_witness:
  "sum_list (map taxableAmount (allocate 5000000 paye_2025)) = 5000000"
  using allocate_total [of 5000000 paye_2025] paye_2025_wf by (simp add: paye_2025_eval)

theorem allocate_in_order_witness:
  "taxableAmount (allocate 5000000 paye_2025 ! 1) = 2200000"
  using allocate_in_order [of 5000000 1 paye_2025 2200000] by (simp add: paye_2025_eval)

theorem allocate_closed_form_witness:
  "taxableAmount (allocate 5000000 paye_2025 ! 2) = 2000000"
  using allocate_closed_form [of 2 paye_2025 5000000] paye_2025_wf
  by (simp add: paye_2025_eval lower_bound_def less_Suc_eq)

theorem allocate_total_tax_mono_witness:
  "total_tax (allocate 1000000 paye_2025) \<le> total_tax (allocate 5000000 paye_2025)"
  using allocate_total_tax_mono [of 1000000 5000000 paye_2025] paye_2025_wf by simp

end
