(* ===== verification/Service.thy ===== *)
theory Service
  imports JsParse BusinessTax
begin

text \<open>
  The decoding of the reference data in \<^verbatim>\<open>src/src/services/tax.service.ts\<close>:
  \<^verbatim>\<open>fetchIndustries\<close> (lines 33--77) and \<^verbatim>\<open>fetchConfiguration\<close> (lines 78--105).
  A response body is a JSON value (\<open>json\<close>), \<open>None\<close> when \<open>res.json()\<close> rejects; a
  property access \<open>x?.k\<close> is \<open>get_prop\<close>, \<open>??\<close> is \<open>qq\<close>, and \<open>Number(x)\<close> is
  \<open>js_number_of\<close>, with \<open>StringToNumber\<close> of ECMA-262 for strings. \<open>JSON.parse\<close>
  of a string is a parameter of the decoders (\<open>None\<close> for a \<open>SyntaxError\<close>). A
  \<open>TypeError\<close> thrown by a property read on \<open>null\<close> is an error value, and so is a
  non-OK HTTP status.

  The lemmas show that the decoders never produce a NaN exemption period, which defaults
  and fallbacks apply, and on which bodies the decoders reject.
\<close>

subsection \<open>JSON values and JavaScript conversions\<close>

datatype json = JNull | JBool bool | JNum rat | JStr js_string | JArr "json list"
  | JObj "(js_string \<times> json) list"

text \<open>\<open>x?.k\<close> for the keys the decoders read (none of them is inherited from
  \<open>Object.prototype\<close>); \<open>JSON.parse\<close> keeps the last of duplicate keys.\<close>

definition get_prop :: "json option \<Rightarrow> js_string \<Rightarrow> json option" where
  "get_prop x k = (case x of Some (JObj kvs) \<Rightarrow> map_of (rev kvs) k | _ \<Rightarrow> None)"

text \<open>\<open>a ?? b\<close>: \<open>b\<close> when \<open>a\<close> is \<open>undefined\<close> or \<open>null\<close>.\<close>

definition qq :: "json option \<Rightarrow> json option \<Rightarrow> json option" where
  "qq a b = (case a of None \<Rightarrow> b | Some JNull \<Rightarrow> b | _ \<Rightarrow> a)"

text \<open>\<open>StringToNumber\<close>: white space trimmed, the empty string is 0, then a
  \<open>0x\<close>/\<open>0o\<close>/\<open>0b\<close> integer or a signed decimal literal filling the whole string.\<close>

definition js_trim :: "js_string \<Rightarrow> js_string" where
  "js_trim s = rev (dropWhile is_js_space (rev (dropWhile is_js_space s)))"

definition exponent_full :: "js_string \<Rightarrow> int option" where
  "exponent_full s =
     (case s of [] \<Rightarrow> Some 0
      | c # cs \<Rightarrow>
          if c = 101 \<or> c = 69 then
            (let (neg, r) = parse_sign cs; (ds, rest) = take_digits 10 r
             in if ds = [] \<or> rest \<noteq> [] then None
                else Some (if neg then - int (digits_value 10 ds) else int (digits_value 10 ds)))
          else None)"

definition decimal_full :: "js_string \<Rightarrow> number option" where
  "decimal_full s =
     (if s = js ''Infinity'' then Some Infinity
      else
        (let (ip, r1) = take_digits 10 s;
             (fp, r2) = (case r1 of c # r \<Rightarrow> if c = 46 then take_digits 10 r else ([], r1)
                                  | [] \<Rightarrow> ([], []))
         in if ip = [] \<and> fp = [] then None
            else map_option (\<lambda>e. Num (decimal_value ip fp e)) (exponent_full r2)))"

definition radix_full :: "nat \<Rightarrow> js_string \<Rightarrow> number" where
  "radix_full r s = (let (ds, rest) = take_digits r s in
                     if ds = [] \<or> rest \<noteq> [] then NaN else Num (of_nat (digits_value r ds)))"

definition string_to_number :: "js_string \<Rightarrow> number" where
  "string_to_number s =
     (let t = js_trim s in
      if t = [] then Num 0
      else if take 2 t = js ''0x'' \<or> take 2 t = js ''0X'' then radix_full 16 (drop 2 t)
      else if take 2 t = js ''0o'' \<or> take 2 t = js ''0O'' then radix_full 8 (drop 2 t)
      else if take 2 t = js ''0b'' \<or> take 2 t = js ''0B'' then radix_full 2 (drop 2 t)
      else (let (neg, r) = parse_sign t in
            case decimal_full r of None \<Rightarrow> NaN | Some v \<Rightarrow> if neg then js_neg v else v))"

text \<open>\<open>ToNumber\<close> of a JSON value. An array converts through its string: the empty
  array and \<open>[null]\<close> are 0, an array of two or more elements joins with a comma and
  is NaN, and \<open>[x]\<close> converts as \<open>String(x)\<close> does, which is \<open>x\<close> itself except for a
  boolean (\<open>"true"\<close> is NaN).\<close>

fun json_to_number :: "json \<Rightarrow> number" where
  "json_to_number JNull = Num 0"
| "json_to_number (JBool b) = Num (if b then 1 else 0)"
| "json_to_number (JNum n) = Num n"
| "json_to_number (JStr s) = string_to_number s"
| "json_to_number (JObj _) = NaN"
| "json_to_number (JArr []) = Num 0"
| "json_to_number (JArr [JBool _]) = NaN"
| "json_to_number (JArr [x]) = json_to_number x"
| "json_to_number (JArr (_ # _ # _)) = NaN"

definition js_number_of :: "json option \<Rightarrow> number" where
  "js_number_of x = (case x of None \<Rightarrow> NaN | Some j \<Rightarrow> json_to_number j)"

subsection \<open>Responses and errors\<close>

record http_response =
  res_ok :: bool
  res_status :: nat
  res_body :: "json option"

datatype fetch_error = HttpError nat | BodyNotJson | NullItem | NullExtraProperties | NullConfiguration

subsection \<open>fetchIndustries (lines 33--77)\<close>

text \<open>The list of the envelope, lines 43--53.\<close>

definition industry_items :: "json option \<Rightarrow> json list" where
  "industry_items data =
     (let items = qq (qq (qq (qq (qq (get_prop (get_prop (get_prop data (js ''value'')) (js ''value'')) (js ''data''))
                                     (get_prop (get_prop data (js ''value'')) (js ''items'')))
                                 (get_prop data (js ''items'')))
                             (get_prop (get_prop data (js ''value'')) (js ''value'')))
                         (get_prop data (js ''value'')))
                     (Some (JArr []))
      in case items of Some (JArr xs) \<Rightarrow> xs | _ \<Rightarrow> [])"

record decoded_industry =
  di_id :: json
  di_name :: json
  di_value :: json
  di_RequiresIncomeTax :: json
  di_HasExemptionPeriod :: json
  di_ExemptionPeriodYears :: number

text \<open>\<open>a ?? b ?? d\<close> with a non-nullish default \<open>d\<close>.\<close>

definition qq_default :: "json option \<Rightarrow> json option \<Rightarrow> json \<Rightarrow> json" where
  "qq_default a b d = (case qq a (qq b (Some d)) of Some j \<Rightarrow> j | None \<Rightarrow> d)"

text \<open>One item, lines 56--75: reading a property of \<open>null\<close> throws.\<close>

definition decode_industry ::
  "(js_string \<Rightarrow> json option) \<Rightarrow> json \<Rightarrow> fetch_error + decoded_industry" where
  "decode_industry json_parse item =
     (if item = JNull then Inl NullItem
      else
        (let extra0 = qq_default (get_prop (Some item) (js ''extraProperties'')) None (JObj []);
             extra = (case extra0 of
                        JStr s \<Rightarrow> (case json_parse s of Some j \<Rightarrow> j | None \<Rightarrow> JObj [])
                      | j \<Rightarrow> j)
         in if extra = JNull then Inl NullExtraProperties
            else Inr \<lparr>di_id = qq_default (get_prop (Some item) (js ''id'')) (get_prop (Some item) (js ''value'')) (JStr []),
                      di_name = qq_default (get_prop (Some item) (js ''name'')) (get_prop (Some item) (js ''label''))
                                  (JStr (js ''Unnamed'')),
                      di_value = qq_default (get_prop (Some item) (js ''value'')) (get_prop (Some item) (js ''id'')) (JStr []),
                      di_RequiresIncomeTax = qq_default (get_prop (Some extra) (js ''RequiresIncomeTax'')) None (JBool True),
                      di_HasExemptionPeriod = qq_default (get_prop (Some extra) (js ''HasExemptionPeriod'')) None (JBool False),
                      di_ExemptionPeriodYears =
                        js_or (js_number_of (get_prop (Some extra) (js ''ExemptionPeriodYears''))) (Num 0)\<rparr>))"

text \<open>\<open>items.map\<close>: the first item that throws rejects the whole call.\<close>

fun decode_all :: "(js_string \<Rightarrow> json option) \<Rightarrow> json list \<Rightarrow> fetch_error + decoded_industry list" where
  "decode_all p [] = Inr []"
| "decode_all p (x # xs) =
     (case decode_industry p x of
        Inl e \<Rightarrow> Inl e
      | Inr d \<Rightarrow> (case decode_all p xs of Inl e \<Rightarrow> Inl e | Inr ds \<Rightarrow> Inr (d # ds)))"

definition fetchIndustries ::
  "(js_string \<Rightarrow> json option) \<Rightarrow> http_response \<Rightarrow> fetch_error + decoded_industry list" where
  "fetchIndustries p res =
     (if \<not> res_ok res then Inl (HttpError (res_status res))
      else case res_body res of
             None \<Rightarrow> Inl BodyNotJson
           | Some data \<Rightarrow> decode_all p (industry_items (Some data)))"

subsection \<open>fetchConfiguration (lines 78--105)\<close>

text \<open>A present, non-null field, converted as the arithmetic and comparisons that use
  it convert it; \<open>None\<close> lets \<open>??\<close> move on. The source keeps a rate of at most 1
  unconverted (a string stays a string), but every later use of \<open>TaxRate\<close> is a
  multiplication, which converts it the same way, so the model stores the number.\<close>

definition number_field :: "json option \<Rightarrow> number option" where
  "number_field x = (case x of None \<Rightarrow> None | Some JNull \<Rightarrow> None | Some j \<Rightarrow> Some (json_to_number j))"

definition fetchConfiguration ::
  "(js_string \<Rightarrow> json option) \<Rightarrow> http_response \<Rightarrow> fetch_error + tax_configuration" where
  "fetchConfiguration json_parse res =
     (if \<not> res_ok res then Inl (HttpError (res_status res))
      else case res_body res of
        None \<Rightarrow> Inl BodyNotJson
      | Some data \<Rightarrow>
          (let cfg0 = qq_default (get_prop (get_prop (Some data) (js ''value'')) (js ''value''))
                        (get_prop (Some data) (js ''value'')) (qq_default (Some data) None (JObj []));
               cfg = (case cfg0 of
                        JStr s \<Rightarrow> (case json_parse s of Some j \<Rightarrow> j | None \<Rightarrow> JObj [])
                      | j \<Rightarrow> j)
           in if cfg = JNull then Inl NullConfiguration
              else Inr (normalise_configuration
                          (number_field (get_prop (Some cfg) (js ''TaxRate'')))
                          (number_field (get_prop (Some cfg) (js ''taxRate'')))
                          (number_field (get_prop (Some cfg) (js ''TaxableAmountThreshold'')))
                          (number_field (get_prop (Some cfg) (js ''taxableAmountThreshold''))))))"

text \<open>A catalogue in the \<open>value.items\<close> envelope whose exemption period is not a
  number, used by a witness.\<close>

definition example_catalogue :: http_response where
  "example_catalogue =
     \<lparr>res_ok = True, res_status = 200,
      res_body = Some (JObj [(js ''value'', JObj [(js ''items'',
        JArr [JObj [(js ''id'', JStr (js ''agri'')), (js ''name'', JStr (js ''Agriculture'')),
                    (js ''extraProperties'', JObj [(js ''HasExemptionPeriod'', JBool True),
                                                   (js ''ExemptionPeriodYears'', JStr (js ''five''))])]])])])\<rparr>"

lemmas service_eval [js_simps] =
  get_prop_def qq_def js_trim_def exponent_full_def decimal_full_def radix_full_def string_to_number_def
  js_number_of_def industry_items_def qq_default_def decode_industry_def fetchIndustries_def
  number_field_def fetchConfiguration_def


subsection \<open>Properties of the decoders\<close>

lemma js_or_zero_not_NaN: "js_or a (Num 0) \<noteq> NaN"
  by (simp add: js_or_def js_truthy_def)

lemma decode_all_Inr:
  "decode_all p xs = Inr ds \<Longrightarrow> \<forall>d \<in> set ds. \<exists>x \<in> set xs. decode_industry p x = Inr d"
  by (induction xs arbitrary: ds) (fastforce split: sum.splits)+

lemma decode_industry_years: "decode_industry p x = Inr d \<Longrightarrow> di_ExemptionPeriodYears d \<noteq> NaN"
  by (auto simp: decode_industry_def Let_def js_or_zero_not_NaN split: if_splits)

text \<open>C39: every industry \<^verbatim>\<open>fetchIndustries\<close> returns has a number as its
  exemption period, never NaN: \<open>Number(x) || 0\<close> turns an absent or unreadable
  period into 0. The witness decodes a catalogue whose period is the text
  \<open>five\<close>, which \<open>Number\<close> reads as NaN.\<close>

theorem fetchIndustries_years_number:
  "fetchIndustries p res = Inr ds \<Longrightarrow> \<forall>d \<in> set ds. di_ExemptionPeriodYears d \<noteq> NaN"
  using decode_all_Inr [of p _ ds] decode_industry_years
  by (fastforce simp: fetchIndustries_def split: if_splits option.splits)

lemma example_catalogue_decoded:
  "fetchIndustries (\<lambda>_. None) example_catalogue =
     Inr [\<lparr>di_id = JStr (js ''agri''), di_name = JStr (js ''Agriculture''), di_value = JStr (js ''agri''),
           di_RequiresIncomeTax = JBool True, di_HasExemptionPeriod = JBool True,
           di_ExemptionPeriodYears = Num 0\<rparr>]"
  by (simp add: example_catalogue_def js_simps)

theorem fetchIndustries_years_number_witness:
  "\<exists>d. fetchIndustries (\<lambda>_. None) example_catalogue = Inr [d] \<and>
       js_number_of (Some (JStr (js ''five''))) = NaN \<and> di_ExemptionPeriodYears d \<noteq> NaN"
proof -
  obtain d where d: "fetchIndustries (\<lambda>_. None) example_catalogue = Inr [d]"
    using example_catalogue_decoded by blast
  have "di_ExemptionPeriodYears d \<noteq> NaN"
    using fetchIndustries_years_number [OF d] by simp
  moreover have "js_number_of (Some (JStr (js ''five''))) = NaN"
    by (simp add: js_simps)
  ultimately show ?thesis using d by blast
qed

text \<open>The paths on which the catalogue is lost: a \<open>null\<close> item, or an
  \<open>extraProperties\<close> string that parses to \<open>null\<close>, makes the call reject; an array
  body is not looked into.\<close>

lemma fetchIndustries_null_item:
  "fetchIndustries p \<lparr>res_ok = True, res_status = 200,
     res_body = Some (JObj [(js ''items'', JArr [JObj [(js ''id'', JStr (js ''a''))], JNull])])\<rparr> = Inl NullItem"
  by (simp add: js_simps)

lemma fetchIndustries_null_extra:
  "fetchIndustries (\<lambda>s. if s = js ''null'' then Some JNull else None) \<lparr>res_ok = True, res_status = 200,
     res_body = Some (JObj [(js ''items'', JArr [JObj [(js ''id'', JStr (js ''a'')), (js ''extraProperties'', JStr (js ''null''))]])])\<rparr>
   = Inl NullExtraProperties"
  by (simp add: js_simps)

lemma fetchIndustries_bare_array:
  "fetchIndustries p \<lparr>res_ok = True, res_status = 200,
     res_body = Some (JArr [JObj [(js ''id'', JStr (js ''a''))]])\<rparr> = Inr []"
  by (simp add: js_simps)

lemma fetchConfiguration_string_rate:
  "fetchConfiguration (\<lambda>_. None) \<lparr>res_ok = True, res_status = 200,
     res_body = Some (JObj [(js ''value'', JObj [(js ''TaxRate'', JStr (js '' 30 ''))])])\<rparr> =
   Inr \<lparr>TaxRate = Num (3/10), TaxableAmountThreshold = Num 10000000\<rparr>"
  by (simp add: js_simps normalise_configuration_def nullish_def)

end
