(* ===== verification/Chat.thy ===== *)
theory Chat
  imports JsNumber
begin

text \<open>
  The chat widget, \<^verbatim>\<open>ChatWidget\<close> of \<^verbatim>\<open>src/src/components/ui/ChatBot.tsx\<close>. Its
  state is the four \<open>useState\<close> values, the pending \<open>setTimeout\<close> callbacks (each an
  id, a due time in milliseconds and the value it gives \<open>popupVisible\<close>), the id held by
  \<open>hoverTimerRef\<close>, and the due time of the fact rotation \<open>setInterval\<close> started on
  mount. Time is explicit (\<open>now\<close>); \<open>Wait\<close> runs the earliest due callback, a
  timeout before the interval when both are due at the same time. The pointer is part of the
  environment: it is on the button, on the popup (while the popup is rendered) or elsewhere,
  and a \<open>mouseenter\<close>/\<open>mouseleave\<close> handler runs when it crosses an element's edge.

  The lemmas show that the fact shown is always one of \<open>TAX_FACTS\<close>, and that once the
  pointer is away from the widget the popup is hidden after at most 400 milliseconds.
\<close>

subsection \<open>State\<close>

text \<open>\<open>TAX_FACTS\<close>, lines 6--13, in UTF-16 (\<open>N\<close> is the naira sign, the apostrophe
  is code unit 39).\<close>

definition TAX_FACTS :: "js_string list" where
  "TAX_FACTS =
     [js ''You don'' @ [39] @ js ''t need to pay tax if you earn more than '' @ naira_sign # js ''50 Million Naira'',
      js ''The first '' @ naira_sign # js ''800,000 of your annual income is tax-free in Nigeria.'',
      js ''Pension contributions are tax-deductible under Nigerian tax law.'',
      js ''Small businesses with turnover below '' @ naira_sign # js ''25M enjoy a reduced CIT rate of 0%.'',
      js ''NHF contributions can reduce your taxable income.'',
      js ''Life insurance premiums qualify as allowable deductions.'']"

datatype pointer = Elsewhere | OnButton | OnPopup

record chat_state =
  isOpen :: bool
  isHovered :: bool
  factIndex :: nat
  popupVisible :: bool
  timeouts :: "(nat \<times> nat \<times> bool) list"
  hoverTimerRef :: "nat option"
  next_timer :: nat
  fact_due :: nat
  now :: nat
  pointer :: pointer

text \<open>The mounted widget: the interval of lines 23--28 fires every 5000 ms.\<close>

definition chat_mount :: chat_state where
  "chat_mount =
     \<lparr>isOpen = False, isHovered = False, factIndex = 0, popupVisible = False, timeouts = [],
      hoverTimerRef = None, next_timer = 1, fact_due = 5000, now = 0, pointer = Elsewhere\<rparr>"

text \<open>\<open>if (hoverTimerRef.current) clearTimeout(hoverTimerRef.current)\<close> (the ref keeps
  the id after the callback ran; clearing it again does nothing) and
  \<open>hoverTimerRef.current = setTimeout(() => setPopupVisible(v), delay)\<close>.\<close>

definition clear_hover :: "chat_state \<Rightarrow> chat_state" where
  "clear_hover s =
     (case hoverTimerRef s of
        None \<Rightarrow> s
      | Some i \<Rightarrow> s\<lparr>timeouts := filter (\<lambda>t. fst t \<noteq> i) (timeouts s)\<rparr>)"

definition set_hover :: "nat \<Rightarrow> bool \<Rightarrow> chat_state \<Rightarrow> chat_state" where
  "set_hover delay v s =
     s\<lparr>timeouts := timeouts s @ [(next_timer s, now s + delay, v)], hoverTimerRef := Some (next_timer s),
       next_timer := Suc (next_timer s)\<rparr>"

subsection \<open>Handlers (lines 30--49, 82, 107--110)\<close>

definition handleMouseEnter :: "chat_state \<Rightarrow> chat_state" where
  "handleMouseEnter s = set_hover 180 True ((clear_hover s)\<lparr>isHovered := True\<rparr>)"

definition handleMouseLeave :: "chat_state \<Rightarrow> chat_state" where
  "handleMouseLeave s = set_hover 400 False ((clear_hover s)\<lparr>isHovered := False\<rparr>)"

definition handlePopupMouseEnter :: "chat_state \<Rightarrow> chat_state" where
  "handlePopupMouseEnter s = (clear_hover s)\<lparr>popupVisible := True\<rparr>"

definition handlePopupMouseLeave :: "chat_state \<Rightarrow> chat_state" where
  "handlePopupMouseLeave s = set_hover 400 False s"

definition click_card :: "chat_state \<Rightarrow> chat_state" where
  "click_card s = s\<lparr>isOpen := True, popupVisible := False\<rparr>"

definition click_button :: "chat_state \<Rightarrow> chat_state" where
  "click_button s = s\<lparr>isOpen := \<not> isOpen s, popupVisible := False\<rparr>"

text \<open>\<open>showPopup\<close>, line 51.\<close>

definition showPopup :: "chat_state \<Rightarrow> bool" where
  "showPopup s \<longleftrightarrow> (popupVisible s \<or> isHovered s) \<and> \<not> isOpen s"

subsection \<open>Timers\<close>

text \<open>The first of the pending timeouts with the least due time.\<close>

definition pick_earlier :: "(nat \<times> nat \<times> bool) option \<Rightarrow> nat \<times> nat \<times> bool \<Rightarrow> (nat \<times> nat \<times> bool) option" where
  "pick_earlier acc t = (case acc of None \<Rightarrow> Some t | Some a \<Rightarrow> if fst (snd t) < fst (snd a) then Some t else acc)"

definition earliest_timeout :: "(nat \<times> nat \<times> bool) list \<Rightarrow> (nat \<times> nat \<times> bool) option" where
  "earliest_timeout ts = foldl pick_earlier None ts"

definition next_due :: "chat_state \<Rightarrow> nat" where
  "next_due s = (case earliest_timeout (timeouts s) of Some (i, d, v) \<Rightarrow> min d (fact_due s) | None \<Rightarrow> fact_due s)"

text \<open>The interval callback \<open>setFactIndex((i) => (i + 1) % TAX_FACTS.length)\<close>.\<close>

definition rotate_fact :: "chat_state \<Rightarrow> chat_state" where
  "rotate_fact s =
     s\<lparr>factIndex := (factIndex s + 1) mod length TAX_FACTS, now := fact_due s, fact_due := fact_due s + 5000\<rparr>"

definition fire_next :: "chat_state \<Rightarrow> chat_state" where
  "fire_next s =
     (case earliest_timeout (timeouts s) of
        Some (i, d, v) \<Rightarrow>
          if d \<le> fact_due s
          then s\<lparr>popupVisible := v, timeouts := filter (\<lambda>t. fst t \<noteq> i) (timeouts s), now := d\<rparr>
          else rotate_fact s
      | None \<Rightarrow> rotate_fact s)"

subsection \<open>Steps\<close>

datatype chat_event =
    EnterButton | LeaveButton | EnterPopup | LeavePopup | PointerAway | ClickButton | ClickCard | Wait

text \<open>\<open>PointerAway\<close> is the pointer leaving the place where the popup was after the
  popup unmounted under it: no handler runs.\<close>

inductive chat_step :: "chat_state \<Rightarrow> chat_event \<Rightarrow> chat_state \<Rightarrow> bool" where
  enter_button: "pointer s = Elsewhere \<Longrightarrow> chat_step s EnterButton ((handleMouseEnter s)\<lparr>pointer := OnButton\<rparr>)"
| leave_button: "pointer s = OnButton \<Longrightarrow> chat_step s LeaveButton ((handleMouseLeave s)\<lparr>pointer := Elsewhere\<rparr>)"
| enter_popup: "pointer s = Elsewhere \<Longrightarrow> showPopup s \<Longrightarrow>
     chat_step s EnterPopup ((handlePopupMouseEnter s)\<lparr>pointer := OnPopup\<rparr>)"
| leave_popup: "pointer s = OnPopup \<Longrightarrow> showPopup s \<Longrightarrow>
     chat_step s LeavePopup ((handlePopupMouseLeave s)\<lparr>pointer := Elsewhere\<rparr>)"
| pointer_away: "pointer s = OnPopup \<Longrightarrow> \<not> showPopup s \<Longrightarrow> chat_step s PointerAway (s\<lparr>pointer := Elsewhere\<rparr>)"
| click_button: "pointer s = OnButton \<Longrightarrow> chat_step s ClickButton (click_button s)"
| click_card: "pointer s = OnPopup \<Longrightarrow> showPopup s \<Longrightarrow> chat_step s ClickCard (click_card s)"
| wait: "chat_step s Wait (fire_next s)"

inductive chat_reachable :: "chat_state \<Rightarrow> bool" where
  mount: "chat_reachable chat_mount"
| step: "chat_reachable s \<Longrightarrow> chat_step s e s' \<Longrightarrow> chat_reachable s'"

text \<open>Let the timers run until the next one is due after \<open>T\<close>.\<close>

function wait_until :: "nat \<Rightarrow> chat_state \<Rightarrow> chat_state" where
  "wait_until T s = (if next_due s \<le> T then wait_until T (fire_next s) else s)"
  by auto

text \<open>The fact the popup shows, line 74 (\<open>undefined\<close> out of range).\<close>

definition fact_shown :: "chat_state \<Rightarrow> js_string option" where
  "fact_shown s = (if factIndex s < length TAX_FACTS then Some (TAX_FACTS ! factIndex s) else None)"

text \<open>The invariant of the widget: at most one timeout is pending, the one the ref holds;
  the hover flag says whether the pointer is on the button; no timeout is pending while the
  pointer is on the popup; with the pointer elsewhere and the chat closed, only a hide is
  pending, due within 400 ms, and a visible popup has one; the fact index is in range.\<close>

definition chat_inv :: "chat_state \<Rightarrow> bool" where
  "chat_inv s \<longleftrightarrow>
     (timeouts s = [] \<or> (\<exists>i d v. timeouts s = [(i, d, v)] \<and> hoverTimerRef s = Some i \<and> now s \<le> d)) \<and>
     (isHovered s \<longleftrightarrow> pointer s = OnButton) \<and>
     (pointer s = OnPopup \<longrightarrow> timeouts s = []) \<and>
     (pointer s = Elsewhere \<and> \<not> isOpen s \<longrightarrow>
        (\<forall>t \<in> set (timeouts s). \<not> snd (snd t) \<and> fst (snd t) \<le> now s + 400) \<and>
        (popupVisible s \<longrightarrow> timeouts s \<noteq> [])) \<and>
     now s \<le> fact_due s \<and> factIndex s < length TAX_FACTS"

text \<open>A hide is due by \<open>T\<close>, or the popup is hidden with nothing pending.\<close>

definition hide_pending :: "nat \<Rightarrow> chat_state \<Rightarrow> bool" where
  "hide_pending T s \<longleftrightarrow>
     (timeouts s = [] \<and> \<not> popupVisible s) \<or> (\<exists>i d. timeouts s = [(i, d, False)] \<and> d \<le> T)"

text \<open>The widget after the pointer passed over the button, used by a witness.\<close>

definition chat_left :: chat_state where
  "chat_left = (handleMouseLeave ((handleMouseEnter chat_mount)\<lparr>pointer := OnButton\<rparr>))\<lparr>pointer := Elsewhere\<rparr>"

lemma pick_earlier_cases: "pick_earlier acc t = acc \<or> pick_earlier acc t = Some t"
  by (simp add: pick_earlier_def split: option.split)

lemma foldl_pick_earlier: "foldl pick_earlier acc ts = acc \<or> foldl pick_earlier acc ts \<in> Some ` set ts"
proof (induction ts arbitrary: acc)
  case (Cons t ts)
  have "foldl pick_earlier (pick_earlier acc t) ts = pick_earlier acc t \<or>
        foldl pick_earlier (pick_earlier acc t) ts \<in> Some ` set ts"
    by (rule Cons.IH)
  moreover have "pick_earlier acc t = acc \<or> pick_earlier acc t = Some t" by (rule pick_earlier_cases)
  ultimately show ?case by auto
qed simp

lemma earliest_timeout_in: "earliest_timeout ts = Some t \<Longrightarrow> t \<in> set ts"
  using foldl_pick_earlier [of None ts] by (auto simp: earliest_timeout_def)

lemma earliest_timeout_Some: "earliest_timeout (t # ts) \<noteq> None"
proof -
  have "pick_earlier (Some a) u \<noteq> None" for a u
    using pick_earlier_cases [of "Some a" u] by (metis option.distinct(1))
  then have "foldl pick_earlier (Some a) ts \<noteq> None" for a
    using foldl_pick_earlier [of "Some a" ts] by (metis image_iff option.distinct(1))
  then show ?thesis by (simp add: earliest_timeout_def pick_earlier_def)
qed

lemma rotate_fact_fields [simp]:
  "timeouts (rotate_fact s) = timeouts s" "fact_due (rotate_fact s) = fact_due s + 5000"
  "now (rotate_fact s) = fact_due s" "popupVisible (rotate_fact s) = popupVisible s"
  "isOpen (rotate_fact s) = isOpen s" "isHovered (rotate_fact s) = isHovered s"
  "pointer (rotate_fact s) = pointer s" "hoverTimerRef (rotate_fact s) = hoverTimerRef s"
  "factIndex (rotate_fact s) = (factIndex s + 1) mod length TAX_FACTS"
  by (simp_all add: rotate_fact_def)

lemma fire_next_measure:
  assumes "next_due s \<le> T"
  shows "length (timeouts (fire_next s)) + (Suc T - fact_due (fire_next s)) <
         length (timeouts s) + (Suc T - fact_due s)"
proof (cases "earliest_timeout (timeouts s)")
  case None
  then have "fact_due s \<le> T" using assms by (simp add: next_due_def)
  then show ?thesis using None by (simp add: fire_next_def)
next
  case (Some t)
  obtain i d v where t: "t = (i, d, v)" by (cases t)
  have mem: "(i, d, v) \<in> set (timeouts s)" using Some t earliest_timeout_in by blast
  show ?thesis
  proof (cases "d \<le> fact_due s")
    case True
    have "length (filter (\<lambda>t. fst t \<noteq> i) (timeouts s)) < length (timeouts s)"
      using mem by (auto intro: length_filter_less)
    then show ?thesis using Some t True by (simp add: fire_next_def)
  next
    case False
    then have "fact_due s \<le> T" using Some t assms by (simp add: next_due_def)
    then show ?thesis using Some t False by (simp add: fire_next_def)
  qed
qed

termination wait_until
proof (relation "measure (\<lambda>(T, s). length (timeouts s) + (Suc T - fact_due s))")
  show "wf (measure (\<lambda>(T, s). length (timeouts s) + (Suc T - fact_due s)))" by simp
next
  fix T s
  assume "next_due s \<le> T"
  then show "((T, fire_next s), T, s) \<in> measure (\<lambda>(T, s). length (timeouts s) + (Suc T - fact_due s))"
    using fire_next_measure [of s T] by simp
qed

lemmas chat_eval [js_simps] =
  TAX_FACTS_def chat_mount_def clear_hover_def set_hover_def handleMouseEnter_def handleMouseLeave_def
  handlePopupMouseEnter_def handlePopupMouseLeave_def click_card_def click_button_def showPopup_def
  pick_earlier_def earliest_timeout_def next_due_def rotate_fact_def fire_next_def fact_shown_def


declare wait_until.simps [simp del]

subsection \<open>Invariant and liveness\<close>

lemma earliest_timeout_single [simp]: "earliest_timeout [t] = Some t"
  by (simp add: earliest_timeout_def pick_earlier_def)

lemma earliest_timeout_Nil [simp]: "earliest_timeout [] = None"
  by (simp add: earliest_timeout_def)

lemma length_TAX_FACTS [simp]: "length TAX_FACTS = 6"
  by (simp add: TAX_FACTS_def)

lemma clear_hover_single:
  "timeouts s = [(i, d, v)] \<Longrightarrow> hoverTimerRef s = Some i \<Longrightarrow> timeouts (clear_hover s) = []"
  by (simp add: clear_hover_def)

lemma clear_hover_fields [simp]:
  "isOpen (clear_hover s) = isOpen s" "isHovered (clear_hover s) = isHovered s"
  "popupVisible (clear_hover s) = popupVisible s" "now (clear_hover s) = now s"
  "fact_due (clear_hover s) = fact_due s" "factIndex (clear_hover s) = factIndex s"
  "pointer (clear_hover s) = pointer s" "hoverTimerRef (clear_hover s) = hoverTimerRef s"
  by (simp_all add: clear_hover_def split: option.split)

lemma clear_hover_empty: "timeouts s = [] \<Longrightarrow> timeouts (clear_hover s) = []"
  by (simp add: clear_hover_def split: option.split)

lemma clear_hover_inv: "chat_inv s \<Longrightarrow> timeouts (clear_hover s) = []"
  unfolding chat_inv_def using clear_hover_single clear_hover_empty by blast

lemma fire_next_single:
  "timeouts s = [(i, d, v)] \<Longrightarrow> d \<le> fact_due s \<Longrightarrow>
   fire_next s = s\<lparr>popupVisible := v, timeouts := [], now := d\<rparr>"
  by (simp add: fire_next_def)

lemma fire_next_rotate:
  "timeouts s = [] \<or> (\<exists>i d v. timeouts s = [(i, d, v)] \<and> \<not> d \<le> fact_due s) \<Longrightarrow> fire_next s = rotate_fact s"
  by (auto simp: fire_next_def)

lemma inv_mount: "chat_inv chat_mount"
  by (simp add: chat_inv_def chat_mount_def)

lemma inv_fire_next:
  assumes "chat_inv s" shows "chat_inv (fire_next s)"
proof -
  from assms consider "timeouts s = []" | i d v where "timeouts s = [(i, d, v)]" "hoverTimerRef s = Some i" "now s \<le> d"
    unfolding chat_inv_def by blast
  then show ?thesis
  proof cases
    case 1
    then show ?thesis using assms fire_next_rotate [of s] by (auto simp: chat_inv_def)
  next
    case (2 i d v)
    show ?thesis
    proof (cases "d \<le> fact_due s")
      case True
      then show ?thesis using assms 2 by (auto simp: chat_inv_def fire_next_single)
    next
      case False
      then show ?thesis using assms 2 fire_next_rotate [of s] by (auto simp: chat_inv_def)
    qed
  qed
qed

lemma inv_chat_step:
  assumes st: "chat_step s e s'" and inv: "chat_inv s"
  shows "chat_inv s'"
  using st
proof cases
  case enter_button
  then show ?thesis using inv clear_hover_inv [OF inv]
    by (auto simp: chat_inv_def handleMouseEnter_def set_hover_def)
next
  case leave_button
  then show ?thesis using inv clear_hover_inv [OF inv]
    by (auto simp: chat_inv_def handleMouseLeave_def set_hover_def)
next
  case enter_popup
  then show ?thesis using inv clear_hover_inv [OF inv]
    by (auto simp: chat_inv_def handlePopupMouseEnter_def)
next
  case leave_popup
  then show ?thesis using inv by (auto simp: chat_inv_def handlePopupMouseLeave_def set_hover_def)
next
  case pointer_away
  then show ?thesis using inv by (auto simp: chat_inv_def showPopup_def)
next
  case click_button
  then show ?thesis using inv by (auto simp: chat_inv_def click_button_def)
next
  case click_card
  then show ?thesis using inv by (auto simp: chat_inv_def click_card_def)
next
  case wait
  then show ?thesis using inv_fire_next [OF inv] by simp
qed

lemma chat_reachable_inv: "chat_reachable s \<Longrightarrow> chat_inv s"
  by (induction rule: chat_reachable.induct) (auto intro: inv_mount inv_chat_step)

lemma fire_next_keeps: "isOpen (fire_next s) = isOpen s \<and> isHovered (fire_next s) = isHovered s"
  by (auto simp: fire_next_def split: option.splits if_splits)

lemma wait_until_keeps: "isOpen (wait_until T s) = isOpen s \<and> isHovered (wait_until T s) = isHovered s"
proof (induction T s rule: wait_until.induct)
  case (1 T s)
  then show ?case using fire_next_keeps [of s] unfolding wait_until.simps [of T s]
    by (cases "next_due s \<le> T") simp_all
qed

lemma next_due_single: "timeouts s = [(i, d, v)] \<Longrightarrow> next_due s \<le> d"
  by (simp add: next_due_def)

lemma wait_until_hides:
  "hide_pending T s \<Longrightarrow> \<not> popupVisible (wait_until T s)"
proof (induction T s rule: wait_until.induct)
  case (1 T s)
  show ?case
  proof (cases "next_due s \<le> T")
    case True
    have "hide_pending T (fire_next s)"
    proof (cases "timeouts s = []")
      case True
      then show ?thesis using "1.prems" fire_next_rotate [of s] by (simp add: hide_pending_def)
    next
      case False
      then obtain i d where t: "timeouts s = [(i, d, False)]" "d \<le> T"
        using "1.prems" by (auto simp: hide_pending_def)
      show ?thesis
      proof (cases "d \<le> fact_due s")
        case True
        then show ?thesis using t by (simp add: fire_next_single [OF t(1) True] hide_pending_def)
      next
        case False
        have "fire_next s = rotate_fact s" using t False by (intro fire_next_rotate) auto
        then show ?thesis using t by (simp add: hide_pending_def)
      qed
    qed
    then show ?thesis using "1.IH" [OF True] True unfolding wait_until.simps [of T s] by simp
  next
    case False
    then have "timeouts s = [] \<and> \<not> popupVisible s"
      using "1.prems" next_due_single by (fastforce simp: hide_pending_def)
    then show ?thesis using False unfolding wait_until.simps [of T s] by simp
  qed
qed

text \<open>C40: once the pointer is away from the button and the popup, the popup is hidden
  after at most 400 milliseconds: letting the timers run until then leaves \<open>showPopup\<close>
  false.\<close>

theorem popup_hides_after_leave:
  assumes "chat_reachable s" and "pointer s = Elsewhere"
  shows "\<not> showPopup (wait_until (now s + 400) s)"
proof -
  have inv: "chat_inv s" using assms(1) by (rule chat_reachable_inv)
  then have hov: "\<not> isHovered s" using assms(2) by (simp add: chat_inv_def)
  show ?thesis
  proof (cases "isOpen s")
    case True
    then show ?thesis using wait_until_keeps by (simp add: showPopup_def)
  next
    case False
    then have "hide_pending (now s + 400) s"
      using inv assms(2) unfolding chat_inv_def hide_pending_def by fastforce
    then show ?thesis using wait_until_hides wait_until_keeps hov by (simp add: showPopup_def)
  qed
qed

theorem popup_hides_after_leave_witness: "\<not> showPopup (wait_until (now chat_left + 400) chat_left)"
proof (rule popup_hides_after_leave)
  have "chat_reachable ((handleMouseEnter chat_mount)\<lparr>pointer := OnButton\<rparr>)"
    by (rule chat_reachable.step [OF chat_reachable.mount chat_step.enter_button]) (simp add: chat_mount_def)
  then show "chat_reachable chat_left"
    unfolding chat_left_def
    by (rule chat_reachable.step [OF _ chat_step.leave_button]) simp
  show "pointer chat_left = Elsewhere" by (simp add: chat_left_def handleMouseLeave_def set_hover_def)
qed

lemma fact_shown_reachable: "chat_reachable s \<Longrightarrow> fact_shown s \<in> Some ` set TAX_FACTS"
  using chat_reachable_inv [of s] by (simp add: chat_inv_def fact_shown_def)

end
