(* ===== verification/Site.thy ===== *)
theory Site
  imports JsFormat
begin

text \<open>
  The interactive parts of the marketing site: the FAQ accordion (\<^verbatim>\<open>FAQs\<close> of
  \<^verbatim>\<open>src/src/components/ui/FAQs.tsx\<close>), the navigation bar (\<^verbatim>\<open>Navbar\<close> of
  \<^verbatim>\<open>src/src/components/shared/NavBar.tsx\<close>) and the question marquee of the community
  section (\<^verbatim>\<open>TaxCommunity\<close> of \<^verbatim>\<open>src/src/components/ui/TaxCommunity.tsx\<close>). Each
  is a small state machine (or, for the marquee, a pure rendering) whose render is
  modelled as the list of what it shows: the accordion's questions with their expanded
  flag, the navigation bar's visible items, the marquee's cards with their
  \<open>aria-hidden\<close> flag and React key.
\<close>

section \<open>The FAQ accordion\<close>

text \<open>The \<open>FAQ\<close> interface and the seven entries of \<open>faqs\<close> (lines 6--40). The
  answers are plain strings; U+2019 is the typographic apostrophe.\<close>

record faq =
  question :: js_string
  answer :: js_string

definition faq_fees_answer :: js_string where
  "faq_fees_answer = js ''Yes. TaxOga charges filing fees depending on the type of tax and the level of support required. All fees are communicated upfront before any filing begins. No surprises.''"

definition faqs :: "faq list" where
  "faqs =
     [\<lparr>question = js ''Do you collect filing fees?'', answer = faq_fees_answer\<rparr>,
      \<lparr>question = js ''Do we file VAT?'', answer = faq_fees_answer\<rparr>,
      \<lparr>question = js ''What taxes do you file?'', answer = faq_fees_answer\<rparr>,
      \<lparr>question = js ''Who can use TaxOga?'', answer = faq_fees_answer\<rparr>,
      \<lparr>question = js ''Do I need to understand tax laws to use TaxOga?'', answer = faq_fees_answer\<rparr>,
      \<lparr>question = js ''Will I get proof that my taxes were filed?'',
       answer = js ''Yes. After filing, you'' @ [0x2019] @
                js ''ll receive proof of submission and tax certificates where applicable, so you have clear records for compliance, audits, or business needs.''\<rparr>,
      \<lparr>question = js ''Can I speak to a tax expert before filing?'',
       answer = js ''Yes. TaxOga offers consultations with tax experts to help you understand your obligations, answer questions, and ensure you'' @ [0x2019] @
                js ''re comfortable before we file on your behalf.''\<rparr>]"

text \<open>The state is \<open>openIndex :: number | null\<close> (line 95); an index is a natural
  number, \<open>None\<close> is \<open>null\<close>.\<close>

type_synonym faq_state = "nat option"

definition toggleFAQ :: "nat \<Rightarrow> faq_state \<Rightarrow> faq_state" where
  "toggleFAQ index openIndex = (if openIndex = Some index then None else Some index)"

text \<open>The \<open>onKeyDown\<close> handler of an item (lines 58--63): Enter and Space toggle, any
  other key is ignored.\<close>

definition faq_key_down :: "js_string \<Rightarrow> nat \<Rightarrow> faq_state \<Rightarrow> faq_state" where
  "faq_key_down key index s =
     (if key = js ''Enter'' \<or> key = js '' '' then toggleFAQ index s else s)"

datatype faq_event = FaqClick nat | FaqKey nat js_string

definition faq_handle :: "faq_event \<Rightarrow> faq_state \<Rightarrow> faq_state" where
  "faq_handle e s = (case e of FaqClick i \<Rightarrow> toggleFAQ i s | FaqKey i k \<Rightarrow> faq_key_down k i s)"

definition faq_event_index :: "faq_event \<Rightarrow> nat" where
  "faq_event_index e = (case e of FaqClick i \<Rightarrow> i | FaqKey i _ \<Rightarrow> i)"

text \<open>Events reach only the rendered items, one per entry of \<open>faqs\<close>.\<close>

inductive faq_reachable :: "faq_state \<Rightarrow> bool" where
  faq_mount: "faq_reachable None"
| faq_event: "faq_reachable s \<Longrightarrow> faq_event_index e < length faqs \<Longrightarrow>
                faq_reachable (faq_handle e s)"

text \<open>The render (lines 119--126 and \<^verbatim>\<open>FAQItem\<close>, lines 42--92): each entry shows its
  question; \<open>isOpen = openIndex === index\<close> sets \<open>aria-expanded\<close> and opens the answer
  panel.\<close>

record faq_item_view =
  fv_question :: js_string
  fv_expanded :: bool
  fv_answer :: "js_string option"

definition FAQItem :: "faq \<Rightarrow> bool \<Rightarrow> faq_item_view" where
  "FAQItem f isOpen =
     \<lparr>fv_question = question f, fv_expanded = isOpen,
      fv_answer = (if isOpen then Some (answer f) else None)\<rparr>"

definition faq_view :: "faq_state \<Rightarrow> faq_item_view list" where
  "faq_view openIndex = map (\<lambda>(index, f). FAQItem f (openIndex = Some index)) (enumerate 0 faqs)"

section \<open>The navigation bar\<close>

text \<open>The two state values of \<^verbatim>\<open>Navbar\<close> (lines 10--11).\<close>

record nav_state =
  isMenuOpen :: bool
  isResourcesOpen :: bool

definition nav_mount :: nav_state where
  "nav_mount = \<lparr>isMenuOpen = False, isResourcesOpen = False\<rparr>"

text \<open>\<open>String.prototype.startsWith\<close>, and the active test of line 15.\<close>

definition startsWith :: "js_string \<Rightarrow> js_string \<Rightarrow> bool" where
  "startsWith s p = (take (length p) s = p)"

definition isTaxCalculatorActive :: "js_string \<Rightarrow> bool" where
  "isTaxCalculatorActive pathname =
     (pathname = js ''/tax-calculator'' \<or> startsWith pathname (js ''/tax-calculator/''))"

text \<open>The layout switches at the \<open>lg\<close> breakpoint: the desktop row
  (\<open>hidden lg:flex\<close>) and the mobile menu (\<open>lg:hidden\<close>) are never both shown.\<close>

datatype viewport = Desktop | Mobile

text \<open>The handlers: hovering the desktop \<open>Tax Resources\<close> button or its dropdown
  (lines 35--36, 45--46), the menu button (line 106), the mobile \<open>Tax Resources\<close>
  button (line 120) and the mobile \<open>Tax Calculator\<close> link (line 148).\<close>

datatype nav_event = ResourcesEnter | ResourcesLeave | ToggleMenu | ToggleResources
  | CalculatorLinkClick

definition nav_handle :: "nav_event \<Rightarrow> nav_state \<Rightarrow> nav_state" where
  "nav_handle e s =
     (case e of
        ResourcesEnter \<Rightarrow> s\<lparr>isResourcesOpen := True\<rparr>
      | ResourcesLeave \<Rightarrow> s\<lparr>isResourcesOpen := False\<rparr>
      | ToggleMenu \<Rightarrow> s\<lparr>isMenuOpen := \<not> isMenuOpen s\<rparr>
      | ToggleResources \<Rightarrow> s\<lparr>isResourcesOpen := \<not> isResourcesOpen s\<rparr>
      | CalculatorLinkClick \<Rightarrow> s\<lparr>isMenuOpen := False\<rparr>)"

text \<open>Which handlers are on screen: the desktop ones on a desktop, the menu button on a
  phone, the mobile resources button and link only inside the open menu.\<close>

definition nav_enabled :: "viewport \<Rightarrow> nav_state \<Rightarrow> nav_event \<Rightarrow> bool" where
  "nav_enabled v s e =
     (case e of
        ResourcesEnter \<Rightarrow> v = Desktop
      | ResourcesLeave \<Rightarrow> v = Desktop
      | ToggleMenu \<Rightarrow> v = Mobile
      | ToggleResources \<Rightarrow> v = Mobile \<and> isMenuOpen s
      | CalculatorLinkClick \<Rightarrow> v = Mobile \<and> isMenuOpen s)"

text \<open>Each event happens in the viewport the window has at that moment; a resize
  changes the viewport and keeps the state, so the viewport is chosen per step.\<close>

inductive nav_reachable :: "nav_state \<Rightarrow> bool" where
  nav_start: "nav_reachable nav_mount"
| nav_step: "nav_reachable s \<Longrightarrow> nav_enabled v s e \<Longrightarrow> nav_reachable (nav_handle e s)"

text \<open>What the bar shows, in document order.\<close>

datatype nav_item = Logo | ResourcesButton | ResourceLink js_string
  | CalculatorLink bool | Pricing | SuccessStories | Login | SpeakWithExpert | SeekTaxSupport
  | MenuButton bool

definition resource_links :: "nav_item list" where
  "resource_links = [ResourceLink (js ''Tax Guides''), ResourceLink (js ''Articles''),
                     ResourceLink (js ''Videos'')]"

definition nav_view :: "viewport \<Rightarrow> js_string \<Rightarrow> nav_state \<Rightarrow> nav_item list" where
  "nav_view v pathname s =
     (let active = isTaxCalculatorActive pathname;
          resources = ResourcesButton # (if isResourcesOpen s then resource_links else [])
      in case v of
           Desktop \<Rightarrow> Logo # resources @
             [CalculatorLink active, Pricing, SuccessStories, Login, SpeakWithExpert, SeekTaxSupport]
         | Mobile \<Rightarrow> [Logo, MenuButton (isMenuOpen s)] @
             (if isMenuOpen s then resources @
                [CalculatorLink active, Pricing, SuccessStories, Login, SpeakWithExpert,
                 SeekTaxSupport]
              else []))"

section \<open>The community marquee\<close>

text \<open>A question of the community section (lines 8--15); \<open>category\<close> is a string
  or an array of strings.\<close>

datatype category = Category js_string | Categories "js_string list"

record community_question =
  cq_category :: category
  cq_title :: js_string
  cq_description :: js_string
  cq_askedBy :: js_string
  cq_timeAgo :: js_string
  cq_answers :: nat

text \<open>The nine questions of \<open>questions\<close> (lines 17--96); an apostrophe is the code
  unit 39.\<close>

definition questions :: "community_question list" where
  "questions =
     [\<lparr>cq_category = Category (js ''Value Added Tax (VAT)''),
       cq_title = js ''Is VAT a tax on consumption?'',
       cq_description = js ''I want to find out if VAT is a tax on consumption? Pls someone explain and also help with explaining what a consumption tax is.'',
       cq_askedBy = js ''Ngutor Ikpaahindi'', cq_timeAgo = js ''2 hours ago'', cq_answers = 1\<rparr>,
      \<lparr>cq_category = Category (js ''Value Added Tax (VAT)''),
       cq_title = js ''Is VAT a consumption Tax?'',
       cq_description = js ''I am wondering if VAT is a consumption tax, and how VAT is treated.'',
       cq_askedBy = js ''Ngutor Ikpaahindi'', cq_timeAgo = js ''2 hours ago'', cq_answers = 2\<rparr>,
      \<lparr>cq_category = Category (js ''Tax Deductibles''),
       cq_title = js ''What Constitutes a Basic Food Item?'',
       cq_description = js ''I am wondering what kinds of food items constitute basic food items that are not taxed? Can you give an example?'',
       cq_askedBy = js ''Tunde Kazim'', cq_timeAgo = js ''2 hours ago'', cq_answers = 1\<rparr>,
      \<lparr>cq_category = Category (js ''Tax Deductibles''),
       cq_title = js ''Is there VAT on food items?'',
       cq_description = js ''Is Value added tax attached to food items with the new law?'',
       cq_askedBy = js ''Tunde Kazim'', cq_timeAgo = js ''2 hours ago'', cq_answers = 1\<rparr>,
      \<lparr>cq_category = Category (js ''Small & Medium Businesses''),
       cq_title = js ''Do small Businesses Pay Company Income Tax?'',
       cq_description = js ''I have seen in some online videos that small businesses don'' @ [39] @ js ''t pay tax. Is this true?'',
       cq_askedBy = js ''Tunde Kazim'', cq_timeAgo = js ''2 months ago'', cq_answers = 1\<rparr>,
      \<lparr>cq_category = Category (js ''General''),
       cq_title = js ''How to Retrieve Your Tax Identification Number (TIN) Using Your NIN in Nigeria'',
       cq_description = js ''I am trying to see how I can get my tax ID. How can I do that?'',
       cq_askedBy = js ''Tunde Kazim'', cq_timeAgo = js ''2 months ago'', cq_answers = 1\<rparr>,
      \<lparr>cq_category = Category (js ''General''),
       cq_title = js ''What is presumptive tax?'',
       cq_description = js ''I heard Taiwo Oyedele talking about presumptive tax. What is that?'',
       cq_askedBy = js ''Tunde Kazim'', cq_timeAgo = js ''2 months ago'', cq_answers = 1\<rparr>,
      \<lparr>cq_category = Categories [js ''Tax Deductibles'', js ''Personal Income Tax (PIT)''],
       cq_title = js ''Is National Housing Fund (NHF) tax deductible?'',
       cq_description = js ''Is National housing fund tax deductible? I pay this every month and want to find out if it is and how it will affect my taxes.'',
       cq_askedBy = js ''Tunde Kazim'', cq_timeAgo = js ''2 months ago'', cq_answers = 1\<rparr>,
      \<lparr>cq_category = Categories [js ''Pay as You Earn (PAYE)'', js ''Large Businesses & Enterprises'', js ''Small & Medium Businesses'', js ''Business Names''],
       cq_title = js ''What is Paye?'',
       cq_description = js ''I am wondering what PAYE means and if every registered business is meant to pay it. Can someone help me explain?'',
       cq_askedBy = js ''Tunde Kazim'', cq_timeAgo = js ''2 months ago'', cq_answers = 1\<rparr>]"

text \<open>\<open>${n}\<close> of a natural number: its decimal digits.\<close>

definition nat_to_string :: "nat \<Rightarrow> js_string" where
  "nat_to_string n = map digit_char (nat_digits n)"

text \<open>\<^verbatim>\<open>CommunityCard\<close> (lines 100--161): the categories it computes, the likes
  counter, and the texts it prints.\<close>

definition card_categories :: "category \<Rightarrow> js_string list" where
  "card_categories c = (case c of Categories cs \<Rightarrow> cs | Category c \<Rightarrow> [c])"

record card_view =
  card_likes :: js_string
  card_title :: js_string
  card_description :: js_string
  card_askedBy :: js_string
  card_timeAgo :: js_string
  card_answers :: js_string

definition CommunityCard :: "community_question \<Rightarrow> card_view" where
  "CommunityCard q =
     (let categories = card_categories (cq_category q)
      in \<lparr>card_likes = js '' 12'', card_title = cq_title q,
          card_description = cq_description q, card_askedBy = cq_askedBy q,
          card_timeAgo = cq_timeAgo q,
          card_answers = nat_to_string (cq_answers q) @ js '' '' @
            (if cq_answers q = 1 then js ''Answer'' else js ''Answers'')\<rparr>)"

text \<open>The marquee (lines 98 and 194--201): the list twice over, each card keyed by
  \<open>${q.title}-${idx}\<close> and hidden from assistive technology from the second copy on.\<close>

definition doubledQuestions :: "community_question list \<Rightarrow> community_question list" where
  "doubledQuestions qs = qs @ qs"

record marquee_card =
  mc_key :: js_string
  mc_ariaHidden :: bool
  mc_card :: card_view

definition marquee :: "community_question list \<Rightarrow> marquee_card list" where
  "marquee qs =
     map (\<lambda>(idx, q). \<lparr>mc_key = cq_title q @ js ''-'' @ nat_to_string idx,
                      mc_ariaHidden = (length qs \<le> idx), mc_card = CommunityCard q\<rparr>)
       (enumerate 0 (doubledQuestions qs))"

section \<open>Properties\<close>

subsection \<open>The accordion\<close>

lemma faqs_length [simp]: "length faqs = 7"
  by (simp add: faqs_def)

lemma faq_reachable_index: "faq_reachable s \<Longrightarrow> (\<forall>i. s = Some i \<longrightarrow> i < length faqs)"
  by (induction rule: faq_reachable.induct)
     (auto simp: faq_handle_def faq_key_down_def toggleFAQ_def faq_event_index_def
           split: faq_event.splits)

lemma faq_view_expanded:
  "map fv_expanded (faq_view s) = map (\<lambda>j. s = Some j) [0..<length faqs]"
  by (auto simp: faq_view_def FAQItem_def list_eq_iff_nth_eq nth_enumerate_eq)

lemma faq_view_answers:
  "map fv_answer (faq_view s) =
     map (\<lambda>j. if s = Some j then Some (answer (faqs ! j)) else None) [0..<length faqs]"
  by (auto simp: faq_view_def FAQItem_def list_eq_iff_nth_eq nth_enumerate_eq)

lemma faq_reachable_one_open:
  "faq_reachable s \<Longrightarrow> length (filter fv_expanded (faq_view s)) = (if s = None then 0 else 1)"
proof -
  assume r: "faq_reachable s"
  have "length (filter fv_expanded (faq_view s)) = length (filter id (map fv_expanded (faq_view s)))"
    by (simp add: filter_map comp_def length_filter_map [symmetric])
  also have "\<dots> = length (filter (\<lambda>j. s = Some j) [0..<length faqs])"
    by (simp only: faq_view_expanded filter_map length_map comp_def id_def)
  also have "\<dots> = (if s = None then 0 else 1)"
    using faq_reachable_index [OF r] by (cases s) (auto simp: filter_eq_one)
  finally show ?thesis .
qed

lemma faq_click_opens:
  "s \<noteq> Some i \<Longrightarrow> map fv_answer (faq_view (faq_handle (FaqClick i) s)) =
     map (\<lambda>j. if j = i then Some (answer (faqs ! j)) else None) [0..<length faqs]"
  by (simp add: faq_view_answers faq_handle_def toggleFAQ_def eq_commute)

lemma faq_questions_distinct: "distinct (map question faqs)"
  by (simp add: faqs_def)

subsection \<open>The navigation bar\<close>

lemma isTaxCalculatorActive_iff:
  "isTaxCalculatorActive p \<longleftrightarrow>
     p = js ''/tax-calculator'' \<or> (\<exists>rest. p = js ''/tax-calculator/'' @ rest)"
  unfolding isTaxCalculatorActive_def startsWith_def
  by (metis append_take_drop_id append_eq_conv_conj)

text \<open>Every combination of the two flags is reached; in particular the mobile
  resources list can be expanded while the menu is closed.\<close>

lemma nav_reachable_all: "nav_reachable s"
proof -
  have r0: "nav_reachable nav_mount" by (rule nav_start)
  have r1: "nav_reachable \<lparr>isMenuOpen = False, isResourcesOpen = True\<rparr>"
    using nav_step [OF r0, of Desktop ResourcesEnter]
    by (simp add: nav_enabled_def nav_handle_def nav_mount_def)
  have m: "nav_reachable \<lparr>isMenuOpen = True, isResourcesOpen = r\<rparr>"
    if "nav_reachable \<lparr>isMenuOpen = False, isResourcesOpen = r\<rparr>" for r
    using nav_step [OF that, of Mobile ToggleMenu] by (simp add: nav_enabled_def nav_handle_def)
  show ?thesis
  proof (cases s)
    case (fields menu res)
    then show ?thesis
      using r0 r1 m [of False] m [of True]
      by (cases menu; cases res) (simp_all add: nav_mount_def)
  qed
qed

lemma nav_mobile_reopen_keeps_resources:
  "isMenuOpen s \<Longrightarrow>
   nav_view Mobile p (nav_handle ToggleMenu (nav_handle CalculatorLinkClick s)) =
   nav_view Mobile p s"
  by (simp add: nav_handle_def nav_view_def)

subsection \<open>The marquee\<close>

lemma nat_to_string_no_dash: "(45::code_unit) \<notin> set (nat_to_string n)"
proof
  assume "(45::code_unit) \<in> set (nat_to_string n)"
  then obtain d where "d < 10" and "digit_char d = 45"
    using nat_digits_lt [of n] by (auto simp: nat_to_string_def)
  from \<open>d < 10\<close> have "unat (digit_char d) = 48 + d"
    by (simp only: digit_char_def unat_of_nat) simp
  with \<open>digit_char d = 45\<close> show False by simp
qed

lemma nat_to_string_inj: "nat_to_string a = nat_to_string b \<Longrightarrow> a = b"
proof -
  assume e: "nat_to_string a = nat_to_string b"
  have v: "map digit_value (nat_to_string n) = map Some (nat_digits n)" for n
    using nat_digits_lt [of n] by (simp add: nat_to_string_def)
  from e v [of a] v [of b] have "nat_digits a = nat_digits b"
    by (metis list.inj_map_strong option.inject)
  then show "a = b" by (metis digits_value_nat_digits)
qed

lemma takeWhile_dash:
  assumes "45 \<notin> set u"
  shows "takeWhile (\<lambda>c. c \<noteq> 45) (rev (t @ 45 # (u :: js_string))) = rev u"
proof -
  have "takeWhile (\<lambda>c. c \<noteq> 45) (rev u @ 45 # rev t) =
          rev u @ takeWhile (\<lambda>c. c \<noteq> 45) (45 # rev t)"
    by (rule takeWhile_append2) (use assms in auto)
  then show ?thesis by simp
qed

lemma dash_suffix_inj:
  assumes "t1 @ 45 # u = t2 @ 45 # (v :: js_string)" and "45 \<notin> set u" and "45 \<notin> set v"
  shows "u = v"
  using takeWhile_dash [OF assms(2), of t1] takeWhile_dash [OF assms(3), of t2] assms(1)
  by simp

lemma marquee_key_inj:
  "cq_title q1 @ js ''-'' @ nat_to_string i = cq_title q2 @ js ''-'' @ nat_to_string j \<Longrightarrow> i = j"
  using dash_suffix_inj [of _ "nat_to_string i" _ "nat_to_string j"]
        nat_to_string_no_dash nat_to_string_inj
  by simp

text \<open>C33: the marquee renders every question twice, yet its React keys
  \<open>${q.title}-${idx}\<close> are pairwise distinct for any list of questions: the index
  after the last dash determines the position, and the position the question.\<close>

theorem marquee_keys_distinct: "distinct (map mc_key (marquee qs))"
proof -
  let ?xs = "enumerate 0 (doubledQuestions qs)"
  let ?k = "\<lambda>p. cq_title (snd p) @ js ''-'' @ nat_to_string (fst p)"
  have "inj_on ?k (set ?xs)"
  proof (rule inj_onI)
    fix p p'
    assume a: "p \<in> set ?xs" "p' \<in> set ?xs" and e: "?k p = ?k p'"
    from e have "fst p = fst p'" by (rule marquee_key_inj)
    with a show "p = p'" by (simp add: in_set_enumerate_eq prod_eq_iff)
  qed
  then have "distinct (map ?k ?xs)" by (simp add: distinct_map)
  moreover have "map mc_key (marquee qs) = map ?k ?xs"
    unfolding marquee_def by (simp only: map_map comp_def split_beta marquee_card.select_convs)
  ultimately show ?thesis by simp
qed

lemma marquee_announced_once:
  "map mc_card (filter (\<lambda>c. \<not> mc_ariaHidden c) (marquee qs)) = map CommunityCard qs \<and>
   map mc_card (filter mc_ariaHidden (marquee qs)) = map CommunityCard qs"
proof -
  let ?f = "\<lambda>(idx, q). \<lparr>mc_key = cq_title q @ js ''-'' @ nat_to_string idx,
                        mc_ariaHidden = (length qs \<le> idx), mc_card = CommunityCard q\<rparr>"
  have m: "marquee qs = map ?f (enumerate 0 qs) @ map ?f (enumerate (length qs) qs)"
    by (simp add: marquee_def doubledQuestions_def enumerate_append_eq)
  have lo: "\<forall>p \<in> set (enumerate 0 qs). fst p < length qs"
    and hi: "\<forall>p \<in> set (enumerate (length qs) qs). length qs \<le> fst p"
    by (auto simp: in_set_enumerate_eq)
  have c: "map mc_card (map ?f ps) = map CommunityCard (map snd ps)" for ps
    by (simp add: case_prod_unfold)
  have "filter (\<lambda>c. \<not> mc_ariaHidden c) (map ?f (enumerate 0 qs)) = map ?f (enumerate 0 qs)"
    by (rule filter_map_all) (use lo in \<open>auto simp: case_prod_unfold\<close>)
  moreover have "filter (\<lambda>c. \<not> mc_ariaHidden c) (map ?f (enumerate (length qs) qs)) = []"
    by (rule filter_map_none) (use hi in \<open>auto simp: case_prod_unfold\<close>)
  moreover have "filter mc_ariaHidden (map ?f (enumerate 0 qs)) = []"
    by (rule filter_map_none) (use lo in \<open>auto simp: case_prod_unfold\<close>)
  moreover have "filter mc_ariaHidden (map ?f (enumerate (length qs) qs)) =
                   map ?f (enumerate (length qs) qs)"
    by (rule filter_map_all) (use hi in \<open>auto simp: case_prod_unfold\<close>)
  ultimately show ?thesis
    by (simp only: m filter_append append_Nil append_Nil2 c map_snd_enumerate)
qed

end
