(* ===== verification/PayeResponse.thy ===== *)
theory PayeResponse
  imports Service PersonalTax
begin

text \<open>
  The PAYE service's answer as \<^verbatim>\<open>calculateTax\<close> reads it
  (\<^verbatim>\<open>src/src/services/tax.service.ts\<close>, lines 9--31), over the JSON values of
  \<open>Service\<close>. \<open>PersonalTax\<close> takes the band list as given; here the response is decoded
  the way the code does it: \<open>res.ok\<close>, \<open>res.json()\<close>, \<open>data.value.value\<close>, and the
  \<open>reduce\<close> that adds the \<open>taxPaid\<close> fields with the JavaScript \<open>+\<close>. A property
  read on \<open>null\<close> or \<open>undefined\<close>, and \<open>reduce\<close> on a value that is not an array,
  throw a \<open>TypeError\<close>. A \<open>taxPaid\<close> that is missing makes the sum NaN, and one that is
  a string, an array or an object turns the sum into a string.

  The lemmas show that a response carrying well-typed bands, in the envelope
  \<open>TaxCalculatorResponse\<close> of \<^verbatim>\<open>src/src/types/tax.ts\<close>, yields exactly the result
  of \<open>PersonalTax.calculateTax\<close>, so the abstract model is refined. They also say which
  malformed responses throw and which silently give a NaN or a string tax.
\<close>

subsection \<open>Outcomes\<close>

datatype paye_error = PayeRequestFailed nat | PayeBodyNotJson | PayeTypeError

text \<open>The accumulator of \<open>reduce((s, b) => s + b.taxPaid, 0)\<close>: a number, or a string
  once a string, array or object has been added. The text of that string is not
  modelled.\<close>

datatype js_sum = SumNum number | SumStr

text \<open>What \<^verbatim>\<open>calculateTax\<close> does with a response: it throws; or it returns a result
  whose bands are well typed and whose annual tax is a number, which
  \<open>PersonalTax.tax_result_from\<close> describes; or it returns a result whose bands are not
  well typed, or whose annual tax is a string. The last case keeps only the annual tax
  the \<open>reduce\<close> gave.\<close>

datatype paye_outcome = PayeThrows paye_error | PayeReturns tax_result | PayeUntyped js_sum

subsection \<open>Decoding\<close>

text \<open>\<open>s + b.taxPaid\<close>, where the field is \<open>None\<close> when it is absent
  (\<open>undefined\<close>). Adding \<open>undefined\<close> gives NaN, \<open>null\<close> is 0, a boolean is 0 or 1,
  and a string, an array or an object is converted to a string and concatenated.\<close>

fun add_taxPaid :: "js_sum \<Rightarrow> json option \<Rightarrow> js_sum" where
  "add_taxPaid SumStr _ = SumStr"
| "add_taxPaid (SumNum s) None = SumNum (js_add s NaN)"
| "add_taxPaid (SumNum s) (Some JNull) = SumNum (js_add s (Num 0))"
| "add_taxPaid (SumNum s) (Some (JBool b)) = SumNum (js_add s (Num (if b then 1 else 0)))"
| "add_taxPaid (SumNum s) (Some (JNum n)) = SumNum (js_add s (Num n))"
| "add_taxPaid (SumNum s) (Some (JStr _)) = SumStr"
| "add_taxPaid (SumNum s) (Some (JArr _)) = SumStr"
| "add_taxPaid (SumNum s) (Some (JObj _)) = SumStr"

text \<open>The field values that keep the sum a number: absent, \<open>null\<close>, a boolean or a
  number.\<close>

definition numeric_field :: "json option \<Rightarrow> bool" where
  "numeric_field v =
     (case v of Some (JStr _) \<Rightarrow> False | Some (JArr _) \<Rightarrow> False | Some (JObj _) \<Rightarrow> False
      | _ \<Rightarrow> True)"

text \<open>\<open>b.taxPaid\<close>: a TypeError on \<open>null\<close>; \<open>undefined\<close> on any other value that is
  not an object.\<close>

definition band_taxPaid :: "json \<Rightarrow> paye_error + json option" where
  "band_taxPaid b = (if b = JNull then Inl PayeTypeError else Inr (get_prop (Some b) (js ''taxPaid'')))"

fun reduce_taxPaid :: "js_sum \<Rightarrow> json list \<Rightarrow> paye_error + js_sum" where
  "reduce_taxPaid s [] = Inr s"
| "reduce_taxPaid s (b # bs) =
     (case band_taxPaid b of
        Inl e \<Rightarrow> Inl e
      | Inr v \<Rightarrow> reduce_taxPaid (add_taxPaid s v) bs)"

text \<open>A band of the \<open>TaxBand\<close> interface (lines 39--44 of the types): a string label
  and three numbers.\<close>

definition decode_band :: "json \<Rightarrow> tax_band option" where
  "decode_band b =
     (case (get_prop (Some b) (js ''band''), get_prop (Some b) (js ''rate''),
            get_prop (Some b) (js ''taxableAmount''), get_prop (Some b) (js ''taxPaid'')) of
        (Some (JStr l), Some (JNum r), Some (JNum a), Some (JNum t)) \<Rightarrow>
          Some \<lparr>band = l, rate = r, taxableAmount = a, taxPaid = t\<rparr>
      | _ \<Rightarrow> None)"

text \<open>\<open>data.value.value\<close> as the array \<open>reduce\<close> is called on: reading \<open>.value\<close>
  of \<open>null\<close> or \<open>undefined\<close>, and calling \<open>reduce\<close> on anything but an array, throw.\<close>

definition paye_bands :: "json \<Rightarrow> paye_error + json list" where
  "paye_bands data =
     (case get_prop (Some data) (js ''value'') of
        None \<Rightarrow> Inl PayeTypeError
      | Some JNull \<Rightarrow> Inl PayeTypeError
      | Some v \<Rightarrow> (case get_prop (Some v) (js ''value'') of
                    Some (JArr bs) \<Rightarrow> Inr bs
                  | _ \<Rightarrow> Inl PayeTypeError))"

text \<open>Lines 15--30: the status check, \<open>res.json()\<close>, the bands, the \<open>reduce\<close>, and
  the result.\<close>

definition calculateTax_http :: "tax_payload \<Rightarrow> http_response \<Rightarrow> paye_outcome" where
  "calculateTax_http p res =
     (if \<not> res_ok res then PayeThrows (PayeRequestFailed (res_status res))
      else case res_body res of
        None \<Rightarrow> PayeThrows PayeBodyNotJson
      | Some data \<Rightarrow>
          (case paye_bands data of
             Inl e \<Rightarrow> PayeThrows e
           | Inr bs \<Rightarrow>
               (case reduce_taxPaid (SumNum (Num 0)) bs of
                  Inl e \<Rightarrow> PayeThrows e
                | Inr (SumNum a) \<Rightarrow>
                    (case those (map decode_band bs) of
                       Some tbs \<Rightarrow> PayeReturns (tax_result_from p tbs a)
                     | None \<Rightarrow> PayeUntyped (SumNum a))
                | Inr SumStr \<Rightarrow> PayeUntyped SumStr)))"

subsection \<open>Abstraction to the service model\<close>

text \<open>The answer \<open>PersonalTax\<close> takes as input, read off a response: a failed
  request, or an OK response whose bands are all well typed. Other responses have no
  abstract counterpart.\<close>

definition abs_response :: "http_response \<Rightarrow> paye_response option" where
  "abs_response res =
     (if \<not> res_ok res then Some (PayeFailed (res_status res))
      else case res_body res of
        None \<Rightarrow> None
      | Some data \<Rightarrow> (case paye_bands data of
                       Inl _ \<Rightarrow> None
                     | Inr bs \<Rightarrow> map_option PayeOk (those (map decode_band bs))))"

definition outcome_result :: "paye_outcome \<Rightarrow> (service_error + tax_result) option" where
  "outcome_result out =
     (case out of
        PayeThrows (PayeRequestFailed st) \<Rightarrow> Some (Inl (RequestFailed st))
      | PayeReturns r \<Rightarrow> Some (Inr r)
      | _ \<Rightarrow> None)"

subsection \<open>The envelope\<close>

text \<open>\<open>TaxCalculatorResponse\<close> (lines 46--53 of the types) as the service sends it:
  the bands under \<open>value.value\<close>, with the status codes and message beside them.\<close>

definition band_json :: "tax_band \<Rightarrow> json" where
  "band_json b =
     JObj [(js ''band'', JStr (band b)), (js ''rate'', JNum (rate b)),
           (js ''taxableAmount'', JNum (taxableAmount b)), (js ''taxPaid'', JNum (taxPaid b))]"

definition paye_envelope :: "nat \<Rightarrow> js_string \<Rightarrow> json list \<Rightarrow> json" where
  "paye_envelope code msg bs =
     JObj [(js ''value'', JObj [(js ''statusCode'', JNum (of_nat code)), (js ''message'', JStr msg),
                               (js ''value'', JArr bs)]),
           (js ''statusCode'', JNum (of_nat code))]"

subsection \<open>Decoding lemmas\<close>

lemma decode_band_band_json [simp]: "decode_band (band_json b) = Some b"
  by (simp add: decode_band_def band_json_def get_prop_def)

lemma those_decode_band_json: "those (map decode_band (map band_json bs)) = Some bs"
  by (induction bs) simp_all

lemma decode_band_taxPaid:
  "decode_band b = Some t \<Longrightarrow> b \<noteq> JNull \<and> get_prop (Some b) (js ''taxPaid'') = Some (JNum (taxPaid t))"
  by (auto simp: decode_band_def get_prop_def split: option.splits json.splits)

text \<open>On well-typed bands the \<open>reduce\<close> is the exact sum \<open>PersonalTax.annual_tax\<close>
  computes.\<close>

lemma reduce_taxPaid_typed:
  "those (map decode_band bs) = Some tbs \<Longrightarrow>
   reduce_taxPaid (SumNum s) bs = Inr (SumNum (foldl (\<lambda>s b. js_add s (Num (taxPaid b))) s tbs))"
proof (induction bs arbitrary: tbs s)
  case Nil
  then show ?case by simp
next
  case (Cons b bs)
  then obtain t ts where t: "decode_band b = Some t" and ts: "those (map decode_band bs) = Some ts"
    and tbs: "tbs = t # ts"
    by (auto split: option.splits)
  from decode_band_taxPaid [OF t] Cons.IH [OF ts] show ?case
    by (simp add: tbs band_taxPaid_def)
qed

text \<open>The \<open>reduce\<close> throws exactly when a band is \<open>null\<close>.\<close>

lemma reduce_taxPaid_throws:
  "(\<exists>e. reduce_taxPaid s bs = Inl e) \<longleftrightarrow> JNull \<in> set bs"
  by (induction bs arbitrary: s) (auto simp: band_taxPaid_def)

lemma reduce_taxPaid_error: "reduce_taxPaid s bs = Inl e \<Longrightarrow> e = PayeTypeError"
  by (induction bs arbitrary: s) (auto simp: band_taxPaid_def split: if_splits)

lemma reduce_taxPaid_SumStr: "JNull \<notin> set bs \<Longrightarrow> reduce_taxPaid SumStr bs = Inr SumStr"
  by (induction bs) (auto simp: band_taxPaid_def)

lemma add_taxPaid_num: "numeric_field v \<Longrightarrow> \<exists>s'. add_taxPaid (SumNum s) v = SumNum s'"
  by (cases "(SumNum s, v)" rule: add_taxPaid.cases) (auto simp: numeric_field_def)

lemma js_add_NaN_right: "js_add s NaN = NaN"
  by (cases s) simp_all

lemma add_taxPaid_NaN: "numeric_field v \<Longrightarrow> add_taxPaid (SumNum NaN) v = SumNum NaN"
  by (cases "(SumNum NaN, v)" rule: add_taxPaid.cases) (auto simp: numeric_field_def)

lemma reduce_taxPaid_NaN:
  "JNull \<notin> set bs \<Longrightarrow> \<forall>b \<in> set bs. numeric_field (get_prop (Some b) (js ''taxPaid'')) \<Longrightarrow>
   reduce_taxPaid (SumNum NaN) bs = Inr (SumNum NaN)"
  by (induction bs) (auto simp: band_taxPaid_def add_taxPaid_NaN)

text \<open>A band without \<open>taxPaid\<close> makes the sum NaN, whatever the other bands hold,
  unless one of them turns it into a string.\<close>

lemma reduce_taxPaid_missing:
  "JNull \<notin> set bs \<Longrightarrow> \<forall>b \<in> set bs. numeric_field (get_prop (Some b) (js ''taxPaid'')) \<Longrightarrow>
   \<exists>b \<in> set bs. get_prop (Some b) (js ''taxPaid'') = None \<Longrightarrow>
   reduce_taxPaid (SumNum s) bs = Inr (SumNum NaN)"
proof (induction bs arbitrary: s)
  case Nil
  then show ?case by simp
next
  case (Cons b bs)
  show ?case
  proof (cases "get_prop (Some b) (js ''taxPaid'') = None")
    case True
    with Cons.prems reduce_taxPaid_NaN [of bs] show ?thesis
      by (auto simp: band_taxPaid_def js_add_NaN_right)
  next
    case False
    with Cons.prems obtain s' where "add_taxPaid (SumNum s) (get_prop (Some b) (js ''taxPaid'')) = SumNum s'"
      using add_taxPaid_num by fastforce
    with False Cons.prems Cons.IH [of s'] show ?thesis
      by (auto simp: band_taxPaid_def)
  qed
qed

text \<open>A \<open>taxPaid\<close> that is a string, an array or an object makes the sum a string.\<close>

lemma reduce_taxPaid_string:
  "JNull \<notin> set bs \<Longrightarrow> \<exists>b \<in> set bs. \<not> numeric_field (get_prop (Some b) (js ''taxPaid'')) \<Longrightarrow>
   reduce_taxPaid s bs = Inr SumStr"
proof (induction bs arbitrary: s)
  case Nil
  then show ?case by simp
next
  case (Cons b bs)
  show ?case
  proof (cases "numeric_field (get_prop (Some b) (js ''taxPaid''))")
    case True
    with Cons show ?thesis by (auto simp: band_taxPaid_def)
  next
    case False
    then have "add_taxPaid s (get_prop (Some b) (js ''taxPaid'')) = SumStr"
      by (cases "(s, get_prop (Some b) (js ''taxPaid''))" rule: add_taxPaid.cases)
         (auto simp: numeric_field_def)
    with Cons.prems reduce_taxPaid_SumStr [of bs] show ?thesis
      by (auto simp: band_taxPaid_def)
  qed
qed

lemma decode_band_missing: "get_prop (Some b) (js ''taxPaid'') = None \<Longrightarrow> decode_band b = None"
  by (simp add: decode_band_def split: option.splits json.splits)

lemma decode_band_nonnumeric:
  "\<not> numeric_field (get_prop (Some b) (js ''taxPaid'')) \<Longrightarrow> decode_band b = None"
  by (auto simp: decode_band_def numeric_field_def split: option.splits json.splits)

lemma those_None: "\<exists>x \<in> set xs. f x = None \<Longrightarrow> those (map f xs) = None"
  by (induction xs) (auto split: option.splits)

subsection \<open>calculateTax on responses\<close>

text \<open>C37: the decoding service refines the abstract one. For any response that has
  an abstract counterpart, \<^verbatim>\<open>calculateTax\<close> reading the JSON returns or throws
  exactly what \<open>PersonalTax.calculateTax\<close> gives for that counterpart. The
  counterpart is a failed request, or an OK response whose bands are well typed.\<close>

theorem calculateTax_http_refines:
  assumes "abs_response res = Some a"
  shows "outcome_result (calculateTax_http p res) = Some (calculateTax p a)"
proof (cases "res_ok res")
  case False
  with assms show ?thesis
    by (auto simp: abs_response_def calculateTax_http_def outcome_result_def calculateTax_def)
next
  case True
  with assms obtain data bs tbs where d: "res_body res = Some data" and b: "paye_bands data = Inr bs"
    and t: "those (map decode_band bs) = Some tbs" and a: "a = PayeOk tbs"
    by (auto simp: abs_response_def split: option.splits sum.splits)
  show ?thesis
    using True d b t a reduce_taxPaid_typed [OF t, of "Num 0"]
    by (simp add: calculateTax_http_def outcome_result_def calculateTax_def tax_result_of_def
                  annual_tax_def)
qed

lemma paye_bands_envelope: "paye_bands (paye_envelope c m bs) = Inr bs"
  by (simp add: paye_bands_def paye_envelope_def get_prop_def)

text \<open>Round trip: the envelope of well-typed bands is read back as those bands.\<close>

lemma abs_response_envelope:
  "abs_response \<lparr>res_ok = True, res_status = c, res_body = Some (paye_envelope c m (map band_json bs))\<rparr> =
   Some (PayeOk bs)"
  using those_decode_band_json [of bs] by (simp add: abs_response_def paye_bands_envelope)

theorem calculateTax_http_refines_witness:
  "outcome_result (calculateTax_http (mk_payload [1000000, 0, 0, 0, 0] [0, 0, 0, 0, 0, 0])
     \<lparr>res_ok = True, res_status = 200,
      res_body = Some (paye_envelope 200 (js ''OK'')
        (map band_json [\<lparr>band = js ''First 800000'', rate = 0, taxableAmount = 800000, taxPaid = 0\<rparr>,
                        \<lparr>band = js ''Next 2200000'', rate = 15, taxableAmount = 200000, taxPaid = 30000\<rparr>]))\<rparr>) =
   Some (calculateTax (mk_payload [1000000, 0, 0, 0, 0] [0, 0, 0, 0, 0, 0])
     (PayeOk [\<lparr>band = js ''First 800000'', rate = 0, taxableAmount = 800000, taxPaid = 0\<rparr>,
              \<lparr>band = js ''Next 2200000'', rate = 15, taxableAmount = 200000, taxPaid = 30000\<rparr>]))"
  by (rule calculateTax_http_refines) (rule abs_response_envelope)

text \<open>Which OK responses throw: those whose \<open>data.value.value\<close> is not an array, and
  those with a \<open>null\<close> band; the error is then a \<open>TypeError\<close>.\<close>

lemma calculateTax_http_throws:
  assumes "res_ok res" and "res_body res = Some data"
  shows "(\<exists>e. calculateTax_http p res = PayeThrows e) \<longleftrightarrow>
           (case paye_bands data of Inl _ \<Rightarrow> True | Inr bs \<Rightarrow> JNull \<in> set bs)"
proof (cases "paye_bands data")
  case (Inl e)
  with assms show ?thesis by (simp add: calculateTax_http_def)
next
  case (Inr bs)
  with assms reduce_taxPaid_throws [of "SumNum (Num 0)" bs] show ?thesis
    by (auto simp: calculateTax_http_def split: sum.splits option.splits js_sum.splits)
qed

lemma calculateTax_http_type_error:
  "calculateTax_http p res = PayeThrows e \<Longrightarrow> res_ok res \<Longrightarrow> res_body res \<noteq> None \<Longrightarrow> e = PayeTypeError"
  by (auto simp: calculateTax_http_def paye_bands_def reduce_taxPaid_error
           split: option.splits sum.splits json.splits js_sum.splits)

text \<open>C13: \<^verbatim>\<open>calculateTax\<close> throws exactly in these cases. A non-OK status gives
  \<open>Request failed\<close> with the status. A body that is not JSON gives the rejection of
  \<open>res.json()\<close>. An OK JSON body throws a TypeError when \<open>data.value\<close> is absent or
  \<open>null\<close>, when \<open>data.value.value\<close> is not an array, or when one of its bands is
  \<open>null\<close>. Every other response returns.\<close>

theorem calculateTax_http_throws_iff:
  "calculateTax_http p res = PayeThrows e \<longleftrightarrow>
     (\<not> res_ok res \<and> e = PayeRequestFailed (res_status res)) \<or>
     (res_ok res \<and> res_body res = None \<and> e = PayeBodyNotJson) \<or>
     (res_ok res \<and> e = PayeTypeError \<and>
      (\<exists>data. res_body res = Some data \<and>
         (case get_prop (Some data) (js ''value'') of
            None \<Rightarrow> True
          | Some JNull \<Rightarrow> True
          | Some v \<Rightarrow> (case get_prop (Some v) (js ''value'') of
                        Some (JArr bs) \<Rightarrow> JNull \<in> set bs
                      | _ \<Rightarrow> True))))"
proof (cases "res_ok res")
  case False
  then show ?thesis by (auto simp: calculateTax_http_def)
next
  case True
  show ?thesis
  proof (cases "res_body res")
    case None
    with True show ?thesis by (auto simp: calculateTax_http_def)
  next
    case (Some data)
    have "calculateTax_http p res = PayeThrows e \<longleftrightarrow>
            (\<exists>e'. calculateTax_http p res = PayeThrows e') \<and> e = PayeTypeError"
      using calculateTax_http_type_error [of p res] True Some by auto
    with calculateTax_http_throws [OF True Some, of p] True Some show ?thesis
      by (auto simp: paye_bands_def split: option.splits json.splits)
  qed
qed

theorem calculateTax_http_throws_iff_witness:
  "calculateTax_http (mk_payload [1000000, 0, 0, 0, 0] [0, 0, 0, 0, 0, 0])
     \<lparr>res_ok = True, res_status = 200,
      res_body = Some (JObj [(js ''value'', JNull), (js ''statusCode'', JNum 200)])\<rparr> =
   PayeThrows PayeTypeError"
  using calculateTax_http_throws_iff
    [of "mk_payload [1000000, 0, 0, 0, 0] [0, 0, 0, 0, 0, 0]"
        "\<lparr>res_ok = True, res_status = 200,
          res_body = Some (JObj [(js ''value'', JNull), (js ''statusCode'', JNum 200)])\<rparr>"
        PayeTypeError]
  by (simp add: get_prop_def)

text \<open>A band without \<open>taxPaid\<close> (and no string among the others) does not throw: the
  result carries a NaN annual tax.\<close>

lemma calculateTax_http_missing_taxPaid:
  assumes "res_ok res" and "res_body res = Some data" and "paye_bands data = Inr bs"
    and "JNull \<notin> set bs" and "\<forall>b \<in> set bs. numeric_field (get_prop (Some b) (js ''taxPaid''))"
    and "\<exists>b \<in> set bs. get_prop (Some b) (js ''taxPaid'') = None"
  shows "calculateTax_http p res = PayeUntyped (SumNum NaN)"
proof -
  have "those (map decode_band bs) = None"
    using assms(6) decode_band_missing by (blast intro: those_None)
  with assms reduce_taxPaid_missing [OF assms(4,5,6)] show ?thesis
    by (simp add: calculateTax_http_def)
qed

text \<open>A string, array or object \<open>taxPaid\<close> does not throw either: the annual tax
  becomes a string.\<close>

lemma calculateTax_http_string_taxPaid:
  assumes "res_ok res" and "res_body res = Some data" and "paye_bands data = Inr bs"
    and "JNull \<notin> set bs" and "\<exists>b \<in> set bs. \<not> numeric_field (get_prop (Some b) (js ''taxPaid''))"
  shows "calculateTax_http p res = PayeUntyped SumStr"
proof -
  have "those (map decode_band bs) = None"
    using assms(5) decode_band_nonnumeric by (blast intro: those_None)
  with assms reduce_taxPaid_string [OF assms(4,5)] show ?thesis
    by (simp add: calculateTax_http_def)
qed

text \<open>Examples. An envelope whose \<open>value\<close> is \<open>null\<close> throws; a band without
  \<open>taxPaid\<close> gives a NaN tax; a \<open>taxPaid\<close> sent as a string gives a string.\<close>

lemma calculateTax_http_null_value:
  "calculateTax_http p \<lparr>res_ok = True, res_status = 200,
     res_body = Some (JObj [(js ''value'', JNull), (js ''statusCode'', JNum 200)])\<rparr> =
   PayeThrows PayeTypeError"
  by (simp add: calculateTax_http_def paye_bands_def get_prop_def)

lemma calculateTax_http_example_missing:
  "calculateTax_http p \<lparr>res_ok = True, res_status = 200,
     res_body = Some (paye_envelope 200 (js ''OK'')
       [JObj [(js ''band'', JStr (js ''First 800000'')), (js ''rate'', JNum 0)]])\<rparr> =
   PayeUntyped (SumNum NaN)"
  by (rule calculateTax_http_missing_taxPaid [OF _ _ paye_bands_envelope])
     (simp add: get_prop_def numeric_field_def)+

lemma calculateTax_http_example_string:
  "calculateTax_http p \<lparr>res_ok = True, res_status = 200,
     res_body = Some (paye_envelope 200 (js ''OK'')
       [JObj [(js ''band'', JStr (js ''Next 2200000'')), (js ''taxPaid'', JStr (js ''30000''))]])\<rparr> =
   PayeUntyped SumStr"
  by (rule calculateTax_http_string_taxPaid [OF _ _ paye_bands_envelope])
     (simp add: get_prop_def numeric_field_def)+

end
