(* ===== verification/Spec2Isabelle.thy ===== *)
theory Spec2Isabelle
  imports PersonalPage Brackets Service Chat Site PayeResponse
begin

text \<open>
  \<^bold>\<open>A verification library for the giddaa tax calculators.\<close>

  The repository is a Next.js site whose only algorithmic content is a tax engine:
  a personal income-tax calculator (\<^verbatim>\<open>src/src/components/TaxCalculator.tsx\<close> with
  \<^verbatim>\<open>calculateTax\<close> in \<^verbatim>\<open>src/src/services/tax.service.ts\<close>) and a company
  income-tax calculator (\<^verbatim>\<open>src/src/components/BusinessTax.tsx\<close>). Both read currency
  strings typed by the user, turn them into JavaScript numbers, compute a result and
  print it back as currency strings. The personal calculator posts the income and
  deductions to a remote PAYE service that returns the progressive band breakdown; the
  business calculator reads an industry catalogue and a configuration record from the
  same service and decides taxability locally.

  \<^bold>\<open>Plan and layout.\<close> One theory per component, in the order the data flows:
  \<^item> \<open>Prelude\<close>: JavaScript strings as lists of UTF-16 code units (\<open>16 word\<close>),
    the \<open>js_simps\<close> collection and list lemmas shared by all components.
  \<^item> \<open>JsNumber\<close>: JavaScript numbers (exact rationals with \<open>Infinity\<close>,
    \<open>-Infinity\<close>, \<open>NaN\<close>) and the operators the sources use
    (\<open>+ - * /\<close>, the comparisons, \<open>Math.round\<close>, \<open>Math.max\<close>,
    \<open>Math.min\<close>, truthiness and \<open>||\<close>).
  \<^item> \<open>JsParse\<close>: the field readers \<^verbatim>\<open>parseNaira\<close> (\<^verbatim>\<open>TaxCalculator.tsx\<close>)
    and \<^verbatim>\<open>parseInput\<close> (\<^verbatim>\<open>BusinessTax.tsx\<close>): the cleaning regular
    expression, \<open>parseFloat\<close> and \<open>parseInt\<close> after ECMA-262.
  \<^item> \<open>JsFormat\<close>: the printers \<^verbatim>\<open>formatNaira\<close>, \<^verbatim>\<open>fmt\<close> and
    \<^verbatim>\<open>formatPercent\<close> over \<open>toLocaleString('en-NG')\<close> and \<open>toFixed\<close>.
  \<^item> \<open>BusinessTax\<close>: \<^verbatim>\<open>calculateBusinessTax\<close>, the decision chain of the company
    calculator, and the rate normalisation of \<^verbatim>\<open>fetchConfiguration\<close>.
  \<^item> \<open>PersonalTax\<close>: \<^verbatim>\<open>calculateTax\<close> of \<^verbatim>\<open>tax.service.ts\<close>: the payload, the
    service answer as an input, the result assembly and its error values.
  \<^item> \<open>Brackets\<close>: the PAYE band allocator of the specification (section 4.2). It runs in
    the remote service, not under \<^verbatim>\<open>src/\<close>, and is modelled from the specification.
  \<^item> \<open>Service\<close>: \<^verbatim>\<open>fetchIndustries\<close> and \<^verbatim>\<open>fetchConfiguration\<close> after the
    fetch: a JSON value type, optional chaining and \<open>??\<close>, \<open>Number()\<close> with the
    ECMA-262 string grammar, and every thrown error as a \<open>fetch_error\<close> value.
  \<^item> \<open>BusinessPage\<close>: the page \<^verbatim>\<open>BusinessTaxCalculator\<close> as a state record, its
    two \<open>useEffect\<close> resets as a \<open>partial_function (option)\<close> loop \<open>settle\<close>, its
    events as a step function, reachability as an inductive predicate, and the rendered
    controls, band bars and messages.
  \<^item> \<open>PersonalPage\<close>: the page \<^verbatim>\<open>TaxCalculatorPage\<close>: the tab, the raw fields, the
    per-field \<^verbatim>\<open>MoneyInput\<close> effect, the react-query mutation as a datatype, the
    handlers as an inductive step relation, and the rendered result card and bars.
  \<^item> \<open>Chat\<close>: \<^verbatim>\<open>ChatWidget\<close> of \<^verbatim>\<open>components/ui/ChatBot.tsx\<close>: its state, the
    hover timer and the fact interval over an explicit clock, with \<open>wait_until\<close>
    running the due timers in order.
  \<^item> \<open>PayeResponse\<close>: \<^verbatim>\<open>calculateTax\<close> reading the HTTP response itself. It
    covers \<open>res.ok\<close>, \<open>res.json()\<close>, \<open>data.value.value\<close> and the \<open>reduce\<close> over
    the \<open>taxPaid\<close> fields with the JavaScript \<open>+\<close>, over the JSON values of
    \<open>Service\<close>. TypeErrors are values. The abstraction \<open>abs_response\<close> maps a response
    to the \<open>paye_response\<close> input of \<open>PersonalTax\<close>.
  \<^item> \<open>Site\<close>: the interactive marketing components. It covers the FAQ accordion of
    \<^verbatim>\<open>ui/FAQs.tsx\<close> (the entries, \<open>toggleFAQ\<close>, the click and key handlers and the
    render), the \<^verbatim>\<open>Navbar\<close> of \<^verbatim>\<open>shared/NavBar.tsx\<close> (its two flags, every handler,
    the active-link test and the items shown per viewport) and the question marquee of
    \<^verbatim>\<open>ui/TaxCommunity.tsx\<close> (the nine questions, \<^verbatim>\<open>CommunityCard\<close> and the
    doubled, keyed list).

  \<^bold>\<open>What is proved.\<close> Theorems are grouped by theory. \<open>BusinessTax\<close> shows that every
  result is well formed, exactly which inputs are charged, the amounts charged, the
  inclusive exemption window and the NaN year. \<open>JsParse\<close> and \<open>JsFormat\<close> show the
  range of \<open>parseNaira\<close>, exactly when it returns \<open>Infinity\<close>, and the two
  print/read round trips. \<open>PersonalTax\<close> refines the
  result assembly to an arithmetic specification and characterises its errors.
  \<open>Brackets\<close> shows that the allocation covers the taxable amount, fills the bands in
  order, has a closed form, and gives a tax monotone in the income. This theory
  combines them: the personal summary adds up, the effective rate is at most 25
  percent and every breakdown bar is between 0 and 100 percent. \<open>BusinessPage\<close> and
  \<open>PersonalPage\<close> prove invariants of every reachable page by rule induction, the
  termination of the effect loop, the liveness of a pending calculation, and what the
  user sees in given states. \<open>Service\<close> proves that every decoded exemption period is a
  number. \<open>Chat\<close> proves that the popup hides within 400 ms once the pointer leaves.
  \<open>PayeResponse\<close> proves that decoding the response refines \<open>PersonalTax\<close>: on
  every response with an abstract counterpart it returns or throws what the abstract
  service gives. It proves that the envelope of well-typed bands reads back as those
  bands, and characterises exactly which responses throw and with which error. A band without \<open>taxPaid\<close> gives a NaN tax, and a
  string \<open>taxPaid\<close> gives a string tax.
  \<open>Site\<close> proves that a reachable accordion shows at most one answer, and that a
  click opens exactly its own item. It characterises the active navigation link and
  shows that every state of the navigation bar is reachable. It also proves that the
  marquee's React keys are distinct and that each question is announced exactly once,
  with the second copy hidden.

  \<^bold>\<open>Bounds and fuel.\<close> The effect loop \<open>settle\<close> is a
  \<open>partial_function (option)\<close>. Its closed form \<open>settle_fn\<close> shows that it
  returns after at most two passes: the first pass resets the fields that depend on
  the changed selection, and the second finds nothing left to reset. \<open>wait_until\<close>
  terminates by the measure \<open>number of pending timeouts + time left until the next
  fact tick\<close>. Each timeout fires once, and removing it shortens the list. Each
  interval tick moves the tick's due time forward by 5000 ms. The 400 ms bound is the delay of the leave timers on lines 39
  and 48 of \<^verbatim>\<open>ChatBot.tsx\<close>. Doubles are modelled as exact rationals, which
  is faithful for the whole-naira amounts and two-decimal amounts the round trips
  cover, and for magnitudes below \<open>10^21\<close>.

  \<^bold>\<open>Not modelled.\<close> The static sections (\<^verbatim>\<open>Footer\<close>,
  \<^verbatim>\<open>HeroSection\<close>, \<^verbatim>\<open>WhoWeServe\<close>, \<^verbatim>\<open>StatSection\<close>,
  \<^verbatim>\<open>WhyTrustUs\<close>, \<^verbatim>\<open>app/page.tsx\<close>) render constant arrays once each and
  have no state or computation. Modelling them would only copy their text. The network requests
  themselves, \<open>JSON.parse\<close> (a parameter of the decoders), CSS, animations and
  rounding to binary doubles are also left out.
\<close>

section \<open>The personal calculator with the progressive schedule\<close>

text \<open>
  What the personal page shows when the PAYE service allocates the taxable income over
  the 2025 schedule (\<open>Brackets.allocate\<close> on \<open>Brackets.paye_2025\<close>) and
  \<^verbatim>\<open>calculateTax\<close> assembles the result (\<open>PersonalTax.tax_result_of\<close>).
\<close>

lemma progressive_result:
  assumes "income_amounts p = map Num is" and "deduction_amounts p = map Num ds"
    and "\<forall>x \<in> set ds. 0 \<le> x" and t: "t = max (sum_list is - sum_list ds) 0"
  defines "a \<equiv> total_tax (allocate t paye_2025)"
  shows "tax_result_of p (allocate t paye_2025) = tax_result_spec is ds (allocate t paye_2025)"
    and "0 \<le> a" and "a \<le> t / 4" and "sum_list (map taxPaid (allocate t paye_2025)) = a"
proof -
  show "tax_result_of p (allocate t paye_2025) = tax_result_spec is ds (allocate t paye_2025)"
    using assms(1,2) by (rule tax_result_of_finite)
  have "\<forall>b \<in> set paye_2025. bs_rate b \<le> 25"
    by (simp add: paye_2025_def band_of_def)
  then have "0 \<le> a \<and> a \<le> 25 / 100 * t"
    unfolding a_def using allocate_tax_bound [of t paye_2025 25] paye_2025_wf t by simp
  then show "0 \<le> a" and "a \<le> t / 4" by simp_all
  show "sum_list (map taxPaid (allocate t paye_2025)) = a" by (simp add: a_def total_tax_def)
qed

text \<open>C18: with the progressive schedule the page's summary adds up: the net income
  plus the annual tax is the taxable income, \<open>max (gross - deductions, 0)\<close>.\<close>

theorem personal_net_plus_tax:
  assumes "income_amounts p = map Num is" and "deduction_amounts p = map Num ds"
    and "\<forall>x \<in> set ds. 0 \<le> x" and "t = max (sum_list is - sum_list ds) 0"
  shows "taxableIncome (tax_result_of p (allocate t paye_2025)) = Num t \<and>
         netIncome (tax_result_of p (allocate t paye_2025)) =
           Num (t - total_tax (allocate t paye_2025))"
proof -
  note r = progressive_result [OF assms]
  let ?a = "total_tax (allocate t paye_2025)" and ?x = "sum_list is - sum_list ds"
  have "max (?x - ?a) 0 = t - ?a"
  proof (cases "0 \<le> ?x")
    case True
    then show ?thesis using r(3) assms(4) by simp
  next
    case False
    then have "t = 0" using assms(4) by simp
    then have "?a = 0" using r(2,3) by simp
    then show ?thesis using False \<open>t = 0\<close> by simp
  qed
  then show ?thesis unfolding r(1) using r(4) assms(4) by (simp add: tax_result_spec_def Let_def)
qed

theorem personal_net_plus_tax_witness:
  "taxableIncome (tax_result_of (mk_payload [5000000, 0, 0, 0, 0] [0, 0, 0, 0, 0, 0])
     (allocate 5000000 paye_2025)) = Num 5000000 \<and>
   netIncome (tax_result_of (mk_payload [5000000, 0, 0, 0, 0] [0, 0, 0, 0, 0, 0])
     (allocate 5000000 paye_2025)) = Num (5000000 - total_tax (allocate 5000000 paye_2025))"
  by (rule personal_net_plus_tax [of _ "[5000000, 0, 0, 0, 0]" "[0, 0, 0, 0, 0, 0]"])
     (simp_all add: mk_payload_def income_amounts_def deduction_amounts_def)

text \<open>C19: with the progressive schedule the effective rate the page prints lies
  between 0 and 25 percent, the top rate, whatever the incomes and (non-negative)
  deductions.\<close>

theorem personal_effective_rate_bound:
  assumes "income_amounts p = map Num is" and "deduction_amounts p = map Num ds"
    and "\<forall>x \<in> set ds. 0 \<le> x" and "t = max (sum_list is - sum_list ds) 0"
  shows "\<exists>e. effectiveRate (tax_result_of p (allocate t paye_2025)) = Num e \<and> 0 \<le> e \<and> e \<le> 25"
proof -
  note r = progressive_result [OF assms]
  let ?g = "sum_list is" and ?a = "total_tax (allocate t paye_2025)"
  have d: "0 \<le> sum_list ds" using assms(3) by (rule sum_list_nonneg_rat)
  show ?thesis
  proof (cases "0 < ?g")
    case True
    have "t \<le> ?g" using assms(4) d True by simp
    then have "?a \<le> ?g / 4" using r(3) by simp
    then have "?a / ?g * 100 \<le> 25" using True by (simp add: field_simps)
    moreover have "0 \<le> ?a / ?g * 100" using r(2) True by simp
    ultimately show ?thesis using True r(4) by (simp add: r(1) tax_result_spec_def Let_def)
  next
    case False
    then show ?thesis by (simp add: r(1) tax_result_spec_def Let_def)
  qed
qed

theorem personal_effective_rate_bound_witness:
  "\<exists>e. effectiveRate (tax_result_of (mk_payload [5000000, 0, 0, 0, 0] [0, 0, 0, 0, 0, 0])
     (allocate 5000000 paye_2025)) = Num e \<and> 0 \<le> e \<and> e \<le> 25"
  by (rule personal_effective_rate_bound [of _ "[5000000, 0, 0, 0, 0]" "[0, 0, 0, 0, 0, 0]"])
     (simp_all add: mk_payload_def income_amounts_def deduction_amounts_def)

text \<open>C38: with the 2025 schedule every bar of the personal breakdown has a width between
  0 and 100 percent, and for each bounded band it is exactly the share of the band's capacity
  the income fills: \<^verbatim>\<open>BAND_MAX\<close> holds the capacities of the schedule's bands.\<close>

theorem personal_bars_within:
  assumes "0 \<le> t" and "x \<in> set (allocate t paye_2025)"
  shows "\<exists>p. personal_pct x = Num p \<and> 0 \<le> p \<and> p \<le> 100 \<and>
             (rate x \<noteq> 25 \<longrightarrow> p = taxableAmount x / band_max_amount (rate x) * 100)"
proof -
  obtain b where b: "b \<in> set paye_2025" "rate x = bs_rate b"
    and le: "\<forall>c. bs_capacity b = Some c \<longrightarrow> taxableAmount x \<le> c" and nn: "0 \<le> taxableAmount x"
    using allocate_band_within [OF assms(1) paye_2025_wf(1) assms(2)] by blast
  have m: "0 < band_max_amount (rate x)" by (rule band_max_amount_pos)
  have "rate x \<noteq> 25 \<longrightarrow> taxableAmount x / band_max_amount (rate x) * 100 \<le> 100"
    using b le nn by (auto simp: paye_2025_def band_of_def band_max_amount_def BAND_MAX_def)
  moreover have "0 \<le> taxableAmount x / band_max_amount (rate x) * 100" using nn m by simp
  ultimately show ?thesis by (auto simp: personal_pct_min min_def)
qed

theorem personal_bars_within_witness:
  "\<exists>p. personal_pct (allocate 5000000 paye_2025 ! 2) = Num p \<and> 0 \<le> p \<and> p \<le> 100 \<and>
       (rate (allocate 5000000 paye_2025 ! 2) \<noteq> 25 \<longrightarrow>
        p = taxableAmount (allocate 5000000 paye_2025 ! 2) / band_max_amount (rate (allocate 5000000 paye_2025 ! 2)) * 100)"
  by (rule personal_bars_within [OF _ nth_mem]) (simp_all add: paye_2025_def)

end
